theory Spec2Isabelle
  imports Main
begin

section \<open>Data model of the master scheduler (agora.cc)\<close>

text \<open>
  The theory embeds the master event loop of \<^verbatim>\<open>Agora::Start\<close> and the member
  functions it calls.  Values of type \<^verbatim>\<open>size_t\<close> are natural numbers; the two places
  where the 64-bit representation is visible in the code are written out: the sentinel
  \<^verbatim>\<open>SIZE_MAX\<close> of the rendezvous tables and the subtraction \<^verbatim>\<open>FramesToTest() - 1\<close>.
  Time stamps, statistics and debug prints are not part of the state.
  A C++ exception, a failed assertion, \<^verbatim>\<open>std::exit\<close> and undefined behaviour are
  values of type \<open>error\<close>; \<^verbatim>\<open>assert\<close> is checked only when \<open>asserts_enabled\<close>
  holds (it is compiled out under \<^verbatim>\<open>NDEBUG\<close>), \<^verbatim>\<open>RtAssert\<close> always.
\<close>

datatype error =
    AssertFailed
  | RtAssertFailed
  | OutOfRange
  | EmptyQueueFront
  | DivByZero
  | WrongEventType
  | NoTag

definition SIZE_MAX :: nat where
  "SIZE_MAX = 18446744073709551615"

text \<open>Modelled from the spec: the symbol classes of the frame schedule (the
  declaration of \<^verbatim>\<open>SymbolType\<close> is not among the sources); \<open>kUnknown\<close> stands for a
  symbol id outside the schedule.\<close>

datatype SymbolType = kPilot | kUL | kDL | kCalDL | kCalUL | kGuard | kUnknown

text \<open>Modelled from the spec: the event kinds of section 3 (the declaration of
  \<^verbatim>\<open>EventType\<close> is not among the sources).\<close>

datatype EventType =
    kPacketRX | kFFT | kZF | kDemul | kDecode | kEncode | kPrecode | kIFFT
  | kPacketTX | kPacketToMac | kPacketFromMac | kSNRReport | kRANUpdate

text \<open>A decoded tag: frame, symbol and the third coordinate (antenna, subcarrier,
  code block or user, by the consuming stage).  For an RX event the three fields are the
  header of the packet the tag points to; for a \<open>kPacketFromMac\<close> event \<open>frame_id\<close> is
  the \<^verbatim>\<open>offset_\<close> field of the tag.\<close>

record gen_tag =
  frame_id :: nat
  symbol_id :: nat
  third_id :: nat

record EventData =
  event_type :: EventType
  tags :: "gen_tag list"

text \<open>An enqueue into a stage queue: the parity class \<open>qid\<close> and the event.\<close>

type_synonym enq = "nat \<times> EventData"

text \<open>The configuration object and the compile-time constants the code reads
  (\<^verbatim>\<open>kFrameWnd\<close>, \<^verbatim>\<open>kScheduleQueues\<close>, \<^verbatim>\<open>kEnableMac\<close> are declared outside the
  sources and are taken as parameters).\<close>

record Config =
  BsAntNum :: nat
  UeAntNum :: nat
  FftBlockSize :: nat
  ZfBatchSize :: nat
  ZfBlockSize :: nat
  ZfEventsPerSymbol :: nat
  DemulEventsPerSymbol :: nat
  DemulBlockSize :: nat
  EncodeBlockSize :: nat
  NumBlocksInSymbol :: nat
  SocketThreadNum :: nat
  NumChannels :: nat
  frame_symbols :: "SymbolType list"
  ClientDlPilotSymbols :: nat
  BigstationMode :: bool
  IsRecCalEnabled :: bool
  FramesToTest :: nat
  kEnableMac :: bool
  kFrameWnd :: nat
  kScheduleQueues :: nat
  asserts_enabled :: bool

subsection \<open>Frame schedule\<close>

text \<open>Modelled from the spec: the frame schedule enumerates the symbols of one frame
  in time order, tags each with its class and maps logical symbol indices to absolute
  ones (the class \<^verbatim>\<open>FrameStats\<close> behind \<^verbatim>\<open>Config::Frame()\<close> is not among the
  sources).  An index with no symbol maps to \<open>SIZE_MAX\<close>.\<close>

definition symbols_of :: "Config \<Rightarrow> SymbolType \<Rightarrow> nat list" where
  "symbols_of cfg ty =
     filter (\<lambda>i. frame_symbols cfg ! i = ty) [0..<length (frame_symbols cfg)]"

definition NumPilotSyms :: "Config \<Rightarrow> nat" where
  "NumPilotSyms cfg = length (symbols_of cfg kPilot)"

definition NumULSyms :: "Config \<Rightarrow> nat" where
  "NumULSyms cfg = length (symbols_of cfg kUL)"

definition NumDLSyms :: "Config \<Rightarrow> nat" where
  "NumDLSyms cfg = length (symbols_of cfg kDL)"

definition NumDlDataSyms :: "Config \<Rightarrow> nat" where
  "NumDlDataSyms cfg = NumDLSyms cfg - ClientDlPilotSymbols cfg"

definition GetSymbol :: "nat list \<Rightarrow> nat \<Rightarrow> nat" where
  "GetSymbol syms i = (if i < length syms then syms ! i else SIZE_MAX)"

fun GetSymbolIdx :: "nat list \<Rightarrow> nat \<Rightarrow> nat" where
  "GetSymbolIdx [] s = SIZE_MAX"
| "GetSymbolIdx (x # xs) s =
     (if x = s then 0
      else (let r = GetSymbolIdx xs s in if r = SIZE_MAX then SIZE_MAX else r + 1))"

definition GetULSymbol :: "Config \<Rightarrow> nat \<Rightarrow> nat" where
  "GetULSymbol cfg i = GetSymbol (symbols_of cfg kUL) i"

definition GetDLSymbol :: "Config \<Rightarrow> nat \<Rightarrow> nat" where
  "GetDLSymbol cfg i = GetSymbol (symbols_of cfg kDL) i"

definition GetULSymbolIdx :: "Config \<Rightarrow> nat \<Rightarrow> nat" where
  "GetULSymbolIdx cfg s = GetSymbolIdx (symbols_of cfg kUL) s"

definition GetDLSymbolIdx :: "Config \<Rightarrow> nat \<Rightarrow> nat" where
  "GetDLSymbolIdx cfg s = GetSymbolIdx (symbols_of cfg kDL) s"

definition GetSymbolType :: "Config \<Rightarrow> nat \<Rightarrow> SymbolType" where
  "GetSymbolType cfg s =
     (if s < length (frame_symbols cfg) then frame_symbols cfg ! s else kUnknown)"

definition IsPilot :: "Config \<Rightarrow> nat \<Rightarrow> nat \<Rightarrow> bool" where
  "IsPilot cfg frame symbol = (GetSymbolType cfg symbol = kPilot)"

definition IsCalDlPilot :: "Config \<Rightarrow> nat \<Rightarrow> nat \<Rightarrow> bool" where
  "IsCalDlPilot cfg frame symbol = (GetSymbolType cfg symbol = kCalDL)"

definition IsCalUlPilot :: "Config \<Rightarrow> nat \<Rightarrow> nat \<Rightarrow> bool" where
  "IsCalUlPilot cfg frame symbol = (GetSymbolType cfg symbol = kCalUL)"

subsection \<open>Stage counters\<close>

text \<open>Modelled from the spec: a stage counter holds, per frame slot, a task count per
  symbol and a count of complete symbols, with the configured maxima; completing a task
  (a symbol) increments the count and reports whether it has reached the maximum (the
  class \<^verbatim>\<open>FrameCounters\<close> is not among the sources).  A counter without symbol
  granularity keeps the single per-frame count in \<open>task_count slot 0\<close>.\<close>

record FrameCounters =
  task_count :: "nat \<Rightarrow> nat \<Rightarrow> nat"
  symbol_count :: "nat \<Rightarrow> nat"
  max_symbol_count :: nat
  max_task_count :: nat

definition Init :: "nat \<Rightarrow> nat \<Rightarrow> FrameCounters" where
  "Init max_symbols max_tasks =
     \<lparr> task_count = (\<lambda>slot symbol. 0), symbol_count = (\<lambda>slot. 0),
       max_symbol_count = max_symbols, max_task_count = max_tasks \<rparr>"

definition InitFrame :: "nat \<Rightarrow> FrameCounters" where
  "InitFrame max_tasks = Init 1 max_tasks"

definition Reset :: "nat \<Rightarrow> FrameCounters \<Rightarrow> nat \<Rightarrow> FrameCounters" where
  "Reset W c frame =
     c \<lparr> task_count := (task_count c)(frame mod W := (\<lambda>symbol. 0)),
         symbol_count := (symbol_count c)(frame mod W := 0) \<rparr>"

definition GetTaskCount :: "nat \<Rightarrow> FrameCounters \<Rightarrow> nat \<Rightarrow> nat \<Rightarrow> nat" where
  "GetTaskCount W c frame symbol = task_count c (frame mod W) symbol"

definition GetSymbolCount :: "nat \<Rightarrow> FrameCounters \<Rightarrow> nat \<Rightarrow> nat" where
  "GetSymbolCount W c frame = symbol_count c (frame mod W)"

definition IsLastTask :: "nat \<Rightarrow> FrameCounters \<Rightarrow> nat \<Rightarrow> nat \<Rightarrow> bool" where
  "IsLastTask W c frame symbol = (task_count c (frame mod W) symbol = max_task_count c)"

definition IsLastSymbol :: "nat \<Rightarrow> FrameCounters \<Rightarrow> nat \<Rightarrow> bool" where
  "IsLastSymbol W c frame = (symbol_count c (frame mod W) = max_symbol_count c)"

definition CompleteTask :: "nat \<Rightarrow> FrameCounters \<Rightarrow> nat \<Rightarrow> nat \<Rightarrow> FrameCounters \<times> bool" where
  "CompleteTask W c frame symbol =
     (let slot = frame mod W;
          c' = c \<lparr> task_count :=
                 (task_count c)(slot := (task_count c slot)(symbol := task_count c slot symbol + 1)) \<rparr>
      in (c', IsLastTask W c' frame symbol))"

definition CompleteTaskFrame :: "nat \<Rightarrow> FrameCounters \<Rightarrow> nat \<Rightarrow> FrameCounters \<times> bool" where
  "CompleteTaskFrame W c frame = CompleteTask W c frame 0"

definition CompleteSymbol :: "nat \<Rightarrow> FrameCounters \<Rightarrow> nat \<Rightarrow> FrameCounters \<times> bool" where
  "CompleteSymbol W c frame =
     (let slot = frame mod W;
          c' = c \<lparr> symbol_count := (symbol_count c)(slot := symbol_count c slot + 1) \<rparr>
      in (c', IsLastSymbol W c' frame))"

text \<open>The three packet counters of \<^verbatim>\<open>rx_counters_\<close>, arrays over the frame slots.\<close>

record RxCounters =
  num_pkts :: "nat \<Rightarrow> nat"
  num_pilot_pkts :: "nat \<Rightarrow> nat"
  num_reciprocity_pkts :: "nat \<Rightarrow> nat"
  num_pkts_per_frame :: nat
  num_pilot_pkts_per_frame :: nat
  num_reciprocity_pkts_per_frame :: nat

text \<open>Modelled from the spec: the completion flags of schedule-frame advancement, the
  named bits \<open>UplinkComplete\<close> and \<open>DownlinkComplete\<close>, which the code adds with
  \<^verbatim>\<open>+=\<close> and compares as \<^verbatim>\<open>uint8_t\<close> (the enum declaration is not among the sources).\<close>

definition kNone :: nat where "kNone = 0"
definition kUplinkComplete :: nat where "kUplinkComplete = 1"
definition kDownlinkComplete :: nat where "kDownlinkComplete = 2"
definition kProcessingComplete :: nat where
  "kProcessingComplete = kUplinkComplete + kDownlinkComplete"

subsection \<open>The state the master owns\<close>

record Agora =
  running :: bool
  cur_sche_frame_id :: nat
  cur_proc_frame_id :: nat
  schedule_process_flags :: nat
  zf_last_frame :: nat
  rc_last_frame :: nat
  fft_cur_frame_for_symbol :: "nat list"
  encode_cur_frame_for_symbol :: "nat list"
  ifft_cur_frame_for_symbol :: "nat list"
  ifft_next_symbol :: nat
  max_equaled_frame :: nat
  encode_deferral :: "nat list"
  fft_queue_arr :: "nat \<Rightarrow> gen_tag list"
  fft_created_count :: nat
  rx_counters :: RxCounters
  pilot_fft_counters :: FrameCounters
  uplink_fft_counters :: FrameCounters
  rc_counters :: FrameCounters
  zf_counters :: FrameCounters
  demul_counters :: FrameCounters
  decode_counters :: FrameCounters
  tomac_counters :: FrameCounters
  mac_to_phy_counters :: FrameCounters
  encode_counters :: FrameCounters
  precode_counters :: FrameCounters
  ifft_counters :: FrameCounters
  tx_counters :: FrameCounters
  dl_bits_buffer_status :: "nat \<Rightarrow> nat \<Rightarrow> nat"
  evm_snr_tag :: "nat \<Rightarrow> nat \<Rightarrow> gen_tag"
  sched_queue :: "enq list"
  mac_request_queue :: "EventData list"
  error_log :: "(nat \<times> nat \<times> nat) list"

text \<open>\<^verbatim>\<open>std::vector::at\<close>: a read or write outside the vector throws.\<close>

definition vec_at :: "nat list \<Rightarrow> nat \<Rightarrow> error + nat" where
  "vec_at v i = (if i < length v then Inr (v ! i) else Inl OutOfRange)"

definition vec_set :: "nat list \<Rightarrow> nat \<Rightarrow> nat \<Rightarrow> error + nat list" where
  "vec_set v i x = (if i < length v then Inr (v[i := x]) else Inl OutOfRange)"

definition mk_tag :: "nat \<Rightarrow> nat \<Rightarrow> nat \<Rightarrow> gen_tag" where
  "mk_tag frame symbol third = \<lparr> frame_id = frame, symbol_id = symbol, third_id = third \<rparr>"

definition mk_event :: "EventType \<Rightarrow> gen_tag list \<Rightarrow> EventData" where
  "mk_event ty ts = \<lparr> event_type = ty, tags = ts \<rparr>"

fun fold_r :: "('a \<Rightarrow> 's \<Rightarrow> error + 's) \<Rightarrow> 'a list \<Rightarrow> 's \<Rightarrow> error + 's" where
  "fold_r f [] s = Inr s"
| "fold_r f (x # xs) s = (case f x s of Inl e \<Rightarrow> Inl e | Inr s' \<Rightarrow> fold_r f xs s')"

definition enqueue :: "enq list \<Rightarrow> Agora \<Rightarrow> Agora" where
  "enqueue es s = s \<lparr> sched_queue := sched_queue s @ es \<rparr>"

section \<open>Fan-out of one stage\<close>

text \<open>The block loop shared by \<^verbatim>\<open>ScheduleAntennas\<close> and \<^verbatim>\<open>ScheduleCodeblocks\<close>:
  \<open>num_blocks\<close> events of \<open>block_size\<close> consecutive tags, the last one of
  \<open>num_remainder\<close> tags when the division leaves a remainder.  The loop state is
  \<^verbatim>\<open>event.num_tags_\<close>, the running third coordinate of \<^verbatim>\<open>base_tag\<close> and the
  events enqueued so far.\<close>

definition block_loop ::
  "EventType \<Rightarrow> nat \<Rightarrow> nat \<Rightarrow> nat \<Rightarrow> nat \<Rightarrow> enq list" where
  "block_loop ty frame symbol num_tasks block_size =
     (let num_remainder = num_tasks mod block_size;
          num_blocks = num_tasks div block_size + (if 0 < num_remainder then 1 else 0);
          qid = frame mod 2
      in snd (snd (fold
           (\<lambda>i (num_tags, third, acc).
              let n = (if i = num_blocks - 1 \<and> 0 < num_remainder then num_remainder else num_tags)
              in (n, third + n,
                  acc @ [(qid, mk_event ty (map (mk_tag frame symbol) [third..<third + n]))]))
           [0..<num_blocks] (block_size, 0, []))))"

definition ScheduleAntennas :: "Config \<Rightarrow> EventType \<Rightarrow> nat \<Rightarrow> nat \<Rightarrow> error + enq list" where
  "ScheduleAntennas cfg ty frame symbol =
     (if asserts_enabled cfg \<and> ty \<noteq> kFFT \<and> ty \<noteq> kIFFT then Inl AssertFailed
      else if FftBlockSize cfg = 0 then Inl DivByZero
      else Inr (block_loop ty frame symbol (BsAntNum cfg) (FftBlockSize cfg)))"

definition ScheduleCodeblocks :: "Config \<Rightarrow> EventType \<Rightarrow> nat \<Rightarrow> nat \<Rightarrow> error + enq list" where
  "ScheduleCodeblocks cfg ty frame symbol_idx =
     (if EncodeBlockSize cfg = 0 then Inl DivByZero
      else Inr (block_loop ty frame symbol_idx
                  (UeAntNum cfg * NumBlocksInSymbol cfg) (EncodeBlockSize cfg)))"

text \<open>\<^verbatim>\<open>ScheduleAntennasTX\<close>: each socket thread gets up to
  \<open>ceil_events_per_handler\<close> single-tag events, antennas in increasing order, all in
  the TX queue of class 0.\<close>

definition ScheduleAntennasTX :: "Config \<Rightarrow> nat \<Rightarrow> nat \<Rightarrow> error + enq list" where
  "ScheduleAntennasTX cfg frame symbol =
     (let total_antennas = BsAntNum cfg;
          handler_threads = SocketThreadNum cfg
      in if handler_threads = 0 then Inl DivByZero
      else let rem_antennas = total_antennas mod handler_threads;
               floor_events_per_handler = total_antennas div handler_threads;
               ceil_events_per_handler =
                 floor_events_per_handler + (if 0 < rem_antennas then 1 else 0)
      in if asserts_enabled cfg \<and> NumChannels cfg = 0 then Inl DivByZero
      else if asserts_enabled cfg \<and> ceil_events_per_handler mod NumChannels cfg \<noteq> 0
        then Inl AssertFailed
      else Inr (snd (fold
           (\<lambda>radio_handler (schedule_antenna, acc).
              let ants = take ceil_events_per_handler [schedule_antenna..<total_antennas]
              in (schedule_antenna + length ants,
                  acc @ map (\<lambda>a. (0, mk_event kPacketTX [mk_tag frame symbol a])) ants))
           [0..<handler_threads] (0, []))))"

text \<open>\<^verbatim>\<open>ScheduleSubcarriers\<close>.  ZF events carry \<open>ZfBatchSize\<close> tags (the last one
  the remainder), and the subcarrier of tag \<open>j\<close> of block \<open>i\<close> is computed from the
  current \<^verbatim>\<open>event.num_tags_\<close>, as in the code.  For an event type other than the
  three of the switch the code asserts false; with assertions compiled out it goes on
  with \<^verbatim>\<open>num_events\<close> and \<^verbatim>\<open>block_size\<close> both \<^verbatim>\<open>SIZE_MAX\<close>.\<close>

definition ScheduleSubcarriers :: "Config \<Rightarrow> EventType \<Rightarrow> nat \<Rightarrow> nat \<Rightarrow> error + enq list" where
  "ScheduleSubcarriers cfg ty frame symbol =
     (let qid = frame mod 2 in
      if ty = kZF then
        (let num_events = ZfEventsPerSymbol cfg; block_size = ZfBlockSize cfg in
         if ZfBatchSize cfg = 0 then Inl DivByZero
         else let num_remainder = num_events mod ZfBatchSize cfg;
                  num_blocks = num_events div ZfBatchSize cfg + (if 0 < num_remainder then 1 else 0)
         in Inr (snd (fold
              (\<lambda>i (num_tags, acc).
                 let n = (if i = num_blocks - 1 \<and> 0 < num_remainder then num_remainder else num_tags)
                 in (n, acc @ [(qid, mk_event ty
                       (map (\<lambda>j. mk_tag frame symbol (block_size * (i * n + j))) [0..<n]))]))
              [0..<num_blocks] (ZfBatchSize cfg, []))))
      else if ty = kDemul \<or> ty = kPrecode then
        Inr (map (\<lambda>i. (qid, mk_event ty [mk_tag frame symbol (i * DemulBlockSize cfg)]))
               [0..<DemulEventsPerSymbol cfg])
      else if asserts_enabled cfg then Inl AssertFailed
      else Inr (map (\<lambda>i. (qid, mk_event ty [mk_tag frame symbol (i * SIZE_MAX)])) [0..<SIZE_MAX]))"

definition ScheduleUsers :: "Config \<Rightarrow> EventType \<Rightarrow> nat \<Rightarrow> nat \<Rightarrow> Agora \<Rightarrow> error + Agora" where
  "ScheduleUsers cfg ty frame symbol s =
     (if asserts_enabled cfg \<and> ty \<noteq> kPacketToMac then Inl AssertFailed
      else Inr (s \<lparr> mac_request_queue := mac_request_queue s @
                  map (\<lambda>i. mk_event kPacketToMac [mk_tag frame symbol i]) [0..<UeAntNum cfg] \<rparr>))"

text \<open>\<^verbatim>\<open>SendSnrReport\<close>: one event of two tags per user, the second tag word holding the
  SNR that \<^verbatim>\<open>phy_stats_->GetEvmSnr(frame_id, i)\<close> returns.  The statistics object is not
  among the sources; the word it yields is read from the state field \<open>evm_snr_tag\<close>.\<close>

definition SendSnrReport :: "Config \<Rightarrow> EventType \<Rightarrow> nat \<Rightarrow> nat \<Rightarrow> Agora \<Rightarrow> error + Agora" where
  "SendSnrReport cfg ty frame symbol s =
     (if asserts_enabled cfg \<and> ty \<noteq> kSNRReport then Inl AssertFailed
      else Inr (s \<lparr> mac_request_queue := mac_request_queue s @
                  map (\<lambda>i. mk_event kSNRReport [mk_tag frame symbol i, evm_snr_tag s frame i])
                    [0..<UeAntNum cfg] \<rparr>))"

section \<open>Schedule-frame advancement, downlink scheduling, retirement\<close>

definition CheckIncrementScheduleFrame :: "Config \<Rightarrow> Agora \<Rightarrow> nat \<Rightarrow> nat \<Rightarrow> error + Agora" where
  "CheckIncrementScheduleFrame cfg s frame completed =
     (let s1 = s \<lparr> schedule_process_flags := (schedule_process_flags s + completed) mod 256 \<rparr>
      in if asserts_enabled cfg \<and> cur_sche_frame_id s1 \<noteq> frame then Inl AssertFailed
      else if schedule_process_flags s1 = kProcessingComplete then
        Inr (s1 \<lparr> cur_sche_frame_id := cur_sche_frame_id s1 + 1,
                   schedule_process_flags :=
                     kNone + (if NumULSyms cfg = 0 then kUplinkComplete else 0)
                           + (if NumDLSyms cfg = 0 then kDownlinkComplete else 0) \<rparr>)
      else Inr s1)"

definition ScheduleDownlinkProcessing :: "Config \<Rightarrow> Agora \<Rightarrow> nat \<Rightarrow> error + Agora" where
  "ScheduleDownlinkProcessing cfg s frame =
     (let num_pilot_symbols = ClientDlPilotSymbols cfg in
      case fold_r
             (\<lambda>i st.
                if zf_last_frame st = frame then
                  (case ScheduleSubcarriers cfg kPrecode frame (GetDLSymbol cfg i) of
                     Inl e \<Rightarrow> Inl e
                   | Inr es \<Rightarrow> Inr (enqueue es st))
                else
                  (case vec_set (encode_cur_frame_for_symbol st) i frame of
                     Inl e \<Rightarrow> Inl e
                   | Inr v \<Rightarrow> Inr (st \<lparr> encode_cur_frame_for_symbol := v \<rparr>)))
             [0..<num_pilot_symbols] s of
        Inl e \<Rightarrow> Inl e
      | Inr s1 \<Rightarrow>
          fold_r
            (\<lambda>i st.
               case ScheduleCodeblocks cfg kEncode frame (GetDLSymbol cfg i) of
                 Inl e \<Rightarrow> Inl e
               | Inr es \<Rightarrow> Inr (enqueue es st))
            [num_pilot_symbols..<NumDLSyms cfg] s1)"

text \<open>The drain loop of \<^verbatim>\<open>CheckFrameComplete\<close>: at most \<open>kScheduleQueues\<close> rounds,
  each reading \<^verbatim>\<open>encode_deferral_.front()\<close> with no emptiness test of its own
  (\<^verbatim>\<open>front()\<close> of an empty \<^verbatim>\<open>std::queue\<close> is undefined behaviour).\<close>

fun drain_deferral :: "Config \<Rightarrow> nat \<Rightarrow> Agora \<Rightarrow> error + Agora" where
  "drain_deferral cfg 0 s = Inr s"
| "drain_deferral cfg (Suc n) s =
     (case encode_deferral s of
        [] \<Rightarrow> Inl EmptyQueueFront
      | deferred_frame # rest \<Rightarrow>
          if deferred_frame < cur_proc_frame_id s + kScheduleQueues cfg then
            if \<not> (deferred_frame \<ge> cur_proc_frame_id s) then Inl RtAssertFailed
            else (case ScheduleDownlinkProcessing cfg s deferred_frame of
                    Inl e \<Rightarrow> Inl e
                  | Inr s' \<Rightarrow>
                      drain_deferral cfg n (s' \<lparr> encode_deferral := tl (encode_deferral s') \<rparr>))
          else Inr s)"

definition CheckFrameComplete :: "Config \<Rightarrow> Agora \<Rightarrow> nat \<Rightarrow> error + Agora \<times> bool" where
  "CheckFrameComplete cfg s frame =
     (let W = kFrameWnd cfg in
      if IsLastSymbol W (ifft_counters s) frame \<and>
         IsLastSymbol W (tx_counters s) frame \<and>
         ((\<not> kEnableMac cfg \<and> IsLastSymbol W (decode_counters s) frame) \<or>
          (kEnableMac cfg \<and> IsLastSymbol W (tomac_counters s) frame)) then
        if asserts_enabled cfg \<and> frame \<noteq> cur_proc_frame_id s then Inl AssertFailed
        else
          let s1 = s \<lparr> decode_counters := Reset W (decode_counters s) frame,
                        tomac_counters := Reset W (tomac_counters s) frame,
                        ifft_counters := Reset W (ifft_counters s) frame,
                        tx_counters := Reset W (tx_counters s) frame \<rparr>;
              s2 = (if 0 < NumDLSyms cfg then
                      s1 \<lparr> dl_bits_buffer_status :=
                             (\<lambda>ue_id slot.
                                if ue_id < UeAntNum cfg \<and> slot = frame mod W then 0
                                else dl_bits_buffer_status s1 ue_id slot) \<rparr>
                    else s1);
              s3 = s2 \<lparr> cur_proc_frame_id := cur_proc_frame_id s2 + 1 \<rparr>
          in case (if encode_deferral s3 \<noteq> [] then drain_deferral cfg (kScheduleQueues cfg) s3
                   else Inr s3) of
               Inl e \<Rightarrow> Inl e
             | Inr s4 \<Rightarrow>
                 Inr (s4, frame = (FramesToTest cfg + 18446744073709551616 - 1) mod 18446744073709551616)
      else Inr (s, False))"

section \<open>Event handlers of the master loop\<close>

text \<open>\<^verbatim>\<open>UpdateRxCounters\<close>, called for every accepted RX packet.\<close>

definition UpdateRxCounters :: "Config \<Rightarrow> Agora \<Rightarrow> nat \<Rightarrow> nat \<Rightarrow> error + Agora" where
  "UpdateRxCounters cfg s frame symbol =
     (let frame_slot = frame mod kFrameWnd cfg;
          rx = rx_counters s;
          rx1 =
            (if IsPilot cfg frame symbol then
               (let r = rx \<lparr> num_pilot_pkts := (num_pilot_pkts rx)(frame_slot := num_pilot_pkts rx frame_slot + 1) \<rparr>
                in if num_pilot_pkts r frame_slot = num_pilot_pkts_per_frame r
                   then r \<lparr> num_pilot_pkts := (num_pilot_pkts r)(frame_slot := 0) \<rparr> else r)
             else if IsCalDlPilot cfg frame symbol \<or> IsCalUlPilot cfg frame symbol then
               (let r = rx \<lparr> num_reciprocity_pkts :=
                             (num_reciprocity_pkts rx)(frame_slot := num_reciprocity_pkts rx frame_slot + 1) \<rparr>
                in if num_reciprocity_pkts r frame_slot = num_reciprocity_pkts_per_frame r
                   then r \<lparr> num_reciprocity_pkts := (num_reciprocity_pkts r)(frame_slot := 0) \<rparr> else r)
             else rx);
          s1 = s \<lparr> rx_counters := rx1 \<rparr>
      in case (if num_pkts rx1 frame_slot = 0 \<and> \<not> kEnableMac cfg then
                 (if encode_deferral s1 \<noteq> [] \<or>
                     frame \<ge> cur_proc_frame_id s1 + kScheduleQueues cfg
                  then Inr (s1 \<lparr> encode_deferral := encode_deferral s1 @ [frame] \<rparr>)
                  else ScheduleDownlinkProcessing cfg s1 frame)
               else Inr s1) of
           Inl e \<Rightarrow> Inl e
         | Inr s2 \<Rightarrow>
             (let rx2 = rx_counters s2;
                  rx3 = rx2 \<lparr> num_pkts := (num_pkts rx2)(frame_slot := num_pkts rx2 frame_slot + 1) \<rparr>;
                  rx4 = (if num_pkts rx3 frame_slot = num_pkts_per_frame rx3
                         then rx3 \<lparr> num_pkts := (num_pkts rx3)(frame_slot := 0) \<rparr> else rx3)
              in Inr (s2 \<lparr> rx_counters := rx4 \<rparr>)))"

text \<open>The \<^verbatim>\<open>kPacketRX\<close> case of the switch.\<close>

definition handle_packet_rx :: "Config \<Rightarrow> Agora \<Rightarrow> EventData \<Rightarrow> error + Agora" where
  "handle_packet_rx cfg s ev =
     (case tags ev of
        [] \<Rightarrow> Inl NoTag
      | pkt # _ \<Rightarrow>
          if frame_id pkt \<ge> cur_sche_frame_id s + kFrameWnd cfg then
            Inr (s \<lparr> running := False,
                     error_log := error_log s @
                       [(frame_id pkt, cur_sche_frame_id s, kFrameWnd cfg)] \<rparr>)
          else
            (case UpdateRxCounters cfg s (frame_id pkt) (symbol_id pkt) of
               Inl e \<Rightarrow> Inl e
             | Inr s1 \<Rightarrow>
                 Inr (s1 \<lparr> fft_queue_arr :=
                        (fft_queue_arr s1)(frame_id pkt mod kFrameWnd cfg :=
                           fft_queue_arr s1 (frame_id pkt mod kFrameWnd cfg) @ [pkt]) \<rparr>)))"

text \<open>\<^verbatim>\<open>HandleEventFft\<close>, called for each tag of a \<^verbatim>\<open>kFFT\<close> completion.\<close>

definition HandleEventFft :: "Config \<Rightarrow> gen_tag \<Rightarrow> Agora \<Rightarrow> error + Agora" where
  "HandleEventFft cfg tag s =
     (let W = kFrameWnd cfg; frame = frame_id tag; symbol = symbol_id tag;
          sym_type = GetSymbolType cfg symbol
      in if sym_type = kPilot then
        (let (c, last_fft_task) = CompleteTask W (pilot_fft_counters s) frame symbol;
             s1 = s \<lparr> pilot_fft_counters := c \<rparr>
         in if last_fft_task then
           if \<not> IsRecCalEnabled cfg \<or> (IsRecCalEnabled cfg \<and> rc_last_frame s1 = frame) then
             (let (c2, last_pilot_fft) = CompleteSymbol W (pilot_fft_counters s1) frame;
                  s2 = s1 \<lparr> pilot_fft_counters := c2 \<rparr>
              in if last_pilot_fft then
                (let s3 = s2 \<lparr> pilot_fft_counters := Reset W (pilot_fft_counters s2) frame \<rparr> in
                 case (if kEnableMac cfg then SendSnrReport cfg kSNRReport frame symbol s3
                       else Inr s3) of
                   Inl e \<Rightarrow> Inl e
                 | Inr s4 \<Rightarrow>
                     (case ScheduleSubcarriers cfg kZF frame 0 of
                        Inl e \<Rightarrow> Inl e
                      | Inr es \<Rightarrow> Inr (enqueue es s4)))
              else Inr s2)
           else Inr s1
         else Inr s1)
      else if sym_type = kUL then
        (let symbol_idx_ul = GetULSymbolIdx cfg symbol;
             (c, last_fft_per_symbol) = CompleteTask W (uplink_fft_counters s) frame symbol;
             s1 = s \<lparr> uplink_fft_counters := c \<rparr>
         in if last_fft_per_symbol then
           (case vec_set (fft_cur_frame_for_symbol s1) symbol_idx_ul frame of
              Inl e \<Rightarrow> Inl e
            | Inr v \<Rightarrow>
                (let s2 = s1 \<lparr> fft_cur_frame_for_symbol := v \<rparr> in
                 case (if zf_last_frame s2 = frame then
                         (case ScheduleSubcarriers cfg kDemul frame symbol of
                            Inl e \<Rightarrow> Inl e
                          | Inr es \<Rightarrow> Inr (enqueue es s2))
                       else Inr s2) of
                   Inl e \<Rightarrow> Inl e
                 | Inr s3 \<Rightarrow>
                     (let (c2, last_uplink_fft) = CompleteSymbol W (uplink_fft_counters s3) frame;
                          s4 = s3 \<lparr> uplink_fft_counters := c2 \<rparr>
                      in if last_uplink_fft
                         then Inr (s4 \<lparr> uplink_fft_counters := Reset W (uplink_fft_counters s4) frame \<rparr>)
                         else Inr s4)))
         else Inr s1)
      else if sym_type = kCalDL \<or> sym_type = kCalUL then
        (let (c, last_rc_task) = CompleteTaskFrame W (rc_counters s) frame;
             s1 = s \<lparr> rc_counters := c \<rparr>
         in if last_rc_task
            then Inr (s1 \<lparr> rc_counters := Reset W (rc_counters s1) frame, rc_last_frame := frame \<rparr>)
            else Inr s1)
      else Inr s)"

text \<open>One tag of a \<^verbatim>\<open>kZF\<close> completion (the body of the loop over the tags).\<close>

definition handle_zf_tag :: "Config \<Rightarrow> gen_tag \<Rightarrow> Agora \<Rightarrow> error + Agora" where
  "handle_zf_tag cfg tag s =
     (let W = kFrameWnd cfg; frame = frame_id tag;
          (c, last_zf_task) = CompleteTaskFrame W (zf_counters s) frame;
          s1 = s \<lparr> zf_counters := c \<rparr>
      in if last_zf_task then
        (let s2 = s1 \<lparr> zf_last_frame := frame, zf_counters := Reset W (zf_counters s1) frame \<rparr> in
         case fold_r
                (\<lambda>i st.
                   case vec_at (fft_cur_frame_for_symbol st) i of
                     Inl e \<Rightarrow> Inl e
                   | Inr v \<Rightarrow>
                       if v = frame then
                         (case ScheduleSubcarriers cfg kDemul frame (GetULSymbol cfg i) of
                            Inl e \<Rightarrow> Inl e
                          | Inr es \<Rightarrow> Inr (enqueue es st))
                       else Inr st)
                [0..<NumULSyms cfg] s2 of
           Inl e \<Rightarrow> Inl e
         | Inr s3 \<Rightarrow>
             fold_r
               (\<lambda>i st.
                  case vec_at (encode_cur_frame_for_symbol st) i of
                    Inl e \<Rightarrow> Inl e
                  | Inr last_encoded_frame \<Rightarrow>
                      if last_encoded_frame \<noteq> SIZE_MAX \<and> last_encoded_frame \<ge> frame then
                        (case ScheduleSubcarriers cfg kPrecode frame (GetDLSymbol cfg i) of
                           Inl e \<Rightarrow> Inl e
                         | Inr es \<Rightarrow> Inr (enqueue es st))
                      else Inr st)
               [0..<NumDLSyms cfg] s3)
      else Inr s1)"

text \<open>The \<^verbatim>\<open>kDemul\<close> case.\<close>

definition handle_demul :: "Config \<Rightarrow> Agora \<Rightarrow> EventData \<Rightarrow> error + Agora" where
  "handle_demul cfg s ev =
     (case tags ev of
        [] \<Rightarrow> Inl NoTag
      | tag # _ \<Rightarrow>
          (let W = kFrameWnd cfg; frame = frame_id tag; symbol = symbol_id tag;
               (c, last_demul_task) = CompleteTask W (demul_counters s) frame symbol;
               s1 = s \<lparr> demul_counters := c \<rparr>
           in if last_demul_task then
             (case ScheduleCodeblocks cfg kDecode frame symbol of
                Inl e \<Rightarrow> Inl e
              | Inr es \<Rightarrow>
                  (let s2 = enqueue es s1;
                       (c2, last_demul_symbol) = CompleteSymbol W (demul_counters s2) frame;
                       s3 = s2 \<lparr> demul_counters := c2 \<rparr>
                   in if last_demul_symbol then
                     (let s4 = s3 \<lparr> demul_counters := Reset W (demul_counters s3) frame,
                                   max_equaled_frame := frame \<rparr>
                      in if \<not> BigstationMode cfg then
                        (if asserts_enabled cfg \<and> cur_sche_frame_id s4 \<noteq> frame then Inl AssertFailed
                         else CheckIncrementScheduleFrame cfg s4 frame kUplinkComplete)
                      else
                        (case ScheduleCodeblocks cfg kDecode frame symbol of
                           Inl e \<Rightarrow> Inl e
                         | Inr es2 \<Rightarrow> Inr (enqueue es2 s4)))
                   else Inr s3))
           else Inr s1))"

text \<open>The \<^verbatim>\<open>kDecode\<close> case; the flag returned is \<^verbatim>\<open>goto finish\<close>.\<close>

definition handle_decode :: "Config \<Rightarrow> Agora \<Rightarrow> EventData \<Rightarrow> error + Agora \<times> bool" where
  "handle_decode cfg s ev =
     (case tags ev of
        [] \<Rightarrow> Inl NoTag
      | tag # _ \<Rightarrow>
          (let W = kFrameWnd cfg; frame = frame_id tag; symbol = symbol_id tag;
               (c, last_decode_task) = CompleteTask W (decode_counters s) frame symbol;
               s1 = s \<lparr> decode_counters := c \<rparr>
           in if last_decode_task then
             (case (if kEnableMac cfg then ScheduleUsers cfg kPacketToMac frame symbol s1
                    else Inr s1) of
                Inl e \<Rightarrow> Inl e
              | Inr s2 \<Rightarrow>
                  (let (c2, last_decode_symbol) = CompleteSymbol W (decode_counters s2) frame;
                       s3 = s2 \<lparr> decode_counters := c2 \<rparr>
                   in if last_decode_symbol \<and> \<not> kEnableMac cfg then
                     (if asserts_enabled cfg \<and> cur_proc_frame_id s3 \<noteq> frame then Inl AssertFailed
                      else CheckFrameComplete cfg s3 frame)
                   else Inr (s3, False)))
           else Inr (s1, False)))"

text \<open>The \<^verbatim>\<open>kPacketToMac\<close> case.\<close>

definition handle_packet_to_mac :: "Config \<Rightarrow> Agora \<Rightarrow> EventData \<Rightarrow> error + Agora \<times> bool" where
  "handle_packet_to_mac cfg s ev =
     (case tags ev of
        [] \<Rightarrow> Inl NoTag
      | tag # _ \<Rightarrow>
          (let W = kFrameWnd cfg; frame = frame_id tag; symbol = symbol_id tag;
               (c, last_tomac_task) = CompleteTask W (tomac_counters s) frame symbol;
               s1 = s \<lparr> tomac_counters := c \<rparr>
           in if last_tomac_task then
             (let (c2, last_tomac_symbol) = CompleteSymbol W (tomac_counters s1) frame;
                  s2 = s1 \<lparr> tomac_counters := c2 \<rparr>
              in if last_tomac_symbol then
                (if asserts_enabled cfg \<and> cur_proc_frame_id s2 \<noteq> frame then Inl AssertFailed
                 else CheckFrameComplete cfg s2 frame)
              else Inr (s2, False))
           else Inr (s1, False)))"

text \<open>The \<^verbatim>\<open>kPacketFromMac\<close> case.\<close>

definition handle_packet_from_mac :: "Config \<Rightarrow> Agora \<Rightarrow> EventData \<Rightarrow> error + Agora" where
  "handle_packet_from_mac cfg s ev =
     (case tags ev of
        [] \<Rightarrow> Inl NoTag
      | tag # _ \<Rightarrow>
          (let W = kFrameWnd cfg; frame = frame_id tag;
               (c, last_ue) = CompleteTask W (mac_to_phy_counters s) frame 0;
               s1 = s \<lparr> mac_to_phy_counters := c \<rparr>
           in if last_ue then
             (case (if encode_deferral s1 \<noteq> [] \<or>
                       frame \<ge> cur_proc_frame_id s1 + kScheduleQueues cfg
                    then Inr (s1 \<lparr> encode_deferral := encode_deferral s1 @ [frame] \<rparr>)
                    else ScheduleDownlinkProcessing cfg s1 frame) of
                Inl e \<Rightarrow> Inl e
              | Inr s2 \<Rightarrow>
                  Inr (s2 \<lparr> mac_to_phy_counters := Reset W (mac_to_phy_counters s2) frame \<rparr>))
           else Inr s1))"

text \<open>One tag of a \<^verbatim>\<open>kEncode\<close> completion.\<close>

definition handle_encode_tag :: "Config \<Rightarrow> gen_tag \<Rightarrow> Agora \<Rightarrow> error + Agora" where
  "handle_encode_tag cfg tag s =
     (let W = kFrameWnd cfg; frame = frame_id tag; symbol = symbol_id tag;
          (c, last_encode_task) = CompleteTask W (encode_counters s) frame symbol;
          s1 = s \<lparr> encode_counters := c \<rparr>
      in if last_encode_task then
        (case vec_set (encode_cur_frame_for_symbol s1) (GetDLSymbolIdx cfg symbol) frame of
           Inl e \<Rightarrow> Inl e
         | Inr v \<Rightarrow>
             (let s2 = s1 \<lparr> encode_cur_frame_for_symbol := v \<rparr> in
              case (if zf_last_frame s2 = frame then
                      (case ScheduleSubcarriers cfg kPrecode frame symbol of
                         Inl e \<Rightarrow> Inl e
                       | Inr es \<Rightarrow> Inr (enqueue es s2))
                    else Inr s2) of
                Inl e \<Rightarrow> Inl e
              | Inr s3 \<Rightarrow>
                  (let (c2, last_encode_symbol) = CompleteSymbol W (encode_counters s3) frame;
                       s4 = s3 \<lparr> encode_counters := c2 \<rparr>
                   in if last_encode_symbol
                      then Inr (s4 \<lparr> encode_counters := Reset W (encode_counters s4) frame \<rparr>)
                      else Inr s4)))
      else Inr s1)"

text \<open>The \<^verbatim>\<open>kPrecode\<close> case.\<close>

definition handle_precode :: "Config \<Rightarrow> Agora \<Rightarrow> EventData \<Rightarrow> error + Agora" where
  "handle_precode cfg s ev =
     (case tags ev of
        [] \<Rightarrow> Inl NoTag
      | tag # _ \<Rightarrow>
          (let W = kFrameWnd cfg; frame = frame_id tag; symbol = symbol_id tag;
               (c, last_precode_task) = CompleteTask W (precode_counters s) frame symbol;
               s1 = s \<lparr> precode_counters := c \<rparr>
           in if last_precode_task then
             (case ScheduleAntennas cfg kIFFT frame symbol of
                Inl e \<Rightarrow> Inl e
              | Inr es \<Rightarrow>
                  (let s2 = enqueue es s1;
                       (c2, last_precode_symbol) = CompleteSymbol W (precode_counters s2) frame;
                       s3 = s2 \<lparr> precode_counters := c2 \<rparr>
                   in if last_precode_symbol
                      then Inr (s3 \<lparr> precode_counters := Reset W (precode_counters s3) frame \<rparr>)
                      else Inr s3))
           else Inr s1))"

text \<open>The in-order TX loop of the \<^verbatim>\<open>kIFFT\<close> case: from \<open>sym_id\<close> up to the bound
  \<^verbatim>\<open>ifft_counters_.GetSymbolCount(frame_id)\<close>, as long as the rendezvous entry is the
  frame.\<close>

function tx_loop :: "Config \<Rightarrow> nat \<Rightarrow> nat \<Rightarrow> nat \<Rightarrow> Agora \<Rightarrow> error + Agora" where
  "tx_loop cfg frame bound sym_id s =
     (if sym_id \<le> bound then
        (case vec_at (ifft_cur_frame_for_symbol s) sym_id of
           Inl e \<Rightarrow> Inl e
         | Inr symbol_ifft_frame \<Rightarrow>
             if symbol_ifft_frame = frame then
               (case ScheduleAntennasTX cfg frame (GetDLSymbol cfg sym_id) of
                  Inl e \<Rightarrow> Inl e
                | Inr es \<Rightarrow>
                    tx_loop cfg frame bound (sym_id + 1)
                      ((enqueue es s) \<lparr> ifft_next_symbol := ifft_next_symbol s + 1 \<rparr>))
             else Inr s)
      else Inr s)"
  by pat_completeness auto
termination
  by (relation "measure (\<lambda>(cfg, frame, bound, sym_id, s). Suc bound - sym_id)") auto

text \<open>One tag of a \<^verbatim>\<open>kIFFT\<close> completion.\<close>

definition handle_ifft_tag :: "Config \<Rightarrow> gen_tag \<Rightarrow> Agora \<Rightarrow> error + Agora \<times> bool" where
  "handle_ifft_tag cfg tag s =
     (let W = kFrameWnd cfg; frame = frame_id tag; symbol = symbol_id tag;
          symbol_idx_dl = GetDLSymbolIdx cfg symbol;
          (c, last_ifft_task) = CompleteTask W (ifft_counters s) frame symbol;
          s1 = s \<lparr> ifft_counters := c \<rparr>
      in if last_ifft_task then
        (case vec_set (ifft_cur_frame_for_symbol s1) symbol_idx_dl frame of
           Inl e \<Rightarrow> Inl e
         | Inr v \<Rightarrow>
             (let s2 = s1 \<lparr> ifft_cur_frame_for_symbol := v \<rparr> in
              case (if symbol_idx_dl = ifft_next_symbol s2
                    then tx_loop cfg frame (GetSymbolCount W (ifft_counters s2) frame) symbol_idx_dl s2
                    else Inr s2) of
                Inl e \<Rightarrow> Inl e
              | Inr s3 \<Rightarrow>
                  (let (c2, last_ifft_symbol) = CompleteSymbol W (ifft_counters s3) frame;
                       s4 = s3 \<lparr> ifft_counters := c2 \<rparr>
                   in if last_ifft_symbol then
                     (let s5 = s4 \<lparr> ifft_next_symbol := 0 \<rparr> in
                      if asserts_enabled cfg \<and> frame \<noteq> cur_proc_frame_id s5 then Inl AssertFailed
                      else (case CheckIncrementScheduleFrame cfg s5 frame kDownlinkComplete of
                              Inl e \<Rightarrow> Inl e
                            | Inr s6 \<Rightarrow> CheckFrameComplete cfg s6 frame))
                   else Inr (s4, False))))
      else Inr (s1, False))"

text \<open>The \<^verbatim>\<open>kPacketTX\<close> case.\<close>

definition handle_packet_tx :: "Config \<Rightarrow> Agora \<Rightarrow> EventData \<Rightarrow> error + Agora \<times> bool" where
  "handle_packet_tx cfg s ev =
     (case tags ev of
        [] \<Rightarrow> Inl NoTag
      | tag # _ \<Rightarrow>
          (let W = kFrameWnd cfg; frame = frame_id tag; symbol = symbol_id tag;
               (c, last_tx_task) = CompleteTask W (tx_counters s) frame symbol;
               s1 = s \<lparr> tx_counters := c \<rparr>
           in if last_tx_task then
             (let (c2, last_tx_symbol) = CompleteSymbol W (tx_counters s1) frame;
                  s2 = s1 \<lparr> tx_counters := c2 \<rparr>
              in if last_tx_symbol then CheckFrameComplete cfg s2 frame
                 else Inr (s2, False))
           else Inr (s1, False)))"

text \<open>A loop over the tags of an event whose body may \<^verbatim>\<open>goto finish\<close>.\<close>

fun for_tags ::
  "(gen_tag \<Rightarrow> Agora \<Rightarrow> error + Agora \<times> bool) \<Rightarrow> gen_tag list \<Rightarrow> Agora \<Rightarrow> error + Agora \<times> bool" where
  "for_tags f [] s = Inr (s, False)"
| "for_tags f (t # ts) s =
     (case f t s of
        Inl e \<Rightarrow> Inl e
      | Inr (s', finished) \<Rightarrow> if finished then Inr (s', True) else for_tags f ts s')"

definition no_finish :: "error + Agora \<Rightarrow> error + Agora \<times> bool" where
  "no_finish r = (case r of Inl e \<Rightarrow> Inl e | Inr s \<Rightarrow> Inr (s, False))"

text \<open>The FFT dispatch after the switch: whole blocks of \<open>FftBlockSize\<close> tags are taken
  from the backlog of the slot \<open>cur_sche_frame_id\<close> had when the event was handled.\<close>

definition fft_pop_tag :: "Config \<Rightarrow> nat \<Rightarrow> gen_tag list \<times> Agora \<Rightarrow> error + gen_tag list \<times> Agora" where
  "fft_pop_tag cfg slot p =
     (let (acc, s) = p in
      case fft_queue_arr s slot of
        [] \<Rightarrow> Inl EmptyQueueFront
      | t # rest \<Rightarrow>
          (let s1 = s \<lparr> fft_queue_arr := (fft_queue_arr s)(slot := rest),
                        fft_created_count := fft_created_count s + 1 \<rparr>
           in if fft_created_count s1 = num_pkts_per_frame (rx_counters s1) then
             (let s2 = s1 \<lparr> fft_created_count := 0 \<rparr> in
              if BigstationMode cfg then
                (case CheckIncrementScheduleFrame cfg s2 (cur_sche_frame_id s2) kUplinkComplete of
                   Inl e \<Rightarrow> Inl e
                 | Inr s3 \<Rightarrow> Inr (acc @ [t], s3))
              else Inr (acc @ [t], s2))
           else Inr (acc @ [t], s1)))"

definition schedule_fft :: "Config \<Rightarrow> Agora \<Rightarrow> error + Agora" where
  "schedule_fft cfg s =
     (let slot = cur_sche_frame_id s mod kFrameWnd cfg;
          qid = cur_sche_frame_id s mod 2;
          size = length (fft_queue_arr s slot)
      in if size \<ge> FftBlockSize cfg then
        if FftBlockSize cfg = 0 then Inl DivByZero
        else
          fold_r
            (\<lambda>i st.
               case fold_r (\<lambda>j. fft_pop_tag cfg slot) [0..<FftBlockSize cfg] ([], st) of
                 Inl e \<Rightarrow> Inl e
               | Inr (ts, st') \<Rightarrow> Inr (enqueue [(qid, mk_event kFFT ts)] st'))
            [0..<size div FftBlockSize cfg] s
      else Inr s)"

text \<open>The switch over the event type.  A \<^verbatim>\<open>kRANUpdate\<close> event changes the modulation
  of the configuration object only, which is no part of this state; every other event
  type ends the process (\<^verbatim>\<open>std::exit\<close>).\<close>

definition handle_switch :: "Config \<Rightarrow> Agora \<Rightarrow> EventData \<Rightarrow> error + Agora \<times> bool" where
  "handle_switch cfg s ev =
     (case event_type ev of
        kPacketRX \<Rightarrow> no_finish (handle_packet_rx cfg s ev)
      | kFFT \<Rightarrow> no_finish (fold_r (HandleEventFft cfg) (tags ev) s)
      | kZF \<Rightarrow> no_finish (fold_r (handle_zf_tag cfg) (tags ev) s)
      | kDemul \<Rightarrow> no_finish (handle_demul cfg s ev)
      | kDecode \<Rightarrow> handle_decode cfg s ev
      | kRANUpdate \<Rightarrow> Inr (s, False)
      | kPacketToMac \<Rightarrow> handle_packet_to_mac cfg s ev
      | kPacketFromMac \<Rightarrow> no_finish (handle_packet_from_mac cfg s ev)
      | kEncode \<Rightarrow> no_finish (fold_r (handle_encode_tag cfg) (tags ev) s)
      | kPrecode \<Rightarrow> no_finish (handle_precode cfg s ev)
      | kIFFT \<Rightarrow> for_tags (handle_ifft_tag cfg) (tags ev) s
      | kPacketTX \<Rightarrow> handle_packet_tx cfg s ev
      | kSNRReport \<Rightarrow> Inl WrongEventType)"

text \<open>One round of the loop over the dequeued events: the switch, then the FFT dispatch
  unless the handler jumped to \<^verbatim>\<open>finish\<close>.\<close>

definition handle_event :: "Config \<Rightarrow> Agora \<Rightarrow> EventData \<Rightarrow> error + Agora \<times> bool" where
  "handle_event cfg s ev =
     (case handle_switch cfg s ev of
        Inl e \<Rightarrow> Inl e
      | Inr (s1, finished) \<Rightarrow>
          if finished then Inr (s1, True)
          else no_finish (schedule_fft cfg s1))"

fun run_events :: "Config \<Rightarrow> Agora \<Rightarrow> EventData list \<Rightarrow> error + Agora \<times> bool" where
  "run_events cfg s [] = Inr (s, False)"
| "run_events cfg s (ev # evs) =
     (case handle_event cfg s ev of
        Inl e \<Rightarrow> Inl e
      | Inr (s1, finished) \<Rightarrow> if finished then Inr (s1, True) else run_events cfg s1 evs)"

section \<open>The constructor\<close>

text \<open>The state the constructor leaves: \<^verbatim>\<open>CheckIncrementScheduleFrame(0,
  kProcessingComplete)\<close> on the freshly constructed object, both frame ids set to 0,
  then the counters and rendezvous tables of \<^verbatim>\<open>InitializeUplinkBuffers\<close> and
  \<^verbatim>\<open>InitializeDownlinkBuffers\<close> (the downlink ones only when the frame has downlink
  symbols; a counter never initialised has maxima 0).  The member initialisers of the
  class declaration are not among the sources: the completion flags and
  \<open>ifft_next_symbol\<close> start at 0, \<open>zf_last_frame\<close>, \<open>rc_last_frame\<close> and
  \<open>max_equaled_frame\<close> at \<open>SIZE_MAX\<close>.\<close>

definition fresh_state :: "Config \<Rightarrow> Agora" where
  "fresh_state cfg =
     \<lparr> running = True, cur_sche_frame_id = 0, cur_proc_frame_id = 0,
       schedule_process_flags = kNone,
       zf_last_frame = SIZE_MAX, rc_last_frame = SIZE_MAX,
       fft_cur_frame_for_symbol = replicate (NumULSyms cfg) SIZE_MAX,
       encode_cur_frame_for_symbol =
         (if 0 < NumDLSyms cfg then replicate (NumDLSyms cfg) SIZE_MAX else []),
       ifft_cur_frame_for_symbol =
         (if 0 < NumDLSyms cfg then replicate (NumDLSyms cfg) SIZE_MAX else []),
       ifft_next_symbol = 0, max_equaled_frame = SIZE_MAX,
       encode_deferral = [], fft_queue_arr = (\<lambda>slot. []), fft_created_count = 0,
       rx_counters =
         \<lparr> num_pkts = (\<lambda>slot. 0), num_pilot_pkts = (\<lambda>slot. 0),
           num_reciprocity_pkts = (\<lambda>slot. 0),
           num_pkts_per_frame =
             BsAntNum cfg * (NumPilotSyms cfg + NumULSyms cfg + (if IsRecCalEnabled cfg then 1 else 0)),
           num_pilot_pkts_per_frame = BsAntNum cfg * NumPilotSyms cfg,
           num_reciprocity_pkts_per_frame = BsAntNum cfg \<rparr>,
       pilot_fft_counters = Init (NumPilotSyms cfg) (BsAntNum cfg),
       uplink_fft_counters = Init (NumULSyms cfg) (BsAntNum cfg),
       rc_counters = InitFrame (BsAntNum cfg),
       zf_counters = InitFrame (ZfEventsPerSymbol cfg),
       demul_counters = Init (NumULSyms cfg) (DemulEventsPerSymbol cfg),
       decode_counters = Init (NumULSyms cfg) (NumBlocksInSymbol cfg * UeAntNum cfg),
       tomac_counters = Init (NumULSyms cfg) (UeAntNum cfg),
       mac_to_phy_counters =
         (if 0 < NumDLSyms cfg then Init 1 (UeAntNum cfg) else Init 0 0),
       encode_counters =
         (if 0 < NumDLSyms cfg
          then Init (NumDlDataSyms cfg) (NumBlocksInSymbol cfg * UeAntNum cfg) else Init 0 0),
       precode_counters =
         (if 0 < NumDLSyms cfg then Init (NumDLSyms cfg) (DemulEventsPerSymbol cfg) else Init 0 0),
       ifft_counters =
         (if 0 < NumDLSyms cfg then Init (NumDLSyms cfg) (BsAntNum cfg) else Init 0 0),
       tx_counters =
         (if 0 < NumDLSyms cfg then Init (NumDLSyms cfg) (BsAntNum cfg) else Init 0 0),
       dl_bits_buffer_status = (\<lambda>ue_id slot. 0),
       evm_snr_tag = (\<lambda>frame ue_id. \<lparr> frame_id = 0, symbol_id = 0, third_id = 0 \<rparr>),
       sched_queue = [], mac_request_queue = [], error_log = [] \<rparr>"

definition AgoraNew :: "Config \<Rightarrow> error + Agora" where
  "AgoraNew cfg =
     (case CheckIncrementScheduleFrame cfg (fresh_state cfg) 0 kProcessingComplete of
        Inl e \<Rightarrow> Inl e
      | Inr s \<Rightarrow> Inr (s \<lparr> cur_sche_frame_id := 0, cur_proc_frame_id := 0 \<rparr>))"

section \<open>Observations on the stage queues\<close>

text \<open>The events a fan-out function enqueues (none when it fails).\<close>

definition the_enqs :: "error + enq list \<Rightarrow> enq list" where
  "the_enqs r = (case r of Inl e \<Rightarrow> [] | Inr es \<Rightarrow> es)"

text \<open>The frames of the Encode tags in a queue, in queue order.\<close>

definition encode_frames :: "enq list \<Rightarrow> nat list" where
  "encode_frames q =
     concat (map (\<lambda>qe. if event_type (snd qe) = kEncode then map frame_id (tags (snd qe)) else []) q)"

text \<open>The TX events of one frame in a queue, in queue order, and the TX events of the
  first \<open>n\<close> downlink symbols of a frame, as \<open>ScheduleAntennasTX\<close> enqueues them in
  increasing symbol index.\<close>

definition tx_of_frame :: "nat \<Rightarrow> enq list \<Rightarrow> enq list" where
  "tx_of_frame frame q =
     filter (\<lambda>qe. event_type (snd qe) = kPacketTX \<and>
                  list_all (\<lambda>t. frame_id t = frame) (tags (snd qe))) q"

definition tx_events_upto :: "Config \<Rightarrow> nat \<Rightarrow> nat \<Rightarrow> enq list" where
  "tx_events_upto cfg frame n =
     concat (map (\<lambda>i. the_enqs (ScheduleAntennasTX cfg frame (GetDLSymbol cfg i))) [0..<n])"

text \<open>The events \<open>ScheduleDownlinkProcessing\<close> enqueues for a frame: Precode for the
  client pilot symbols when ZF of the frame is done, then Encode for the data symbols.\<close>

definition downlink_events :: "Config \<Rightarrow> bool \<Rightarrow> nat \<Rightarrow> enq list" where
  "downlink_events cfg zf_done frame =
     (if zf_done
      then concat (map (\<lambda>i. the_enqs (ScheduleSubcarriers cfg kPrecode frame (GetDLSymbol cfg i)))
                    [0..<ClientDlPilotSymbols cfg])
      else []) @
     concat (map (\<lambda>i. the_enqs (ScheduleCodeblocks cfg kEncode frame (GetDLSymbol cfg i)))
              [ClientDlPilotSymbols cfg..<NumDLSyms cfg])"

section \<open>Example configurations and states\<close>

text \<open>The minimal configuration of the scenarios: four antennas, two users, one pilot,
  two uplink and two downlink symbols, a window of four frames, no MAC, no calibration.\<close>

definition cfg_min :: Config where
  "cfg_min =
     \<lparr> BsAntNum = 4, UeAntNum = 2, FftBlockSize = 2, ZfBatchSize = 1, ZfBlockSize = 1,
       ZfEventsPerSymbol = 8, DemulEventsPerSymbol = 2, DemulBlockSize = 4,
       EncodeBlockSize = 1, NumBlocksInSymbol = 1, SocketThreadNum = 1, NumChannels = 1,
       frame_symbols = [kPilot, kUL, kUL, kDL, kDL], ClientDlPilotSymbols = 0,
       BigstationMode = False, IsRecCalEnabled = False, FramesToTest = 3,
       kEnableMac = False, kFrameWnd = 4, kScheduleQueues = 2, asserts_enabled = True \<rparr>"

text \<open>A counter one task short of the last task of every symbol and one symbol short
  of the last symbol of every frame.\<close>

definition almost_done :: "nat \<Rightarrow> nat \<Rightarrow> FrameCounters" where
  "almost_done max_symbols max_tasks =
     \<lparr> task_count = (\<lambda>slot symbol. max_tasks - 1), symbol_count = (\<lambda>slot. max_symbols - 1),
       max_symbol_count = max_symbols, max_task_count = max_tasks \<rparr>"

text \<open>The minimal configuration with one client downlink pilot symbol and a single ZF
  task per frame, and the events of its first frame used below: the first RX packet and
  the ZF completion.\<close>

definition cfg_pilot :: Config where
  "cfg_pilot = cfg_min \<lparr> ZfEventsPerSymbol := 1, ClientDlPilotSymbols := 1 \<rparr>"

text \<open>The stage queue after the master, started by the constructor, has handled a list
  of events (empty when the constructor or a handler fails).\<close>

definition final_queue :: "Config \<Rightarrow> EventData list \<Rightarrow> enq list" where
  "final_queue cfg evs =
     (case AgoraNew cfg of
        Inl e \<Rightarrow> []
      | Inr s0 \<Rightarrow>
          (case run_events cfg s0 evs of
             Inl e \<Rightarrow> []
           | Inr r \<Rightarrow> sched_queue (fst r)))"


text \<open>A counter whose symbol count of one frame slot has reached its maximum, and the
  state of a configuration in which IFFT, TX and Decode have completed the last symbol
  of frame 0 and nothing else has happened.\<close>

definition symbols_done :: "FrameCounters \<Rightarrow> nat \<Rightarrow> FrameCounters" where
  "symbols_done c slot = c \<lparr> symbol_count := (symbol_count c)(slot := max_symbol_count c) \<rparr>"

definition frame0_done :: "Config \<Rightarrow> Agora" where
  "frame0_done cfg =
     (fresh_state cfg)
       \<lparr> ifft_counters := symbols_done (ifft_counters (fresh_state cfg)) 0,
         tx_counters := symbols_done (tx_counters (fresh_state cfg)) 0,
         decode_counters := symbols_done (decode_counters (fresh_state cfg)) 0 \<rparr>"

text \<open>The state \<open>CheckFrameComplete\<close> reaches for a complete frame before it looks at the
  deferral queue: the four counters of the frame reset, the downlink bit buffers of the
  frame slot marked free, \<open>cur_proc_frame_id\<close> advanced.\<close>

definition retired :: "Config \<Rightarrow> Agora \<Rightarrow> nat \<Rightarrow> Agora" where
  "retired cfg s frame =
     s \<lparr> decode_counters := Reset (kFrameWnd cfg) (decode_counters s) frame,
         tomac_counters := Reset (kFrameWnd cfg) (tomac_counters s) frame,
         ifft_counters := Reset (kFrameWnd cfg) (ifft_counters s) frame,
         tx_counters := Reset (kFrameWnd cfg) (tx_counters s) frame,
         dl_bits_buffer_status :=
           (if 0 < NumDLSyms cfg
            then (\<lambda>ue_id slot.
                    if ue_id < UeAntNum cfg \<and> slot = frame mod kFrameWnd cfg then 0
                    else dl_bits_buffer_status s ue_id slot)
            else dl_bits_buffer_status s),
         cur_proc_frame_id := cur_proc_frame_id s + 1 \<rparr>"

text \<open>A configuration with reciprocal calibration: one antenna, two pilot symbols with the
  calibration symbol between them.  And the minimal configuration with ZF batches of
  three tasks, which do not divide the eight ZF tasks of a frame, over blocks of two
  subcarriers.\<close>

definition cfg_cal :: Config where
  "cfg_cal = cfg_min \<lparr> BsAntNum := 1, FftBlockSize := 1,
                       frame_symbols := [kPilot, kCalDL, kPilot], IsRecCalEnabled := True \<rparr>"

definition cfg_rem :: Config where
  "cfg_rem = cfg_min \<lparr> ZfBatchSize := 3, ZfBlockSize := 2 \<rparr>"
section \<open>Auxiliary facts\<close>

lemma the_enqs_Inr [simp]: "the_enqs (Inr es) = es"
  by (simp add: the_enqs_def)

lemma enqueue_Nil [simp]: "enqueue [] s = s"
  by (simp add: enqueue_def)

lemma enqueue_enqueue [simp]: "enqueue a (enqueue b s) = enqueue (b @ a) s"
  by (simp add: enqueue_def)

lemma enqueue_proj [simp]:
  "sched_queue (enqueue es s) = sched_queue s @ es"
  "fft_cur_frame_for_symbol (enqueue es s) = fft_cur_frame_for_symbol s"
  "encode_cur_frame_for_symbol (enqueue es s) = encode_cur_frame_for_symbol s"
  "ifft_cur_frame_for_symbol (enqueue es s) = ifft_cur_frame_for_symbol s"
  "zf_last_frame (enqueue es s) = zf_last_frame s"
  "cur_proc_frame_id (enqueue es s) = cur_proc_frame_id s"
  "cur_sche_frame_id (enqueue es s) = cur_sche_frame_id s"
  "encode_deferral (enqueue es s) = encode_deferral s"
  "ifft_next_symbol (enqueue es s) = ifft_next_symbol s"
  "ifft_counters (enqueue es s) = ifft_counters s"
  by (simp_all add: enqueue_def)

subsection \<open>The events of the fan-out functions\<close>

lemma ScheduleSubcarriers_blocks:
  "ty = kDemul \<or> ty = kPrecode \<Longrightarrow>
   ScheduleSubcarriers cfg ty frame symbol =
     Inr (map (\<lambda>i. (frame mod 2, mk_event ty [mk_tag frame symbol (i * DemulBlockSize cfg)]))
            [0..<DemulEventsPerSymbol cfg])"
  by (auto simp add: ScheduleSubcarriers_def)

lemma fold_inv:
  assumes "\<And>x st. P (obs st) \<Longrightarrow> P (obs (f x st))" and "P (obs st)"
  shows "P (obs (fold f xs st))"
  using assms(2) by (induction xs arbitrary: st) (auto intro: assms(1))

lemma block_loop_kind:
  "\<forall>e\<in>set (map snd (block_loop ty frame symbol n b)).
      event_type e = ty \<and> list_all (\<lambda>t. frame_id t = frame) (tags e)"
  unfolding block_loop_def Let_def
  by (rule fold_inv [where obs = "\<lambda>st. snd (snd st)"])
     (auto simp add: mk_event_def mk_tag_def list_all_iff)

lemma ScheduleCodeblocks_kind:
  "\<forall>e\<in>set (map snd (the_enqs (ScheduleCodeblocks cfg ty frame symbol))).
      event_type e = ty \<and> list_all (\<lambda>t. frame_id t = frame) (tags e)"
proof (cases "EncodeBlockSize cfg = 0")
  case True
  then show ?thesis by (simp add: ScheduleCodeblocks_def the_enqs_def)
next
  case False
  then have "the_enqs (ScheduleCodeblocks cfg ty frame symbol) =
      block_loop ty frame symbol (UeAntNum cfg * NumBlocksInSymbol cfg) (EncodeBlockSize cfg)"
    by (simp add: ScheduleCodeblocks_def)
  then show ?thesis using block_loop_kind [of ty frame symbol "UeAntNum cfg * NumBlocksInSymbol cfg" "EncodeBlockSize cfg"] by simp
qed

lemma ScheduleAntennas_kind:
  "\<forall>e\<in>set (map snd (the_enqs (ScheduleAntennas cfg ty frame symbol))).
      event_type e = ty \<and> list_all (\<lambda>t. frame_id t = frame) (tags e)"
proof (cases "ScheduleAntennas cfg ty frame symbol")
  case (Inl e)
  then show ?thesis by (simp add: the_enqs_def)
next
  case (Inr es)
  then have "es = block_loop ty frame symbol (BsAntNum cfg) (FftBlockSize cfg)"
    by (simp add: ScheduleAntennas_def split: if_splits)
  with Inr show ?thesis using block_loop_kind [of ty frame symbol "BsAntNum cfg" "FftBlockSize cfg"] by simp
qed

lemma ScheduleSubcarriers_kind_blocks:
  "ty = kDemul \<or> ty = kPrecode \<Longrightarrow>
   \<forall>e\<in>set (map snd (the_enqs (ScheduleSubcarriers cfg ty frame symbol))).
      event_type e = ty \<and> list_all (\<lambda>t. frame_id t = frame) (tags e)"
  by (auto simp add: ScheduleSubcarriers_blocks mk_event_def mk_tag_def)

lemma ScheduleSubcarriers_kind_zf:
  "\<forall>e\<in>set (map snd (the_enqs (ScheduleSubcarriers cfg kZF frame symbol))). event_type e = kZF"
proof (cases "ZfBatchSize cfg = 0")
  case True
  then show ?thesis by (simp add: ScheduleSubcarriers_def the_enqs_def)
next
  case False
  then show ?thesis
    unfolding ScheduleSubcarriers_def Let_def
    apply (simp only: if_True if_False refl the_enqs_Inr)
    apply (rule fold_inv [where obs = snd])
     apply (auto simp add: mk_event_def)
    done
qed

lemma ScheduleAntennasTX_kind:
  "\<forall>e\<in>set (map snd (the_enqs (ScheduleAntennasTX cfg frame symbol))).
      event_type e = kPacketTX \<and> list_all (\<lambda>t. frame_id t = frame) (tags e)"
proof (cases "ScheduleAntennasTX cfg frame symbol")
  case (Inl e)
  then show ?thesis by (simp add: the_enqs_def)
next
  case (Inr es)
  then have "es = snd (fold
           (\<lambda>radio_handler (schedule_antenna, acc).
              (schedule_antenna + length (take (BsAntNum cfg div SocketThreadNum cfg +
                               (if 0 < BsAntNum cfg mod SocketThreadNum cfg then 1 else 0))
                           [schedule_antenna..<BsAntNum cfg]),
                  acc @ map (\<lambda>a. (0, mk_event kPacketTX [mk_tag frame symbol a]))
                    (take (BsAntNum cfg div SocketThreadNum cfg +
                               (if 0 < BsAntNum cfg mod SocketThreadNum cfg then 1 else 0))
                           [schedule_antenna..<BsAntNum cfg])))
           [0..<SocketThreadNum cfg] (0, []))"
    by (simp add: ScheduleAntennasTX_def Let_def split: if_splits)
  moreover have "\<forall>e\<in>set (map snd (snd (fold
           (\<lambda>radio_handler (schedule_antenna, acc).
              (schedule_antenna + length (take (BsAntNum cfg div SocketThreadNum cfg +
                               (if 0 < BsAntNum cfg mod SocketThreadNum cfg then 1 else 0))
                           [schedule_antenna..<BsAntNum cfg]),
                  acc @ map (\<lambda>a. (0, mk_event kPacketTX [mk_tag frame symbol a]))
                    (take (BsAntNum cfg div SocketThreadNum cfg +
                               (if 0 < BsAntNum cfg mod SocketThreadNum cfg then 1 else 0))
                           [schedule_antenna..<BsAntNum cfg])))
           [0..<SocketThreadNum cfg] (0, [])))).
      event_type e = kPacketTX \<and> list_all (\<lambda>t. frame_id t = frame) (tags e)"
    by (rule fold_inv [where obs = snd])
       (force simp add: mk_event_def mk_tag_def list_all_iff)+
  ultimately show ?thesis using Inr by (simp only: the_enqs_Inr)
qed

lemma zf_fold_prefix:
  assumes "0 < r \<Longrightarrow> k \<le> nb - 1"
  shows "fold
           (\<lambda>i (num_tags, acc).
              let n = (if i = nb - 1 \<and> 0 < r then r else num_tags)
              in (n, acc @ [(qid, mk_event kZF
                    (map (\<lambda>j. mk_tag frame symbol (bs * (i * n + j))) [0..<n]))]))
           [0..<k] (b, acc) =
         (b, acc @ map (\<lambda>i. (qid, mk_event kZF
                    (map (\<lambda>j. mk_tag frame symbol (bs * (i * b + j))) [0..<b]))) [0..<k])"
  using assms
proof (induction k)
  case 0
  then show ?case by simp
next
  case (Suc k)
  have ih: "fold
           (\<lambda>i (num_tags, acc).
              let n = (if i = nb - 1 \<and> 0 < r then r else num_tags)
              in (n, acc @ [(qid, mk_event kZF
                    (map (\<lambda>j. mk_tag frame symbol (bs * (i * n + j))) [0..<n]))]))
           [0..<k] (b, acc) =
         (b, acc @ map (\<lambda>i. (qid, mk_event kZF
                    (map (\<lambda>j. mk_tag frame symbol (bs * (i * b + j))) [0..<b]))) [0..<k])"
    using Suc.prems by (intro Suc.IH) simp
  have k: "\<not> (k = nb - 1 \<and> 0 < r)"
    using Suc.prems by (cases "0 < r") auto
  show ?case
    using k ih by (auto simp add: Let_def)
qed

lemma ScheduleSubcarriers_zf_shape:
  assumes "ZfBatchSize cfg \<noteq> 0"
  shows "ScheduleSubcarriers cfg kZF frame symbol =
     Inr (map (\<lambda>i. (frame mod 2, mk_event kZF
                 (map (\<lambda>j. mk_tag frame symbol (ZfBlockSize cfg * (i * ZfBatchSize cfg + j)))
                    [0..<ZfBatchSize cfg])))
            [0..<ZfEventsPerSymbol cfg div ZfBatchSize cfg] @
          (if 0 < ZfEventsPerSymbol cfg mod ZfBatchSize cfg
           then [(frame mod 2, mk_event kZF
                  (map (\<lambda>j. mk_tag frame symbol
                          (ZfBlockSize cfg *
                            (ZfEventsPerSymbol cfg div ZfBatchSize cfg *
                               (ZfEventsPerSymbol cfg mod ZfBatchSize cfg) + j)))
                     [0..<ZfEventsPerSymbol cfg mod ZfBatchSize cfg]))]
           else []))"
proof (cases "0 < ZfEventsPerSymbol cfg mod ZfBatchSize cfg")
  case True
  then show ?thesis
    using assms
      zf_fold_prefix [of "ZfEventsPerSymbol cfg mod ZfBatchSize cfg"
        "ZfEventsPerSymbol cfg div ZfBatchSize cfg"
        "ZfEventsPerSymbol cfg div ZfBatchSize cfg + 1"
        "frame mod 2" frame symbol "ZfBlockSize cfg" "ZfBatchSize cfg" "[]"]
    by (simp add: ScheduleSubcarriers_def Let_def)
next
  case False
  then show ?thesis
    using assms
      zf_fold_prefix [of "ZfEventsPerSymbol cfg mod ZfBatchSize cfg"
        "ZfEventsPerSymbol cfg div ZfBatchSize cfg"
        "ZfEventsPerSymbol cfg div ZfBatchSize cfg"
        "frame mod 2" frame symbol "ZfBlockSize cfg" "ZfBatchSize cfg" "[]"]
    by (simp add: ScheduleSubcarriers_def Let_def)
qed

subsection \<open>Loops over the rendezvous tables\<close>

lemma fold_r_fft_cur:
  assumes "\<forall>i\<in>set xs. i < length (fft_cur_frame_for_symbol s)"
  shows "fold_r
           (\<lambda>i st.
              case vec_at (fft_cur_frame_for_symbol st) i of
                Inl e \<Rightarrow> Inl e
              | Inr v \<Rightarrow>
                  if v = frame then
                    (case ScheduleSubcarriers cfg kDemul frame (G i) of
                       Inl e \<Rightarrow> Inl e
                     | Inr es \<Rightarrow> Inr (enqueue es st))
                  else Inr st)
           xs s =
         Inr (enqueue (concat (map (\<lambda>i. if fft_cur_frame_for_symbol s ! i = frame
                                          then the_enqs (ScheduleSubcarriers cfg kDemul frame (G i))
                                          else []) xs)) s)"
  using assms
  by (induction xs arbitrary: s) (simp_all add: vec_at_def ScheduleSubcarriers_blocks)

lemma fold_r_encode_cur:
  assumes "\<forall>i\<in>set xs. i < length (encode_cur_frame_for_symbol s)"
  shows "fold_r
           (\<lambda>i st.
              case vec_at (encode_cur_frame_for_symbol st) i of
                Inl e \<Rightarrow> Inl e
              | Inr last_encoded_frame \<Rightarrow>
                  if last_encoded_frame \<noteq> SIZE_MAX \<and> last_encoded_frame \<ge> frame then
                    (case ScheduleSubcarriers cfg kPrecode frame (G i) of
                       Inl e \<Rightarrow> Inl e
                     | Inr es \<Rightarrow> Inr (enqueue es st))
                  else Inr st)
           xs s =
         Inr (enqueue (concat (map (\<lambda>i. if encode_cur_frame_for_symbol s ! i \<noteq> SIZE_MAX \<and>
                                             encode_cur_frame_for_symbol s ! i \<ge> frame
                                          then the_enqs (ScheduleSubcarriers cfg kPrecode frame (G i))
                                          else []) xs)) s)"
  using assms
  by (induction xs arbitrary: s) (simp_all add: vec_at_def ScheduleSubcarriers_blocks)

lemma handle_zf_tag_last:
  assumes "CompleteTaskFrame (kFrameWnd cfg) (zf_counters s) (frame_id tag) = (c, True)"
    and "length (fft_cur_frame_for_symbol s) = NumULSyms cfg"
    and "length (encode_cur_frame_for_symbol s) = NumDLSyms cfg"
  shows "handle_zf_tag cfg tag s =
           Inr (enqueue
             (concat (map (\<lambda>i. if fft_cur_frame_for_symbol s ! i = frame_id tag
                               then the_enqs (ScheduleSubcarriers cfg kDemul (frame_id tag) (GetULSymbol cfg i))
                               else []) [0..<NumULSyms cfg]) @
              concat (map (\<lambda>i. if encode_cur_frame_for_symbol s ! i \<noteq> SIZE_MAX \<and>
                                  encode_cur_frame_for_symbol s ! i \<ge> frame_id tag
                               then the_enqs (ScheduleSubcarriers cfg kPrecode (frame_id tag) (GetDLSymbol cfg i))
                               else []) [0..<NumDLSyms cfg]))
             (s \<lparr> zf_last_frame := frame_id tag,
                  zf_counters := Reset (kFrameWnd cfg) c (frame_id tag) \<rparr>))"
  using assms
  by (simp add: handle_zf_tag_def Let_def fold_r_fft_cur fold_r_encode_cur)

lemma handle_zf_tag_not_last:
  assumes "CompleteTaskFrame (kFrameWnd cfg) (zf_counters s) (frame_id tag) = (c, False)"
  shows "handle_zf_tag cfg tag s = Inr (s \<lparr> zf_counters := c \<rparr>)"
  using assms by (simp add: handle_zf_tag_def Let_def)

lemma HandleEventFft_UL:
  assumes "GetSymbolType cfg (symbol_id tag) = kUL"
    and "CompleteTask (kFrameWnd cfg) (uplink_fft_counters s) (frame_id tag) (symbol_id tag) = (c, is_last)"
  shows "(\<not> is_last \<longrightarrow> HandleEventFft cfg tag s = Inr (s \<lparr> uplink_fft_counters := c \<rparr>))
       \<and> (is_last \<and> GetULSymbolIdx cfg (symbol_id tag) < length (fft_cur_frame_for_symbol s) \<longrightarrow>
            (\<exists>s'. HandleEventFft cfg tag s = Inr s' \<and>
               zf_last_frame s' = zf_last_frame s \<and>
               fft_cur_frame_for_symbol s' =
                 (fft_cur_frame_for_symbol s)[GetULSymbolIdx cfg (symbol_id tag) := frame_id tag] \<and>
               sched_queue s' = sched_queue s @
                 (if zf_last_frame s = frame_id tag
                  then the_enqs (ScheduleSubcarriers cfg kDemul (frame_id tag) (symbol_id tag))
                  else [])))
       \<and> (is_last \<and> \<not> GetULSymbolIdx cfg (symbol_id tag) < length (fft_cur_frame_for_symbol s) \<longrightarrow>
            HandleEventFft cfg tag s = Inl OutOfRange)"
  using assms
  by (auto simp add: HandleEventFft_def Let_def vec_set_def ScheduleSubcarriers_blocks split: prod.splits)

lemma HandleEventFft_pilot:
  assumes "GetSymbolType cfg (symbol_id tag) = kPilot"
    and "CompleteTask (kFrameWnd cfg) (pilot_fft_counters s) (frame_id tag) (symbol_id tag) = (c1, last_task)"
    and "CompleteSymbol (kFrameWnd cfg) c1 (frame_id tag) = (c2, last_pilot)"
    and "ZfBatchSize cfg \<noteq> 0"
  shows "\<exists>s'. HandleEventFft cfg tag s = Inr s' \<and>
           sched_queue s' = sched_queue s @
             (if last_task \<and> (\<not> IsRecCalEnabled cfg \<or> rc_last_frame s = frame_id tag) \<and> last_pilot
              then the_enqs (ScheduleSubcarriers cfg kZF (frame_id tag) 0) else [])"
  using assms
  by (auto simp add: HandleEventFft_def Let_def ScheduleSubcarriers_zf_shape SendSnrReport_def)

subsection \<open>Downlink scheduling\<close>

lemma fold_r_commute:
  assumes "\<And>x st. f x (g st) = map_sum id g (f x st)"
  shows "fold_r f xs (g s) = map_sum id g (fold_r f xs s)"
  by (induction xs arbitrary: s) (auto simp: assms split: sum.splits)

lemma fold_r_pilot_zf:
  assumes "zf_last_frame s = frame"
  shows "fold_r
           (\<lambda>i st.
              if zf_last_frame st = frame then
                (case ScheduleSubcarriers cfg kPrecode frame (GetDLSymbol cfg i) of
                   Inl e \<Rightarrow> Inl e
                 | Inr es \<Rightarrow> Inr (enqueue es st))
              else
                (case vec_set (encode_cur_frame_for_symbol st) i frame of
                   Inl e \<Rightarrow> Inl e
                 | Inr v \<Rightarrow> Inr (st \<lparr> encode_cur_frame_for_symbol := v \<rparr>)))
           xs s =
         Inr (enqueue (concat (map (\<lambda>i. the_enqs (ScheduleSubcarriers cfg kPrecode frame (GetDLSymbol cfg i))) xs)) s)"
  using assms
  by (induction xs arbitrary: s) (simp_all add: ScheduleSubcarriers_blocks)

lemma fold_r_pilot_nozf:
  assumes "zf_last_frame s \<noteq> frame"
    and "fold_r
           (\<lambda>i st.
              if zf_last_frame st = frame then
                (case ScheduleSubcarriers cfg kPrecode frame (GetDLSymbol cfg i) of
                   Inl e \<Rightarrow> Inl e
                 | Inr es \<Rightarrow> Inr (enqueue es st))
              else
                (case vec_set (encode_cur_frame_for_symbol st) i frame of
                   Inl e \<Rightarrow> Inl e
                 | Inr v \<Rightarrow> Inr (st \<lparr> encode_cur_frame_for_symbol := v \<rparr>)))
           xs s = Inr s'"
  shows "s' = s \<lparr> encode_cur_frame_for_symbol :=
                   fold (\<lambda>i v. v[i := frame]) xs (encode_cur_frame_for_symbol s) \<rparr>"
  using assms
proof (induction xs arbitrary: s)
  case Nil
  then show ?case by simp
next
  case (Cons a xs)
  let ?s1 = "s \<lparr> encode_cur_frame_for_symbol := (encode_cur_frame_for_symbol s)[a := frame] \<rparr>"
  from Cons.prems have a: "a < length (encode_cur_frame_for_symbol s)"
    by (auto simp add: vec_set_def split: if_splits)
  have z: "zf_last_frame ?s1 \<noteq> frame"
    using Cons.prems(1) by simp
  from Cons.prems a have "fold_r
           (\<lambda>i st.
              if zf_last_frame st = frame then
                (case ScheduleSubcarriers cfg kPrecode frame (GetDLSymbol cfg i) of
                   Inl e \<Rightarrow> Inl e
                 | Inr es \<Rightarrow> Inr (enqueue es st))
              else
                (case vec_set (encode_cur_frame_for_symbol st) i frame of
                   Inl e \<Rightarrow> Inl e
                 | Inr v \<Rightarrow> Inr (st \<lparr> encode_cur_frame_for_symbol := v \<rparr>)))
           xs ?s1 = Inr s'"
    by (simp add: vec_set_def)
  from Cons.IH [OF z this] show ?case by simp
qed

lemma fold_r_codeblocks:
  assumes "fold_r
            (\<lambda>i st.
               case ScheduleCodeblocks cfg kEncode frame (GetDLSymbol cfg i) of
                 Inl e \<Rightarrow> Inl e
               | Inr es \<Rightarrow> Inr (enqueue es st))
            xs s = Inr s'"
  shows "s' = enqueue (concat (map (\<lambda>i. the_enqs (ScheduleCodeblocks cfg kEncode frame (GetDLSymbol cfg i))) xs)) s"
  using assms
proof (induction xs arbitrary: s)
  case Nil
  then show ?case by simp
next
  case (Cons a xs)
  from Cons.prems obtain es where
    es: "ScheduleCodeblocks cfg kEncode frame (GetDLSymbol cfg a) = Inr es"
    by (cases "ScheduleCodeblocks cfg kEncode frame (GetDLSymbol cfg a)") auto
  with Cons.prems have "fold_r
            (\<lambda>i st.
               case ScheduleCodeblocks cfg kEncode frame (GetDLSymbol cfg i) of
                 Inl e \<Rightarrow> Inl e
               | Inr es \<Rightarrow> Inr (enqueue es st))
            xs (enqueue es s) = Inr s'"
    by simp
  from Cons.IH [OF this] es show ?case by simp
qed

lemma ScheduleDownlinkProcessing_Inr:
  assumes "ScheduleDownlinkProcessing cfg s frame = Inr s'"
  shows "s' = enqueue (downlink_events cfg (zf_last_frame s = frame) frame)
                (s \<lparr> encode_cur_frame_for_symbol :=
                       (if zf_last_frame s = frame then encode_cur_frame_for_symbol s
                        else fold (\<lambda>i v. v[i := frame]) [0..<ClientDlPilotSymbols cfg]
                               (encode_cur_frame_for_symbol s)) \<rparr>)"
proof (cases "zf_last_frame s = frame")
  case True
  from assms True have s2: "fold_r
            (\<lambda>i st.
               case ScheduleCodeblocks cfg kEncode frame (GetDLSymbol cfg i) of
                 Inl e \<Rightarrow> Inl e
               | Inr es \<Rightarrow> Inr (enqueue es st))
            [ClientDlPilotSymbols cfg..<NumDLSyms cfg]
            (enqueue (concat (map (\<lambda>i. the_enqs (ScheduleSubcarriers cfg kPrecode frame (GetDLSymbol cfg i)))
                       [0..<ClientDlPilotSymbols cfg])) s) = Inr s'"
    by (simp add: ScheduleDownlinkProcessing_def Let_def fold_r_pilot_zf)
  from fold_r_codeblocks [OF s2] True show ?thesis
    by (simp add: downlink_events_def)
next
  case False
  from assms obtain s1 where
    s1: "fold_r
           (\<lambda>i st.
              if zf_last_frame st = frame then
                (case ScheduleSubcarriers cfg kPrecode frame (GetDLSymbol cfg i) of
                   Inl e \<Rightarrow> Inl e
                 | Inr es \<Rightarrow> Inr (enqueue es st))
              else
                (case vec_set (encode_cur_frame_for_symbol st) i frame of
                   Inl e \<Rightarrow> Inl e
                 | Inr v \<Rightarrow> Inr (st \<lparr> encode_cur_frame_for_symbol := v \<rparr>)))
           [0..<ClientDlPilotSymbols cfg] s = Inr s1"
    and s2: "fold_r
            (\<lambda>i st.
               case ScheduleCodeblocks cfg kEncode frame (GetDLSymbol cfg i) of
                 Inl e \<Rightarrow> Inl e
               | Inr es \<Rightarrow> Inr (enqueue es st))
            [ClientDlPilotSymbols cfg..<NumDLSyms cfg] s1 = Inr s'"
    by (auto simp add: ScheduleDownlinkProcessing_def Let_def split: sum.splits)
  from fold_r_pilot_nozf [OF False s1] fold_r_codeblocks [OF s2] False
  show ?thesis by (simp add: downlink_events_def)
qed

lemma ScheduleDownlinkProcessing_commute:
  assumes z: "\<And>st. zf_last_frame (g st) = zf_last_frame st"
    and e: "\<And>st. encode_cur_frame_for_symbol (g st) = encode_cur_frame_for_symbol st"
    and q: "\<And>es st. enqueue es (g st) = g (enqueue es st)"
    and u: "\<And>v st. (g st) \<lparr> encode_cur_frame_for_symbol := v \<rparr> = g (st \<lparr> encode_cur_frame_for_symbol := v \<rparr>)"
  shows "ScheduleDownlinkProcessing cfg (g s) frame =
           map_sum id g (ScheduleDownlinkProcessing cfg s frame)"
proof -
  have a: "\<And>f xs st. (\<And>x st. f x (g st) = map_sum id g (f x st)) \<Longrightarrow>
             fold_r f xs (g st) = map_sum id g (fold_r f xs st)"
    by (rule fold_r_commute)
  show ?thesis
    unfolding ScheduleDownlinkProcessing_def Let_def
    apply (subst a)
     apply (simp add: z e q u split: sum.splits)
    apply (cases "fold_r
             (\<lambda>i st.
                if zf_last_frame st = frame then
                  (case ScheduleSubcarriers cfg kPrecode frame (GetDLSymbol cfg i) of
                     Inl e \<Rightarrow> Inl e
                   | Inr es \<Rightarrow> Inr (enqueue es st))
                else
                  (case vec_set (encode_cur_frame_for_symbol st) i frame of
                     Inl e \<Rightarrow> Inl e
                   | Inr v \<Rightarrow> Inr (st \<lparr> encode_cur_frame_for_symbol := v \<rparr>)))
             [0..<ClientDlPilotSymbols cfg] s")
     apply simp
    apply simp
    apply (subst a)
     apply (simp add: q split: sum.splits)
    apply simp
    done
qed

lemma ScheduleDownlinkProcessing_rx_counters:
  "ScheduleDownlinkProcessing cfg (s \<lparr> rx_counters := r \<rparr>) frame =
     map_sum id (\<lambda>d. d \<lparr> rx_counters := r \<rparr>) (ScheduleDownlinkProcessing cfg s frame)"
  by (rule ScheduleDownlinkProcessing_commute [where g = "\<lambda>d. d \<lparr> rx_counters := r \<rparr>"])
     (simp_all add: enqueue_def)

lemma ScheduleDownlinkProcessing_mac_counters:
  "ScheduleDownlinkProcessing cfg (s \<lparr> mac_to_phy_counters := r \<rparr>) frame =
     map_sum id (\<lambda>d. d \<lparr> mac_to_phy_counters := r \<rparr>) (ScheduleDownlinkProcessing cfg s frame)"
  by (rule ScheduleDownlinkProcessing_commute [where g = "\<lambda>d. d \<lparr> mac_to_phy_counters := r \<rparr>"])
     (simp_all add: enqueue_def)

lemma fold_r_codeblocks_ok:
  assumes "EncodeBlockSize cfg \<noteq> 0"
  shows "fold_r
            (\<lambda>i st.
               case ScheduleCodeblocks cfg kEncode frame (GetDLSymbol cfg i) of
                 Inl e \<Rightarrow> Inl e
               | Inr es \<Rightarrow> Inr (enqueue es st))
            xs s =
         Inr (enqueue (concat (map (\<lambda>i. the_enqs (ScheduleCodeblocks cfg kEncode frame (GetDLSymbol cfg i))) xs)) s)"
  using assms
  by (induction xs arbitrary: s) (simp_all add: ScheduleCodeblocks_def)

lemma fold_r_pilot_nozf_ok:
  assumes "zf_last_frame s \<noteq> frame"
    and "\<forall>i\<in>set xs. i < length (encode_cur_frame_for_symbol s)"
  shows "fold_r
           (\<lambda>i st.
              if zf_last_frame st = frame then
                (case ScheduleSubcarriers cfg kPrecode frame (GetDLSymbol cfg i) of
                   Inl e \<Rightarrow> Inl e
                 | Inr es \<Rightarrow> Inr (enqueue es st))
              else
                (case vec_set (encode_cur_frame_for_symbol st) i frame of
                   Inl e \<Rightarrow> Inl e
                 | Inr v \<Rightarrow> Inr (st \<lparr> encode_cur_frame_for_symbol := v \<rparr>)))
           xs s =
         Inr (s \<lparr> encode_cur_frame_for_symbol :=
                   fold (\<lambda>i v. v[i := frame]) xs (encode_cur_frame_for_symbol s) \<rparr>)"
  using assms
  by (induction xs arbitrary: s) (simp_all add: vec_set_def)

lemma ScheduleDownlinkProcessing_ok:
  assumes "EncodeBlockSize cfg \<noteq> 0"
    and "zf_last_frame s = frame \<or> ClientDlPilotSymbols cfg \<le> length (encode_cur_frame_for_symbol s)"
  shows "ScheduleDownlinkProcessing cfg s frame =
           Inr (enqueue (downlink_events cfg (zf_last_frame s = frame) frame)
                 (s \<lparr> encode_cur_frame_for_symbol :=
                       (if zf_last_frame s = frame then encode_cur_frame_for_symbol s
                        else fold (\<lambda>i v. v[i := frame]) [0..<ClientDlPilotSymbols cfg]
                               (encode_cur_frame_for_symbol s)) \<rparr>))"
proof (cases "zf_last_frame s = frame")
  case True
  then show ?thesis
    using assms(1)
    by (simp add: ScheduleDownlinkProcessing_def Let_def fold_r_pilot_zf fold_r_codeblocks_ok
        downlink_events_def)
next
  case False
  with assms(2) have "\<forall>i\<in>set [0..<ClientDlPilotSymbols cfg]. i < length (encode_cur_frame_for_symbol s)"
    by auto
  from fold_r_pilot_nozf_ok [OF False this] False assms(1) show ?thesis
    by (simp add: ScheduleDownlinkProcessing_def Let_def fold_r_codeblocks_ok downlink_events_def)
qed

lemma handle_encode_tag_cases:
  assumes "CompleteTask (kFrameWnd cfg) (encode_counters s) (frame_id tag) (symbol_id tag) = (c, is_last)"
    and "GetDLSymbolIdx cfg (symbol_id tag) < length (encode_cur_frame_for_symbol s)"
  shows "\<exists>s'. handle_encode_tag cfg tag s = Inr s' \<and>
           zf_last_frame s' = zf_last_frame s \<and>
           cur_proc_frame_id s' = cur_proc_frame_id s \<and>
           encode_cur_frame_for_symbol s' =
             (if is_last
              then (encode_cur_frame_for_symbol s)[GetDLSymbolIdx cfg (symbol_id tag) := frame_id tag]
              else encode_cur_frame_for_symbol s) \<and>
           sched_queue s' = sched_queue s @
             (if is_last \<and> zf_last_frame s = frame_id tag
              then the_enqs (ScheduleSubcarriers cfg kPrecode (frame_id tag) (symbol_id tag))
              else [])"
  using assms
  by (auto simp add: handle_encode_tag_def Let_def vec_set_def ScheduleSubcarriers_blocks
      split: prod.splits)


lemma encode_frames_append [simp]:
  "encode_frames (a @ b) = encode_frames a @ encode_frames b"
  by (simp add: encode_frames_def)

lemma encode_frames_Nil [simp]: "encode_frames [] = []"
  by (simp add: encode_frames_def)

lemma ScheduleDownlinkProcessing_cur_proc:
  assumes "ScheduleDownlinkProcessing cfg s frame = Inr s'"
  shows "cur_proc_frame_id s' = cur_proc_frame_id s"
    and "encode_deferral s' = encode_deferral s"
    and "cur_sche_frame_id s' = cur_sche_frame_id s"
  using ScheduleDownlinkProcessing_Inr [OF assms] by simp_all

lemma drain_deferral_cur_proc:
  "drain_deferral cfg n s = Inr s' \<Longrightarrow> cur_proc_frame_id s' = cur_proc_frame_id s"
proof (induction n arbitrary: s)
  case 0
  then show ?case by simp
next
  case (Suc n)
  show ?case
  proof (cases "encode_deferral s")
    case Nil
    with Suc.prems show ?thesis by simp
  next
    case (Cons f rest)
    show ?thesis
    proof (cases "f < cur_proc_frame_id s + kScheduleQueues cfg")
      case False
      with Suc.prems Cons show ?thesis by simp
    next
      case True
      with Suc.prems Cons obtain s1 where
        s1: "ScheduleDownlinkProcessing cfg s f = Inr s1"
        and d: "drain_deferral cfg n (s1 \<lparr> encode_deferral := tl (encode_deferral s1) \<rparr>) = Inr s'"
        by (auto split: if_splits sum.splits)
      from Suc.IH [OF d] ScheduleDownlinkProcessing_cur_proc(1) [OF s1]
      show ?thesis by simp
    qed
  qed
qed

lemma retired_proj [simp]:
  "cur_proc_frame_id (retired cfg s F) = cur_proc_frame_id s + 1"
  "cur_sche_frame_id (retired cfg s F) = cur_sche_frame_id s"
  "sched_queue (retired cfg s F) = sched_queue s"
  "encode_deferral (retired cfg s F) = encode_deferral s"
  "zf_last_frame (retired cfg s F) = zf_last_frame s"
  "encode_cur_frame_for_symbol (retired cfg s F) = encode_cur_frame_for_symbol s"
  "ifft_cur_frame_for_symbol (retired cfg s F) = ifft_cur_frame_for_symbol s"
  "ifft_next_symbol (retired cfg s F) = ifft_next_symbol s"
  by (simp_all add: retired_def)

lemma CheckFrameComplete_not_complete:
  assumes "\<not> (IsLastSymbol (kFrameWnd cfg) (ifft_counters s) F \<and>
        IsLastSymbol (kFrameWnd cfg) (tx_counters s) F \<and>
        (if kEnableMac cfg then IsLastSymbol (kFrameWnd cfg) (tomac_counters s) F
         else IsLastSymbol (kFrameWnd cfg) (decode_counters s) F))"
  shows "CheckFrameComplete cfg s F = Inr (s, False)"
proof -
  from assms have "\<not> (IsLastSymbol (kFrameWnd cfg) (ifft_counters s) F \<and>
         IsLastSymbol (kFrameWnd cfg) (tx_counters s) F \<and>
         ((\<not> kEnableMac cfg \<and> IsLastSymbol (kFrameWnd cfg) (decode_counters s) F) \<or>
          (kEnableMac cfg \<and> IsLastSymbol (kFrameWnd cfg) (tomac_counters s) F)))"
    by (cases "kEnableMac cfg") simp_all
  then show ?thesis
    unfolding CheckFrameComplete_def Let_def by (rule if_not_P)
qed


lemma CheckFrameComplete_complete:
  assumes "IsLastSymbol (kFrameWnd cfg) (ifft_counters s) F \<and>
        IsLastSymbol (kFrameWnd cfg) (tx_counters s) F \<and>
        (if kEnableMac cfg then IsLastSymbol (kFrameWnd cfg) (tomac_counters s) F
         else IsLastSymbol (kFrameWnd cfg) (decode_counters s) F)"
  shows "CheckFrameComplete cfg s F =
           (if asserts_enabled cfg \<and> F \<noteq> cur_proc_frame_id s then Inl AssertFailed
            else case (if encode_deferral s \<noteq> []
                       then drain_deferral cfg (kScheduleQueues cfg) (retired cfg s F)
                       else Inr (retired cfg s F)) of
                   Inl e \<Rightarrow> Inl e
                 | Inr s4 \<Rightarrow>
                     Inr (s4, F = (FramesToTest cfg + 18446744073709551616 - 1) mod 18446744073709551616))"
proof -
  from assms have c: "IsLastSymbol (kFrameWnd cfg) (ifft_counters s) F \<and>
         IsLastSymbol (kFrameWnd cfg) (tx_counters s) F \<and>
         ((\<not> kEnableMac cfg \<and> IsLastSymbol (kFrameWnd cfg) (decode_counters s) F) \<or>
          (kEnableMac cfg \<and> IsLastSymbol (kFrameWnd cfg) (tomac_counters s) F))"
    by (cases "kEnableMac cfg") simp_all
  have r1: "0 < NumDLSyms cfg \<Longrightarrow> retired cfg s F =
           s \<lparr> decode_counters := Reset (kFrameWnd cfg) (decode_counters s) F,
                        tomac_counters := Reset (kFrameWnd cfg) (tomac_counters s) F,
                        ifft_counters := Reset (kFrameWnd cfg) (ifft_counters s) F,
                        tx_counters := Reset (kFrameWnd cfg) (tx_counters s) F,
                dl_bits_buffer_status :=
                    (\<lambda>ue_id slot.
                       if ue_id < UeAntNum cfg \<and> slot = F mod kFrameWnd cfg then 0
                       else dl_bits_buffer_status s ue_id slot),
                cur_proc_frame_id := cur_proc_frame_id s + 1 \<rparr>"
    by (simp add: retired_def)
  have r2: "\<not> 0 < NumDLSyms cfg \<Longrightarrow> retired cfg s F =
           s \<lparr> decode_counters := Reset (kFrameWnd cfg) (decode_counters s) F,
                        tomac_counters := Reset (kFrameWnd cfg) (tomac_counters s) F,
                        ifft_counters := Reset (kFrameWnd cfg) (ifft_counters s) F,
                        tx_counters := Reset (kFrameWnd cfg) (tx_counters s) F,
                cur_proc_frame_id := cur_proc_frame_id s + 1 \<rparr>"
    by (simp add: retired_def)
  show ?thesis
  proof (cases "0 < NumDLSyms cfg")
    case True
    show ?thesis
      unfolding CheckFrameComplete_def Let_def r1 [OF True]
      using c True by (simp del: One_nat_def cong: if_cong sum.case_cong)
  next
    case False
    show ?thesis
      unfolding CheckFrameComplete_def Let_def r2 [OF False]
      using c False by (simp del: One_nat_def cong: if_cong sum.case_cong)
  qed
qed

lemma HandleEventFft_pilot_not_counted:
  assumes "GetSymbolType cfg (symbol_id tag) = kPilot"
    and "CompleteTask (kFrameWnd cfg) (pilot_fft_counters s) (frame_id tag) (symbol_id tag) = (c1, b1)"
    and "\<not> (b1 \<and> (\<not> IsRecCalEnabled cfg \<or> rc_last_frame s = frame_id tag))"
  shows "HandleEventFft cfg tag s = Inr (s \<lparr> pilot_fft_counters := c1 \<rparr>)"
  using assms by (auto simp add: HandleEventFft_def Let_def)

lemma HandleEventFft_pilot_counted:
  assumes "GetSymbolType cfg (symbol_id tag) = kPilot"
    and "CompleteTask (kFrameWnd cfg) (pilot_fft_counters s) (frame_id tag) (symbol_id tag) = (c1, True)"
    and "\<not> IsRecCalEnabled cfg \<or> rc_last_frame s = frame_id tag"
    and "CompleteSymbol (kFrameWnd cfg) c1 (frame_id tag) = (c2, False)"
  shows "HandleEventFft cfg tag s = Inr (s \<lparr> pilot_fft_counters := c2 \<rparr>)"
  using assms by (auto simp add: HandleEventFft_def Let_def)

lemma HandleEventFft_pilot_zf:
  assumes "GetSymbolType cfg (symbol_id tag) = kPilot"
    and "CompleteTask (kFrameWnd cfg) (pilot_fft_counters s) (frame_id tag) (symbol_id tag) = (c1, True)"
    and "\<not> IsRecCalEnabled cfg \<or> rc_last_frame s = frame_id tag"
    and "CompleteSymbol (kFrameWnd cfg) c1 (frame_id tag) = (c2, True)"
    and "ScheduleSubcarriers cfg kZF (frame_id tag) 0 = Inr es"
  shows "HandleEventFft cfg tag s =
          Inr (enqueue es
            (s \<lparr> pilot_fft_counters := Reset (kFrameWnd cfg) c2 (frame_id tag),
                 mac_request_queue := mac_request_queue s @
                   (if kEnableMac cfg
                    then map (\<lambda>i. mk_event kSNRReport
                                [mk_tag (frame_id tag) (symbol_id tag) i, evm_snr_tag s (frame_id tag) i])
                           [0..<UeAntNum cfg]
                    else []) \<rparr>))"
  using assms by (cases "kEnableMac cfg") (auto simp add: HandleEventFft_def Let_def SendSnrReport_def)

lemma HandleEventFft_pilot_state:
  assumes p: "GetSymbolType cfg (symbol_id tag) = kPilot"
    and c1: "CompleteTask (kFrameWnd cfg) (pilot_fft_counters s) (frame_id tag) (symbol_id tag) = (c1, b1)"
    and c2: "CompleteSymbol (kFrameWnd cfg) c1 (frame_id tag) = (c2, b2)"
    and z: "ZfBatchSize cfg \<noteq> 0"
  shows "\<exists>s'. HandleEventFft cfg tag s = Inr s' \<and>
           sched_queue s' = sched_queue s @
             (if b1 \<and> (\<not> IsRecCalEnabled cfg \<or> rc_last_frame s = frame_id tag) \<and> b2
              then the_enqs (ScheduleSubcarriers cfg kZF (frame_id tag) 0) else []) \<and>
           rc_last_frame s' = rc_last_frame s \<and>
           pilot_fft_counters s' =
             (if b1 \<and> (\<not> IsRecCalEnabled cfg \<or> rc_last_frame s = frame_id tag)
              then if b2 then Reset (kFrameWnd cfg) c2 (frame_id tag) else c2
              else c1)"
proof (cases "b1 \<and> (\<not> IsRecCalEnabled cfg \<or> rc_last_frame s = frame_id tag)")
  case False
  from HandleEventFft_pilot_not_counted [OF p c1 False] False show ?thesis by auto
next
  case True
  then have b1: "b1" and g: "\<not> IsRecCalEnabled cfg \<or> rc_last_frame s = frame_id tag"
    by simp_all
  show ?thesis
  proof (cases b2)
    case False
    from c1 b1 have c1': "CompleteTask (kFrameWnd cfg) (pilot_fft_counters s) (frame_id tag) (symbol_id tag) = (c1, True)"
      by simp
    from c2 False have c2': "CompleteSymbol (kFrameWnd cfg) c1 (frame_id tag) = (c2, False)"
      by simp
    from HandleEventFft_pilot_counted [OF p c1' g c2'] True False show ?thesis by auto
  next
    case b2: True
    from z obtain es where es: "ScheduleSubcarriers cfg kZF (frame_id tag) 0 = Inr es"
      using ScheduleSubcarriers_zf_shape [OF z] by blast
    from c1 b1 have c1': "CompleteTask (kFrameWnd cfg) (pilot_fft_counters s) (frame_id tag) (symbol_id tag) = (c1, True)"
      by simp
    from c2 b2 have c2': "CompleteSymbol (kFrameWnd cfg) c1 (frame_id tag) = (c2, True)"
      by simp
    from HandleEventFft_pilot_zf [OF p c1' g c2' es]
      True b2 es show ?thesis by (auto simp add: enqueue_def)
  qed
qed

lemma HandleEventFft_cal:
  assumes p: "GetSymbolType cfg (symbol_id tag) = kCalDL \<or> GetSymbolType cfg (symbol_id tag) = kCalUL"
    and c: "CompleteTaskFrame (kFrameWnd cfg) (rc_counters s) (frame_id tag) = (c, b)"
  shows "HandleEventFft cfg tag s =
           Inr (if b then s \<lparr> rc_counters := Reset (kFrameWnd cfg) c (frame_id tag),
                               rc_last_frame := frame_id tag \<rparr>
                else s \<lparr> rc_counters := c \<rparr>)"
  using assms by (auto simp add: HandleEventFft_def Let_def)

subsection \<open>The TX events and the Encode frames of a queue\<close>

lemma tx_of_frame_append [simp]:
  "tx_of_frame F (a @ b) = tx_of_frame F a @ tx_of_frame F b"
  by (simp add: tx_of_frame_def)

lemma tx_of_frame_Nil [simp]: "tx_of_frame F [] = []"
  by (simp add: tx_of_frame_def)

lemma tx_of_frame_other_kind:
  assumes "\<forall>e\<in>set (map snd es). event_type e = ty \<and> P e" and "ty \<noteq> kPacketTX"
  shows "tx_of_frame F es = []"
  using assms by (auto simp add: tx_of_frame_def filter_empty_conv)

lemma encode_frames_other_kind:
  assumes "\<forall>e\<in>set (map snd es). event_type e = ty \<and> P e" and "ty \<noteq> kEncode"
  shows "encode_frames es = []"
  using assms by (auto simp add: encode_frames_def)

lemma encode_frames_encode_kind:
  assumes "\<forall>e\<in>set (map snd es). event_type e = ty \<and> list_all (\<lambda>t. frame_id t = frame) (tags e)"
  shows "set (encode_frames es) \<subseteq> {frame}"
  using assms by (auto simp add: encode_frames_def list_all_iff split: if_splits)

lemma tx_of_frame_tx:
  "tx_of_frame F (the_enqs (ScheduleAntennasTX cfg F symbol)) =
     the_enqs (ScheduleAntennasTX cfg F symbol)"
  using ScheduleAntennasTX_kind [of cfg F symbol]
  by (auto simp add: tx_of_frame_def filter_id_conv)

lemma tx_events_upto_Suc:
  "tx_events_upto cfg F (Suc n) =
     tx_events_upto cfg F n @ the_enqs (ScheduleAntennasTX cfg F (GetDLSymbol cfg n))"
  by (simp add: tx_events_upto_def)

lemma tx_of_frame_concat_Nil:
  assumes "\<And>x. x \<in> set xs \<Longrightarrow> tx_of_frame F (g x) = []"
  shows "tx_of_frame F (concat (map g xs)) = []"
  using assms by (induction xs) simp_all

lemma tx_of_frame_downlink_events: "tx_of_frame F (downlink_events cfg b f) = []"
proof -
  have p: "\<And>i. tx_of_frame F (the_enqs (ScheduleSubcarriers cfg kPrecode f (GetDLSymbol cfg i))) = []"
    by (rule tx_of_frame_other_kind [OF ScheduleSubcarriers_kind_blocks]) simp_all
  have e: "\<And>i. tx_of_frame F (the_enqs (ScheduleCodeblocks cfg kEncode f (GetDLSymbol cfg i))) = []"
    by (rule tx_of_frame_other_kind [OF ScheduleCodeblocks_kind]) simp
  show ?thesis
    unfolding downlink_events_def
    by (simp add: tx_of_frame_concat_Nil p e)
qed

lemma encode_frames_concat_subset:
  assumes "\<And>x. x \<in> set xs \<Longrightarrow> set (encode_frames (g x)) \<subseteq> A"
  shows "set (encode_frames (concat (map g xs))) \<subseteq> A"
  using assms by (induction xs) simp_all

lemma encode_frames_downlink_events: "set (encode_frames (downlink_events cfg b f)) \<subseteq> {f}"
proof -
  have p: "\<And>i. encode_frames (the_enqs (ScheduleSubcarriers cfg kPrecode f (GetDLSymbol cfg i))) = []"
    by (rule encode_frames_other_kind [OF ScheduleSubcarriers_kind_blocks]) simp_all
  have e: "\<And>i. set (encode_frames (the_enqs (ScheduleCodeblocks cfg kEncode f (GetDLSymbol cfg i)))) \<subseteq> {f}"
    by (rule encode_frames_encode_kind [OF ScheduleCodeblocks_kind])
  have p': "set (encode_frames (concat (map (\<lambda>i. the_enqs (ScheduleSubcarriers cfg kPrecode f (GetDLSymbol cfg i)))
                    [0..<ClientDlPilotSymbols cfg]))) \<subseteq> {f}"
    by (rule encode_frames_concat_subset) (simp add: p)
  have e': "set (encode_frames (concat (map (\<lambda>i. the_enqs (ScheduleCodeblocks cfg kEncode f (GetDLSymbol cfg i)))
              [ClientDlPilotSymbols cfg..<NumDLSyms cfg]))) \<subseteq> {f}"
    by (rule encode_frames_concat_subset) (rule e)
  show ?thesis
    unfolding downlink_events_def using p' e' by simp
qed

subsection \<open>The drain of the deferral queue\<close>

lemma drain_deferral_state:
  "drain_deferral cfg n s = Inr s' \<Longrightarrow>
   \<exists>fs. encode_deferral s = fs @ encode_deferral s' \<and> length fs \<le> n \<and>
        (\<forall>f\<in>set fs. cur_proc_frame_id s \<le> f \<and> f < cur_proc_frame_id s + kScheduleQueues cfg) \<and>
        (length fs < n \<longrightarrow>
           encode_deferral s' \<noteq> [] \<and>
           \<not> hd (encode_deferral s') < cur_proc_frame_id s + kScheduleQueues cfg) \<and>
        s' = s \<lparr> encode_cur_frame_for_symbol :=
                   fold (\<lambda>f v. if zf_last_frame s = f then v
                               else fold (\<lambda>i v. v[i := f]) [0..<ClientDlPilotSymbols cfg] v)
                     fs (encode_cur_frame_for_symbol s),
                 encode_deferral := drop (length fs) (encode_deferral s),
                 sched_queue :=
                   sched_queue s @ concat (map (\<lambda>f. downlink_events cfg (zf_last_frame s = f) f) fs) \<rparr>"
proof (induction n arbitrary: s)
  case 0
  then have "encode_deferral s = [] @ encode_deferral s' \<and> length ([] :: nat list) \<le> 0 \<and>
        (\<forall>f\<in>set []. cur_proc_frame_id s \<le> f \<and> f < cur_proc_frame_id s + kScheduleQueues cfg) \<and>
        (length ([] :: nat list) < 0 \<longrightarrow>
           encode_deferral s' \<noteq> [] \<and>
           \<not> hd (encode_deferral s') < cur_proc_frame_id s + kScheduleQueues cfg) \<and>
        s' = s \<lparr> encode_cur_frame_for_symbol :=
                   fold (\<lambda>f v. if zf_last_frame s = f then v
                               else fold (\<lambda>i v. v[i := f]) [0..<ClientDlPilotSymbols cfg] v)
                     [] (encode_cur_frame_for_symbol s),
                 encode_deferral := drop (length ([] :: nat list)) (encode_deferral s),
                 sched_queue :=
                   sched_queue s @ concat (map (\<lambda>f. downlink_events cfg (zf_last_frame s = f) f) []) \<rparr>"
    by simp
  then show ?case by blast
next
  case (Suc n)
  show ?case
  proof (cases "encode_deferral s")
    case Nil
    with Suc.prems show ?thesis by simp
  next
    case (Cons f rest)
    show ?thesis
    proof (cases "f < cur_proc_frame_id s + kScheduleQueues cfg")
      case False
      with Suc.prems Cons have "s' = s" by simp
      with False Cons have "encode_deferral s = [] @ encode_deferral s' \<and> length ([] :: nat list) \<le> Suc n \<and>
        (\<forall>f\<in>set []. cur_proc_frame_id s \<le> f \<and> f < cur_proc_frame_id s + kScheduleQueues cfg) \<and>
        (length ([] :: nat list) < Suc n \<longrightarrow>
           encode_deferral s' \<noteq> [] \<and>
           \<not> hd (encode_deferral s') < cur_proc_frame_id s + kScheduleQueues cfg) \<and>
        s' = s \<lparr> encode_cur_frame_for_symbol :=
                   fold (\<lambda>f v. if zf_last_frame s = f then v
                               else fold (\<lambda>i v. v[i := f]) [0..<ClientDlPilotSymbols cfg] v)
                     [] (encode_cur_frame_for_symbol s),
                 encode_deferral := drop (length ([] :: nat list)) (encode_deferral s),
                 sched_queue :=
                   sched_queue s @ concat (map (\<lambda>f. downlink_events cfg (zf_last_frame s = f) f) []) \<rparr>"
        by simp
      then show ?thesis by blast
    next
      case True
      with Suc.prems Cons obtain s1 where
        ge: "cur_proc_frame_id s \<le> f"
        and s1: "ScheduleDownlinkProcessing cfg s f = Inr s1"
        and d: "drain_deferral cfg n (s1 \<lparr> encode_deferral := tl (encode_deferral s1) \<rparr>) = Inr s'"
        by (auto split: if_splits sum.splits)
      define e1 where "e1 = (if zf_last_frame s = f then encode_cur_frame_for_symbol s
                        else fold (\<lambda>i v. v[i := f]) [0..<ClientDlPilotSymbols cfg]
                               (encode_cur_frame_for_symbol s))"
      define s2 where "s2 = s1 \<lparr> encode_deferral := tl (encode_deferral s1) \<rparr>"
      have s2: "s2 = s \<lparr> encode_cur_frame_for_symbol := e1, encode_deferral := rest,
                         sched_queue := sched_queue s @ downlink_events cfg (zf_last_frame s = f) f \<rparr>"
        unfolding s2_def e1_def ScheduleDownlinkProcessing_Inr [OF s1]
        using Cons by (simp add: enqueue_def)
      from d have d': "drain_deferral cfg n s2 = Inr s'" by (simp add: s2_def)
      from Suc.IH [OF d'] obtain fs where
        fs: "encode_deferral s2 = fs @ encode_deferral s'" "length fs \<le> n"
          "\<forall>f\<in>set fs. cur_proc_frame_id s2 \<le> f \<and> f < cur_proc_frame_id s2 + kScheduleQueues cfg"
          "length fs < n \<longrightarrow>
             encode_deferral s' \<noteq> [] \<and>
             \<not> hd (encode_deferral s') < cur_proc_frame_id s2 + kScheduleQueues cfg"
        and st: "s' = s2 \<lparr> encode_cur_frame_for_symbol :=
                   fold (\<lambda>f v. if zf_last_frame s2 = f then v
                               else fold (\<lambda>i v. v[i := f]) [0..<ClientDlPilotSymbols cfg] v)
                     fs (encode_cur_frame_for_symbol s2),
                 encode_deferral := drop (length fs) (encode_deferral s2),
                 sched_queue :=
                   sched_queue s2 @ concat (map (\<lambda>f. downlink_events cfg (zf_last_frame s2 = f) f) fs) \<rparr>"
        by blast
      have p: "encode_deferral s2 = rest" "cur_proc_frame_id s2 = cur_proc_frame_id s"
        "zf_last_frame s2 = zf_last_frame s" "encode_cur_frame_for_symbol s2 = e1"
        "sched_queue s2 = sched_queue s @ downlink_events cfg (zf_last_frame s = f) f"
        by (simp_all add: s2)
      have st': "s' = s \<lparr> encode_cur_frame_for_symbol :=
                   fold (\<lambda>f v. if zf_last_frame s = f then v
                               else fold (\<lambda>i v. v[i := f]) [0..<ClientDlPilotSymbols cfg] v)
                     (f # fs) (encode_cur_frame_for_symbol s),
                 encode_deferral := drop (length (f # fs)) (encode_deferral s),
                 sched_queue :=
                   sched_queue s @ concat (map (\<lambda>f. downlink_events cfg (zf_last_frame s = f) f) (f # fs)) \<rparr>"
        unfolding st p unfolding s2 using Cons by (simp add: e1_def)
      have "encode_deferral s = (f # fs) @ encode_deferral s' \<and> length (f # fs) \<le> Suc n \<and>
        (\<forall>f\<in>set (f # fs). cur_proc_frame_id s \<le> f \<and> f < cur_proc_frame_id s + kScheduleQueues cfg) \<and>
        (length (f # fs) < Suc n \<longrightarrow>
           encode_deferral s' \<noteq> [] \<and>
           \<not> hd (encode_deferral s') < cur_proc_frame_id s + kScheduleQueues cfg)"
        using fs p Cons True ge by simp
      with st' show ?thesis by blast
    qed
  qed
qed

lemma drain_deferral_Inr:
  assumes "drain_deferral cfg n s = Inr s'"
  shows "\<exists>fs. encode_deferral s = fs @ encode_deferral s' \<and> length fs \<le> n \<and>
        (\<forall>f\<in>set fs. cur_proc_frame_id s \<le> f \<and> f < cur_proc_frame_id s + kScheduleQueues cfg) \<and>
        sched_queue s' =
          sched_queue s @ concat (map (\<lambda>f. downlink_events cfg (zf_last_frame s = f) f) fs) \<and>
        zf_last_frame s' = zf_last_frame s \<and>
        cur_sche_frame_id s' = cur_sche_frame_id s \<and>
        ifft_cur_frame_for_symbol s' = ifft_cur_frame_for_symbol s \<and>
        ifft_next_symbol s' = ifft_next_symbol s"
proof -
  from drain_deferral_state [OF assms] obtain fs where
    fs: "encode_deferral s = fs @ encode_deferral s'" "length fs \<le> n"
      "\<forall>f\<in>set fs. cur_proc_frame_id s \<le> f \<and> f < cur_proc_frame_id s + kScheduleQueues cfg"
    and st: "s' = s \<lparr> encode_cur_frame_for_symbol :=
                   fold (\<lambda>f v. if zf_last_frame s = f then v
                               else fold (\<lambda>i v. v[i := f]) [0..<ClientDlPilotSymbols cfg] v)
                     fs (encode_cur_frame_for_symbol s),
                 encode_deferral := drop (length fs) (encode_deferral s),
                 sched_queue :=
                   sched_queue s @ concat (map (\<lambda>f. downlink_events cfg (zf_last_frame s = f) f) fs) \<rparr>"
    by blast
  have "sched_queue s' =
          sched_queue s @ concat (map (\<lambda>f. downlink_events cfg (zf_last_frame s = f) f) fs) \<and>
        zf_last_frame s' = zf_last_frame s \<and>
        cur_sche_frame_id s' = cur_sche_frame_id s \<and>
        ifft_cur_frame_for_symbol s' = ifft_cur_frame_for_symbol s \<and>
        ifft_next_symbol s' = ifft_next_symbol s"
    by (subst st)+ simp
  with fs show ?thesis by blast
qed
lemma CheckIncrementScheduleFrame_Inr:
  assumes "CheckIncrementScheduleFrame cfg s frame completed = Inr s'"
  shows "sched_queue s' = sched_queue s" "cur_proc_frame_id s' = cur_proc_frame_id s"
    "encode_deferral s' = encode_deferral s" "ifft_next_symbol s' = ifft_next_symbol s"
    "ifft_cur_frame_for_symbol s' = ifft_cur_frame_for_symbol s"
    "zf_last_frame s' = zf_last_frame s"
    "ifft_counters s' = ifft_counters s" "tx_counters s' = tx_counters s"
    "decode_counters s' = decode_counters s" "tomac_counters s' = tomac_counters s"
  using assms by (auto simp add: CheckIncrementScheduleFrame_def Let_def split: if_splits)

lemma CheckFrameComplete_Inr:
  assumes "CheckFrameComplete cfg s F = Inr (s', fin)"
  shows "\<exists>fs. encode_deferral s = fs @ encode_deferral s' \<and>
        (\<forall>f\<in>set fs. cur_proc_frame_id s' \<le> f \<and> f < cur_proc_frame_id s' + kScheduleQueues cfg) \<and>
        sched_queue s' =
          sched_queue s @ concat (map (\<lambda>f. downlink_events cfg (zf_last_frame s = f) f) fs) \<and>
        cur_proc_frame_id s \<le> cur_proc_frame_id s' \<and>
        zf_last_frame s' = zf_last_frame s \<and>
        cur_sche_frame_id s' = cur_sche_frame_id s \<and>
        ifft_cur_frame_for_symbol s' = ifft_cur_frame_for_symbol s \<and>
        ifft_next_symbol s' = ifft_next_symbol s"
proof (cases "IsLastSymbol (kFrameWnd cfg) (ifft_counters s) F \<and>
      IsLastSymbol (kFrameWnd cfg) (tx_counters s) F \<and>
      (if kEnableMac cfg then IsLastSymbol (kFrameWnd cfg) (tomac_counters s) F
       else IsLastSymbol (kFrameWnd cfg) (decode_counters s) F)")
  case False
  from CheckFrameComplete_not_complete [OF False] assms have "s' = s" by simp
  then have "encode_deferral s = [] @ encode_deferral s' \<and>
        (\<forall>f\<in>set []. cur_proc_frame_id s' \<le> f \<and> f < cur_proc_frame_id s' + kScheduleQueues cfg) \<and>
        sched_queue s' =
          sched_queue s @ concat (map (\<lambda>f. downlink_events cfg (zf_last_frame s = f) f) []) \<and>
        cur_proc_frame_id s \<le> cur_proc_frame_id s' \<and>
        zf_last_frame s' = zf_last_frame s \<and>
        cur_sche_frame_id s' = cur_sche_frame_id s \<and>
        ifft_cur_frame_for_symbol s' = ifft_cur_frame_for_symbol s \<and>
        ifft_next_symbol s' = ifft_next_symbol s"
    by simp
  then show ?thesis by blast
next
  case True
  from CheckFrameComplete_complete [OF True] assms
  have "s' = retired cfg s F \<and> encode_deferral s = [] \<or>
        drain_deferral cfg (kScheduleQueues cfg) (retired cfg s F) = Inr s'"
    by (auto split: if_splits sum.splits)
  then show ?thesis
  proof
    assume a: "s' = retired cfg s F \<and> encode_deferral s = []"
    then have "encode_deferral s = [] @ encode_deferral s' \<and>
        (\<forall>f\<in>set []. cur_proc_frame_id s' \<le> f \<and> f < cur_proc_frame_id s' + kScheduleQueues cfg) \<and>
        sched_queue s' =
          sched_queue s @ concat (map (\<lambda>f. downlink_events cfg (zf_last_frame s = f) f) []) \<and>
        cur_proc_frame_id s \<le> cur_proc_frame_id s' \<and>
        zf_last_frame s' = zf_last_frame s \<and>
        cur_sche_frame_id s' = cur_sche_frame_id s \<and>
        ifft_cur_frame_for_symbol s' = ifft_cur_frame_for_symbol s \<and>
        ifft_next_symbol s' = ifft_next_symbol s"
      by simp
    then show ?thesis by blast
  next
    assume d: "drain_deferral cfg (kScheduleQueues cfg) (retired cfg s F) = Inr s'"
    from drain_deferral_Inr [OF d] drain_deferral_cur_proc [OF d]
    show ?thesis by (simp del: One_nat_def, blast)
  qed
qed


lemma fold_update_length [simp]:
  "length (fold (\<lambda>i v. v[i := x]) is v) = length v"
  by (induction "is" arbitrary: v) simp_all

lemma fold_update_nth:
  "fold (\<lambda>i v. v[i := x]) [0..<p] v ! j = (if j < p \<and> j < length v then x else v ! j)"
proof (induction p)
  case 0
  then show ?case by simp
next
  case (Suc p)
  show ?case
    using Suc.IH by (cases "j = p") (auto simp add: nth_list_update list_update_beyond)
qed
section \<open>The claims\<close>

lemma cfg_min_simps:
  "BsAntNum cfg_min = 4" "UeAntNum cfg_min = 2" "FftBlockSize cfg_min = 2"
  "ZfBatchSize cfg_min = 1" "ZfBlockSize cfg_min = 1" "ZfEventsPerSymbol cfg_min = 8"
  "DemulEventsPerSymbol cfg_min = 2" "DemulBlockSize cfg_min = 4" "EncodeBlockSize cfg_min = 1"
  "NumBlocksInSymbol cfg_min = 1" "SocketThreadNum cfg_min = 1" "NumChannels cfg_min = 1"
  "ClientDlPilotSymbols cfg_min = 0" "\<not> BigstationMode cfg_min" "\<not> IsRecCalEnabled cfg_min"
  "FramesToTest cfg_min = 3" "\<not> kEnableMac cfg_min" "kFrameWnd cfg_min = 4"
  "kScheduleQueues cfg_min = 2" "asserts_enabled cfg_min"
  "NumPilotSyms cfg_min = 1" "NumULSyms cfg_min = 2" "NumDLSyms cfg_min = 2"
  "GetSymbolType cfg_min 0 = kPilot" "GetSymbolType cfg_min 1 = kUL" "GetSymbolType cfg_min 2 = kUL"
  "GetSymbolType cfg_min 3 = kDL" "GetSymbolType cfg_min 4 = kDL"
  "GetULSymbol cfg_min 0 = 1" "GetULSymbol cfg_min 1 = 2"
  "GetDLSymbol cfg_min 0 = 3" "GetDLSymbol cfg_min 1 = 4"
  "GetULSymbolIdx cfg_min 1 = 0" "GetULSymbolIdx cfg_min 2 = 1"
  "GetDLSymbolIdx cfg_min 3 = 0" "GetDLSymbolIdx cfg_min 4 = 1"
  "GetSymbolType cfg_min (Suc 0) = kUL" "GetULSymbol cfg_min (Suc 0) = 2"
  "GetDLSymbol cfg_min (Suc 0) = 4" "GetULSymbolIdx cfg_min (Suc 0) = 0"
  by (simp_all add: cfg_min_def NumPilotSyms_def NumULSyms_def NumDLSyms_def symbols_of_def
      GetSymbolType_def GetULSymbol_def GetDLSymbol_def GetULSymbolIdx_def GetDLSymbolIdx_def
      GetSymbol_def SIZE_MAX_def upt_rec nth_Cons')

text \<open>
  C9.  When the master dequeues an RX packet whose frame id is at least
  \<open>cur_sche_frame_id + kFrameWnd\<close>, the switch records the frame coordinates in the
  error log and clears the running flag, and does nothing else: the state is otherwise
  unchanged, so the RX counters are not updated and the tag is not pushed onto the FFT
  backlog.  The only further work of the round is the FFT dispatch for the current
  schedule frame.
\<close>

theorem C9_future_frame_stops:
  assumes "event_type ev = kPacketRX" and "tags ev = pkt # rest"
    and "frame_id pkt \<ge> cur_sche_frame_id s + kFrameWnd cfg"
  shows "handle_switch cfg s ev =
           Inr (s \<lparr> running := False,
                   error_log := error_log s @ [(frame_id pkt, cur_sche_frame_id s, kFrameWnd cfg)] \<rparr>,
                False)
       \<and> handle_event cfg s ev =
           no_finish (schedule_fft cfg
             (s \<lparr> running := False,
                 error_log := error_log s @ [(frame_id pkt, cur_sche_frame_id s, kFrameWnd cfg)] \<rparr>))"
  using assms by (simp add: handle_event_def handle_switch_def handle_packet_rx_def no_finish_def)

theorem C9_future_frame_stops_witness:
  "frame_id (mk_tag 4 0 0) \<ge> cur_sche_frame_id (fresh_state cfg_min) + kFrameWnd cfg_min
   \<and> handle_switch cfg_min (fresh_state cfg_min) (mk_event kPacketRX [mk_tag 4 0 0]) =
       Inr ((fresh_state cfg_min)
              \<lparr> running := False,
                error_log := error_log (fresh_state cfg_min) @
                  [(frame_id (mk_tag 4 0 0), cur_sche_frame_id (fresh_state cfg_min),
                    kFrameWnd cfg_min)] \<rparr>,
            False)"
proof -
  have h1: "event_type (mk_event kPacketRX [mk_tag 4 0 0]) = kPacketRX"
    by (simp add: mk_event_def)
  have h2: "tags (mk_event kPacketRX [mk_tag 4 0 0]) = mk_tag 4 0 0 # []"
    by (simp add: mk_event_def)
  have h3: "frame_id (mk_tag 4 0 0) \<ge> cur_sche_frame_id (fresh_state cfg_min) + kFrameWnd cfg_min"
    by (simp add: mk_tag_def fresh_state_def cfg_min_simps)
  from C9_future_frame_stops [OF h1 h2 h3] h3 show ?thesis by blast
qed

text \<open>
  C10.  A Demul completion that is the last task of its symbol and completes the last
  Demul symbol of its frame: in bigstation mode the Decode code blocks of that (frame,
  symbol) are enqueued twice, once by the last-task branch and once by the last-symbol
  branch; otherwise they are enqueued once (and the schedule frame is advanced, unless
  the assertion \<open>cur_sche_frame_id = frame\<close> fails).
\<close>

theorem C10_demul_decode_twice:
  assumes "tags ev = tag # rest"
    and "snd (CompleteTask (kFrameWnd cfg) (demul_counters s) (frame_id tag) (symbol_id tag))"
    and "snd (CompleteSymbol (kFrameWnd cfg)
           (fst (CompleteTask (kFrameWnd cfg) (demul_counters s) (frame_id tag) (symbol_id tag)))
           (frame_id tag))"
    and "EncodeBlockSize cfg \<noteq> 0"
  shows "(BigstationMode cfg \<longrightarrow>
            (\<exists>s'. handle_demul cfg s ev = Inr s' \<and>
               sched_queue s' = sched_queue s @
                 the_enqs (ScheduleCodeblocks cfg kDecode (frame_id tag) (symbol_id tag)) @
                 the_enqs (ScheduleCodeblocks cfg kDecode (frame_id tag) (symbol_id tag))))
       \<and> (\<not> BigstationMode cfg \<longrightarrow>
            (if asserts_enabled cfg \<and> cur_sche_frame_id s \<noteq> frame_id tag
             then handle_demul cfg s ev = Inl AssertFailed
             else (\<exists>s'. handle_demul cfg s ev = Inr s' \<and>
                     sched_queue s' = sched_queue s @
                       the_enqs (ScheduleCodeblocks cfg kDecode (frame_id tag) (symbol_id tag)))))"
proof -
  obtain c1 where c1: "CompleteTask (kFrameWnd cfg) (demul_counters s) (frame_id tag) (symbol_id tag) = (c1, True)"
    using assms(2) by (cases "CompleteTask (kFrameWnd cfg) (demul_counters s) (frame_id tag) (symbol_id tag)") auto
  obtain c2 where c2: "CompleteSymbol (kFrameWnd cfg) c1 (frame_id tag) = (c2, True)"
    using assms(3) c1 by (cases "CompleteSymbol (kFrameWnd cfg) c1 (frame_id tag)") auto
  obtain es where es: "ScheduleCodeblocks cfg kDecode (frame_id tag) (symbol_id tag) = Inr es"
    using assms(4) by (simp add: ScheduleCodeblocks_def)
  show ?thesis
    using assms(1) c1 c2 es
    by (auto simp add: handle_demul_def Let_def enqueue_def CheckIncrementScheduleFrame_def)
qed

theorem C10_demul_decode_twice_witness:
  "snd (CompleteTask (kFrameWnd cfg_min) (almost_done 2 2) 0 2)
   \<and> snd (CompleteSymbol (kFrameWnd cfg_min) (fst (CompleteTask (kFrameWnd cfg_min) (almost_done 2 2) 0 2)) 0)
   \<and> (\<exists>s'. handle_demul (cfg_min \<lparr> BigstationMode := True \<rparr>)
             ((fresh_state cfg_min) \<lparr> demul_counters := almost_done 2 2 \<rparr>)
             (mk_event kDemul [mk_tag 0 2 0]) = Inr s' \<and>
           sched_queue s' =
             the_enqs (ScheduleCodeblocks cfg_min kDecode 0 2) @
             the_enqs (ScheduleCodeblocks cfg_min kDecode 0 2))
   \<and> (\<exists>s'. handle_demul cfg_min
             ((fresh_state cfg_min) \<lparr> demul_counters := almost_done 2 2 \<rparr>)
             (mk_event kDemul [mk_tag 0 2 0]) = Inr s' \<and>
           sched_queue s' = the_enqs (ScheduleCodeblocks cfg_min kDecode 0 2))
   \<and> the_enqs (ScheduleCodeblocks cfg_min kDecode 0 2) =
       [(0, mk_event kDecode [mk_tag 0 2 0]), (0, mk_event kDecode [mk_tag 0 2 1])]"
proof -
  let ?s = "(fresh_state cfg_min) \<lparr> demul_counters := almost_done 2 2 \<rparr>"
  let ?ev = "mk_event kDemul [mk_tag 0 2 0]"
  let ?big = "cfg_min \<lparr> BigstationMode := True \<rparr>"
  have t: "tags ?ev = mk_tag 0 2 0 # []" by (simp add: mk_event_def)
  have a: "snd (CompleteTask (kFrameWnd cfg_min) (almost_done 2 2) 0 2)"
    by (simp add: CompleteTask_def IsLastTask_def almost_done_def Let_def cfg_min_simps)
  have b: "snd (CompleteSymbol (kFrameWnd cfg_min) (fst (CompleteTask (kFrameWnd cfg_min) (almost_done 2 2) 0 2)) 0)"
    by (simp add: CompleteTask_def CompleteSymbol_def IsLastSymbol_def almost_done_def Let_def cfg_min_simps)
  have q: "sched_queue ?s = []" "cur_sche_frame_id ?s = 0"
    by (simp_all add: fresh_state_def)
  have e: "ScheduleCodeblocks ?big kDecode 0 2 = ScheduleCodeblocks cfg_min kDecode 0 2"
    by (simp add: ScheduleCodeblocks_def)
  have v: "the_enqs (ScheduleCodeblocks cfg_min kDecode 0 2) =
       [(0, mk_event kDecode [mk_tag 0 2 0]), (0, mk_event kDecode [mk_tag 0 2 1])]"
    by (simp add: ScheduleCodeblocks_def block_loop_def cfg_min_simps Let_def upt_rec)
  have big: "\<exists>s'. handle_demul ?big ?s ?ev = Inr s' \<and>
           sched_queue s' = the_enqs (ScheduleCodeblocks cfg_min kDecode 0 2) @
             the_enqs (ScheduleCodeblocks cfg_min kDecode 0 2)"
    using C10_demul_decode_twice [of ?ev "mk_tag 0 2 0" "[]" ?big ?s] t a b q e
    by (simp add: mk_tag_def cfg_min_simps)
  have small: "\<exists>s'. handle_demul cfg_min ?s ?ev = Inr s' \<and>
           sched_queue s' = the_enqs (ScheduleCodeblocks cfg_min kDecode 0 2)"
    using C10_demul_decode_twice [of ?ev "mk_tag 0 2 0" "[]" cfg_min ?s] t a b q
    by (simp add: mk_tag_def cfg_min_simps)
  from a b big small v show ?thesis by blast
qed

lemma cfg_cal_simps:
  "BsAntNum cfg_cal = 1" "IsRecCalEnabled cfg_cal" "\<not> kEnableMac cfg_cal" "kFrameWnd cfg_cal = 4"
  "ZfBatchSize cfg_cal = 1" "NumPilotSyms cfg_cal = 2" "NumULSyms cfg_cal = 0" "NumDLSyms cfg_cal = 0"
  "GetSymbolType cfg_cal 0 = kPilot" "GetSymbolType cfg_cal 1 = kCalDL"
  "GetSymbolType cfg_cal (Suc 0) = kCalDL" "GetSymbolType cfg_cal 2 = kPilot"
  by (simp_all add: cfg_cal_def cfg_min_def NumPilotSyms_def NumULSyms_def NumDLSyms_def
      symbols_of_def GetSymbolType_def upt_rec nth_Cons')

lemma cfg_cal_run:
  "fold_r (HandleEventFft cfg_cal) [mk_tag 0 0 0, mk_tag 0 1 0, mk_tag 0 2 0]
       (fresh_state cfg_cal) =
     Inr ((fresh_state cfg_cal)
            \<lparr> pilot_fft_counters :=
                fst (CompleteSymbol 4 (fst (CompleteTask 4 (fst (CompleteTask 4 (Init 2 1) 0 0)) 0 2)) 0),
              rc_counters := Reset 4 (fst (CompleteTaskFrame 4 (InitFrame 1) 0)) 0,
              rc_last_frame := 0 \<rparr>)"
proof -
  define t0 where "t0 = mk_tag 0 0 0"
  define t1 where "t1 = mk_tag 0 1 0"
  define t2 where "t2 = mk_tag 0 2 0"
  define k1 where "k1 = fst (CompleteTask 4 (Init 2 (Suc 0)) 0 0)"
  define k2 where "k2 = fst (CompleteTask 4 k1 0 2)"
  define k3 where "k3 = fst (CompleteSymbol 4 k2 0)"
  define r1 where "r1 = fst (CompleteTaskFrame 4 (InitFrame (Suc 0)) 0)"
  let ?s0 = "fresh_state cfg_cal"
  let ?s1 = "?s0 \<lparr> pilot_fft_counters := k1 \<rparr>"
  let ?s2 = "?s1 \<lparr> rc_counters := Reset 4 r1 0, rc_last_frame := 0 \<rparr>"
  let ?s3 = "?s2 \<lparr> pilot_fft_counters := k3 \<rparr>"
  have f: "pilot_fft_counters ?s0 = Init 2 (Suc 0)" "rc_counters ?s0 = InitFrame (Suc 0)"
    "rc_last_frame ?s0 = SIZE_MAX"
    by (simp_all add: fresh_state_def cfg_cal_simps)
  have t: "frame_id t0 = 0" "symbol_id t0 = 0" "frame_id t1 = 0" "symbol_id t1 = 1"
    "frame_id t2 = 0" "symbol_id t2 = 2"
    by (simp_all add: mk_tag_def t0_def t1_def t2_def)
  have e1: "CompleteTask 4 (Init 2 (Suc 0)) 0 0 = (k1, True)"
    unfolding k1_def by (simp add: CompleteTask_def IsLastTask_def Init_def Let_def)
  have e2: "CompleteTask 4 k1 0 2 = (k2, True)"
    unfolding k2_def k1_def by (simp add: CompleteTask_def IsLastTask_def Init_def Let_def)
  have e3: "CompleteSymbol 4 k2 0 = (k3, False)"
    unfolding k3_def k2_def k1_def
    by (simp add: CompleteTask_def CompleteSymbol_def IsLastSymbol_def Init_def Let_def)
  have e4: "CompleteTaskFrame 4 (InitFrame (Suc 0)) 0 = (r1, True)"
    unfolding r1_def
    by (simp add: CompleteTaskFrame_def CompleteTask_def IsLastTask_def InitFrame_def
        Init_def Let_def)
  have a: "HandleEventFft cfg_cal t0 ?s0 = Inr ?s1"
    by (rule HandleEventFft_pilot_not_counted [where ?b1.0 = True])
       (simp_all add: t f cfg_cal_simps e1 SIZE_MAX_def)
  have b: "HandleEventFft cfg_cal t1 ?s1 = Inr ?s2"
    using HandleEventFft_cal [of cfg_cal t1 ?s1 r1 True]
    by (simp add: t f cfg_cal_simps e4)
  have c: "HandleEventFft cfg_cal t2 ?s2 = Inr ?s3"
    by (rule HandleEventFft_pilot_counted [where ?c1.0 = k2])
       (simp_all add: t f cfg_cal_simps e2 e3)
  have "fold_r (HandleEventFft cfg_cal) [t0, t1, t2] ?s0 = Inr ?s3"
    by (simp add: a b c)
  then show ?thesis
    by (simp add: t0_def t1_def t2_def k1_def k2_def k3_def r1_def)
qed

text \<open>
  C7.  As stated the claim fails with reciprocal calibration enabled: a pilot symbol
  whose last FFT task completes before the calibration of the frame is not counted, then
  or later.  With two pilot symbols and one antenna, the completions of pilot symbol 0,
  of the calibration symbol and of pilot symbol 2 of frame 0 leave both pilot symbols
  with all their FFT tasks complete and \<open>rc_last_frame\<close> at frame 0, and no ZF work has
  been enqueued.
\<close>

theorem C7_pilots_done_calibrated_no_zf:
  "map_sum id
     (\<lambda>s. (sched_queue s, rc_last_frame s,
            IsLastTask (kFrameWnd cfg_cal) (pilot_fft_counters s) 0 0,
            IsLastTask (kFrameWnd cfg_cal) (pilot_fft_counters s) 0 2))
     (fold_r (HandleEventFft cfg_cal) [mk_tag 0 0 0, mk_tag 0 1 0, mk_tag 0 2 0]
        (fresh_state cfg_cal)) =
   Inr ([], 0, True, True)"
  unfolding cfg_cal_run
  by (simp add: fresh_state_def cfg_cal_simps CompleteSymbol_def CompleteTask_def
      IsLastTask_def Init_def Let_def)

text \<open>
  C7 (amended).  ZF work for a frame is enqueued exactly when an FFT completion of a
  pilot symbol is the last task of its symbol and then brings the count of pilot symbols
  of the frame to the number of pilot symbols, where with reciprocal calibration enabled
  the symbol is counted only if \<open>rc_last_frame\<close> is the frame at that moment; with
  calibration disabled \<open>rc_last_frame\<close> is not consulted.  The ZF work of frame \<open>F\<close>
  goes to the queue of parity \<open>F mod 2\<close> as \<open>ZfEventsPerSymbol div ZfBatchSize\<close> events
  of \<open>ZfBatchSize\<close> tags of frame \<open>F\<close> and symbol 0, tag \<open>j\<close> of event \<open>i\<close> naming
  the subcarrier \<open>ZfBlockSize * (i * ZfBatchSize + j)\<close>, followed, when \<open>ZfBatchSize\<close>
  does not divide \<open>ZfEventsPerSymbol\<close>, by one event with the remainder number of tags.
\<close>

theorem C7_zf_trigger:
  assumes "GetSymbolType cfg (symbol_id tag) = kPilot" and "ZfBatchSize cfg \<noteq> 0"
  shows "\<exists>s'. HandleEventFft cfg tag s = Inr s' \<and>
            sched_queue s' = sched_queue s @
              (if snd (CompleteTask (kFrameWnd cfg) (pilot_fft_counters s) (frame_id tag) (symbol_id tag)) \<and>
                  (\<not> IsRecCalEnabled cfg \<or> rc_last_frame s = frame_id tag) \<and>
                  snd (CompleteSymbol (kFrameWnd cfg)
                         (fst (CompleteTask (kFrameWnd cfg) (pilot_fft_counters s) (frame_id tag) (symbol_id tag)))
                         (frame_id tag))
               then map (\<lambda>i. (frame_id tag mod 2, mk_event kZF
                              (map (\<lambda>j. mk_tag (frame_id tag) 0 (ZfBlockSize cfg * (i * ZfBatchSize cfg + j)))
                                 [0..<ZfBatchSize cfg])))
                      [0..<ZfEventsPerSymbol cfg div ZfBatchSize cfg] @
                    (if 0 < ZfEventsPerSymbol cfg mod ZfBatchSize cfg
                     then [(frame_id tag mod 2, mk_event kZF
                            (map (\<lambda>j. mk_tag (frame_id tag) 0
                                    (ZfBlockSize cfg *
                                      (ZfEventsPerSymbol cfg div ZfBatchSize cfg *
                                         (ZfEventsPerSymbol cfg mod ZfBatchSize cfg) + j)))
                               [0..<ZfEventsPerSymbol cfg mod ZfBatchSize cfg]))]
                     else [])
               else []) \<and>
            rc_last_frame s' = rc_last_frame s \<and>
            pilot_fft_counters s' =
              (let c1 = fst (CompleteTask (kFrameWnd cfg) (pilot_fft_counters s) (frame_id tag) (symbol_id tag))
               in if snd (CompleteTask (kFrameWnd cfg) (pilot_fft_counters s) (frame_id tag) (symbol_id tag)) \<and>
                     (\<not> IsRecCalEnabled cfg \<or> rc_last_frame s = frame_id tag)
                  then if snd (CompleteSymbol (kFrameWnd cfg) c1 (frame_id tag))
                       then Reset (kFrameWnd cfg) (fst (CompleteSymbol (kFrameWnd cfg) c1 (frame_id tag)))
                              (frame_id tag)
                       else fst (CompleteSymbol (kFrameWnd cfg) c1 (frame_id tag))
                  else c1)"
proof -
  obtain c1 b1 where c1: "CompleteTask (kFrameWnd cfg) (pilot_fft_counters s) (frame_id tag) (symbol_id tag) = (c1, b1)"
    by (cases "CompleteTask (kFrameWnd cfg) (pilot_fft_counters s) (frame_id tag) (symbol_id tag)")
  obtain c2 b2 where c2: "CompleteSymbol (kFrameWnd cfg) c1 (frame_id tag) = (c2, b2)"
    by (cases "CompleteSymbol (kFrameWnd cfg) c1 (frame_id tag)")
  from HandleEventFft_pilot_state [OF assms(1) c1 c2 assms(2)] obtain s' where
    h: "HandleEventFft cfg tag s = Inr s'"
      "sched_queue s' = sched_queue s @
             (if b1 \<and> (\<not> IsRecCalEnabled cfg \<or> rc_last_frame s = frame_id tag) \<and> b2
              then the_enqs (ScheduleSubcarriers cfg kZF (frame_id tag) 0) else [])"
      "rc_last_frame s' = rc_last_frame s"
      "pilot_fft_counters s' =
             (if b1 \<and> (\<not> IsRecCalEnabled cfg \<or> rc_last_frame s = frame_id tag)
              then if b2 then Reset (kFrameWnd cfg) c2 (frame_id tag) else c2
              else c1)"
    by blast
  show ?thesis
    apply (rule exI [of _ s'])
    apply (simp only: h c1 c2 fst_conv snd_conv Let_def ScheduleSubcarriers_zf_shape [OF assms(2)]
        the_enqs_Inr)
    done
qed

lemma cfg_rem_simps:
  "ZfBatchSize cfg_rem = 3" "ZfBlockSize cfg_rem = 2" "ZfEventsPerSymbol cfg_rem = 8"
  "kFrameWnd cfg_rem = 4" "\<not> IsRecCalEnabled cfg_rem" "GetSymbolType cfg_rem 0 = kPilot"
  by (simp_all add: cfg_rem_def cfg_min_def GetSymbolType_def)

theorem C7_zf_trigger_witness:
  "(\<exists>s'. HandleEventFft cfg_min (mk_tag 0 0 3)
            ((fresh_state cfg_min) \<lparr> pilot_fft_counters := almost_done 1 4 \<rparr>) = Inr s' \<and>
          sched_queue s' =
            [(0, mk_event kZF [mk_tag 0 0 0]), (0, mk_event kZF [mk_tag 0 0 1]),
             (0, mk_event kZF [mk_tag 0 0 2]), (0, mk_event kZF [mk_tag 0 0 3]),
             (0, mk_event kZF [mk_tag 0 0 4]), (0, mk_event kZF [mk_tag 0 0 5]),
             (0, mk_event kZF [mk_tag 0 0 6]), (0, mk_event kZF [mk_tag 0 0 7])])
   \<and> (\<exists>s'. HandleEventFft (cfg_min \<lparr> IsRecCalEnabled := True \<rparr>) (mk_tag 0 0 3)
            ((fresh_state cfg_min) \<lparr> pilot_fft_counters := almost_done 1 4 \<rparr>) = Inr s' \<and>
          sched_queue s' = [] \<and>
          symbol_count (pilot_fft_counters s') 0 = 0)
   \<and> (\<exists>s'. HandleEventFft cfg_rem (mk_tag 1 0 3)
            ((fresh_state cfg_rem) \<lparr> pilot_fft_counters := almost_done 1 4 \<rparr>) = Inr s' \<and>
          sched_queue s' =
            [(1, mk_event kZF [mk_tag 1 0 0, mk_tag 1 0 2, mk_tag 1 0 4]),
             (1, mk_event kZF [mk_tag 1 0 6, mk_tag 1 0 8, mk_tag 1 0 10]),
             (1, mk_event kZF [mk_tag 1 0 8, mk_tag 1 0 10])])"
proof -
  let ?s = "(fresh_state cfg_min) \<lparr> pilot_fft_counters := almost_done 1 4 \<rparr>"
  let ?r = "(fresh_state cfg_rem) \<lparr> pilot_fft_counters := almost_done 1 4 \<rparr>"
  let ?cal = "cfg_min \<lparr> IsRecCalEnabled := True \<rparr>"
  have p: "GetSymbolType cfg_min (symbol_id (mk_tag 0 0 3)) = kPilot"
    "GetSymbolType ?cal (symbol_id (mk_tag 0 0 3)) = kPilot"
    "GetSymbolType cfg_rem (symbol_id (mk_tag 1 0 3)) = kPilot"
    by (simp_all add: mk_tag_def cfg_min_def cfg_rem_def GetSymbolType_def)
  have z: "ZfBatchSize cfg_min \<noteq> 0" "ZfBatchSize ?cal \<noteq> 0" "ZfBatchSize cfg_rem \<noteq> 0"
    by (simp_all add: cfg_min_simps cfg_rem_simps)
  have a: "snd (CompleteTask 4 (almost_done 1 4) 0 0)" "snd (CompleteTask 4 (almost_done 1 4) 1 0)"
    by (simp_all add: CompleteTask_def IsLastTask_def almost_done_def Let_def)
  have b: "snd (CompleteSymbol 4 (fst (CompleteTask 4 (almost_done 1 4) 0 0)) 0)"
    "snd (CompleteSymbol 4 (fst (CompleteTask 4 (almost_done 1 4) 1 0)) 1)"
    by (simp_all add: CompleteTask_def CompleteSymbol_def IsLastSymbol_def almost_done_def Let_def)
  have c: "symbol_count (fst (CompleteTask 4 (almost_done 1 4) 0 0)) 0 = 0"
    by (simp add: CompleteTask_def almost_done_def Let_def)
  have q: "sched_queue ?s = []" "rc_last_frame ?s = SIZE_MAX" "sched_queue ?r = []"
    by (simp_all add: fresh_state_def)
  have u8: "[0..<8] = [0, 1, 2, 3, 4, 5, 6, 7]" and u3: "[0..<3] = [0, 1, 2]"
    and u2: "[0..<2] = [0, 1]"
    by (simp_all add: upt_rec)
  have one: "\<exists>s'. HandleEventFft cfg_min (mk_tag 0 0 3) ?s = Inr s' \<and>
          sched_queue s' =
            [(0, mk_event kZF [mk_tag 0 0 0]), (0, mk_event kZF [mk_tag 0 0 1]),
             (0, mk_event kZF [mk_tag 0 0 2]), (0, mk_event kZF [mk_tag 0 0 3]),
             (0, mk_event kZF [mk_tag 0 0 4]), (0, mk_event kZF [mk_tag 0 0 5]),
             (0, mk_event kZF [mk_tag 0 0 6]), (0, mk_event kZF [mk_tag 0 0 7])]"
    using C7_zf_trigger [OF p(1) z(1), where s = ?s] a b q
    by (auto simp add: mk_tag_def cfg_min_simps u8)
  have two: "\<exists>s'. HandleEventFft ?cal (mk_tag 0 0 3) ?s = Inr s' \<and> sched_queue s' = [] \<and>
          symbol_count (pilot_fft_counters s') 0 = 0"
    using C7_zf_trigger [OF p(2) z(2), where s = ?s] q c
    by (auto simp add: mk_tag_def SIZE_MAX_def cfg_min_simps)
  have three: "\<exists>s'. HandleEventFft cfg_rem (mk_tag 1 0 3) ?r = Inr s' \<and>
          sched_queue s' =
            [(1, mk_event kZF [mk_tag 1 0 0, mk_tag 1 0 2, mk_tag 1 0 4]),
             (1, mk_event kZF [mk_tag 1 0 6, mk_tag 1 0 8, mk_tag 1 0 10]),
             (1, mk_event kZF [mk_tag 1 0 8, mk_tag 1 0 10])]"
    using C7_zf_trigger [OF p(3) z(3), where s = ?r] a b q
    by (auto simp add: mk_tag_def cfg_rem_simps u3 u2 numeral_2_eq_2 [symmetric])
  from one two three show ?thesis by blast
qed

text \<open>
  C8.  An FFT completion of an uplink symbol that is the last task of its symbol
  records the frame in \<open>fft_cur_frame_for_symbol\<close> and enqueues the Demul work of
  that (frame, symbol) exactly when \<open>zf_last_frame\<close> is the frame; any other uplink
  FFT completion enqueues nothing.  A ZF completion that is the last ZF task of a frame
  sets \<open>zf_last_frame\<close> to the frame and enqueues the Demul work of every uplink symbol
  whose \<open>fft_cur_frame_for_symbol\<close> entry is the frame (followed by the Precode work
  of the downlink symbols whose encoding is recorded); any other ZF completion enqueues
  nothing.
\<close>

theorem C8_demul_trigger:
  assumes "length (fft_cur_frame_for_symbol s) = NumULSyms cfg"
    and "length (encode_cur_frame_for_symbol s) = NumDLSyms cfg"
  shows "(GetSymbolType cfg (symbol_id tag) = kUL \<and>
          GetULSymbolIdx cfg (symbol_id tag) < NumULSyms cfg \<longrightarrow>
            (\<exists>s'. HandleEventFft cfg tag s = Inr s' \<and>
               zf_last_frame s' = zf_last_frame s \<and>
               fft_cur_frame_for_symbol s' =
                 (if snd (CompleteTask (kFrameWnd cfg) (uplink_fft_counters s) (frame_id tag) (symbol_id tag))
                  then (fft_cur_frame_for_symbol s)[GetULSymbolIdx cfg (symbol_id tag) := frame_id tag]
                  else fft_cur_frame_for_symbol s) \<and>
               sched_queue s' = sched_queue s @
                 (if snd (CompleteTask (kFrameWnd cfg) (uplink_fft_counters s) (frame_id tag) (symbol_id tag)) \<and>
                     zf_last_frame s = frame_id tag
                  then the_enqs (ScheduleSubcarriers cfg kDemul (frame_id tag) (symbol_id tag))
                  else [])))
       \<and> (\<exists>s'. handle_zf_tag cfg tag s = Inr s' \<and>
             fft_cur_frame_for_symbol s' = fft_cur_frame_for_symbol s \<and>
             zf_last_frame s' =
               (if snd (CompleteTaskFrame (kFrameWnd cfg) (zf_counters s) (frame_id tag))
                then frame_id tag else zf_last_frame s) \<and>
             sched_queue s' = sched_queue s @
               (if snd (CompleteTaskFrame (kFrameWnd cfg) (zf_counters s) (frame_id tag))
                then concat (map (\<lambda>i. if fft_cur_frame_for_symbol s ! i = frame_id tag
                                       then the_enqs (ScheduleSubcarriers cfg kDemul (frame_id tag) (GetULSymbol cfg i))
                                       else []) [0..<NumULSyms cfg]) @
                     concat (map (\<lambda>i. if encode_cur_frame_for_symbol s ! i \<noteq> SIZE_MAX \<and>
                                          encode_cur_frame_for_symbol s ! i \<ge> frame_id tag
                                       then the_enqs (ScheduleSubcarriers cfg kPrecode (frame_id tag) (GetDLSymbol cfg i))
                                       else []) [0..<NumDLSyms cfg])
                else []))"
proof -
  obtain c b where c: "CompleteTask (kFrameWnd cfg) (uplink_fft_counters s) (frame_id tag) (symbol_id tag) = (c, b)"
    by (cases "CompleteTask (kFrameWnd cfg) (uplink_fft_counters s) (frame_id tag) (symbol_id tag)")
  obtain cz bz where cz: "CompleteTaskFrame (kFrameWnd cfg) (zf_counters s) (frame_id tag) = (cz, bz)"
    by (cases "CompleteTaskFrame (kFrameWnd cfg) (zf_counters s) (frame_id tag)")
  have ul: "GetSymbolType cfg (symbol_id tag) = kUL \<and>
          GetULSymbolIdx cfg (symbol_id tag) < NumULSyms cfg \<longrightarrow>
            (\<exists>s'. HandleEventFft cfg tag s = Inr s' \<and>
               zf_last_frame s' = zf_last_frame s \<and>
               fft_cur_frame_for_symbol s' =
                 (if b then (fft_cur_frame_for_symbol s)[GetULSymbolIdx cfg (symbol_id tag) := frame_id tag]
                  else fft_cur_frame_for_symbol s) \<and>
               sched_queue s' = sched_queue s @
                 (if b \<and> zf_last_frame s = frame_id tag
                  then the_enqs (ScheduleSubcarriers cfg kDemul (frame_id tag) (symbol_id tag))
                  else []))"
  proof (intro impI, elim conjE)
    assume t: "GetSymbolType cfg (symbol_id tag) = kUL"
      and i: "GetULSymbolIdx cfg (symbol_id tag) < NumULSyms cfg"
    from HandleEventFft_UL [OF t c] i assms(1)
    show "\<exists>s'. HandleEventFft cfg tag s = Inr s' \<and>
               zf_last_frame s' = zf_last_frame s \<and>
               fft_cur_frame_for_symbol s' =
                 (if b then (fft_cur_frame_for_symbol s)[GetULSymbolIdx cfg (symbol_id tag) := frame_id tag]
                  else fft_cur_frame_for_symbol s) \<and>
               sched_queue s' = sched_queue s @
                 (if b \<and> zf_last_frame s = frame_id tag
                  then the_enqs (ScheduleSubcarriers cfg kDemul (frame_id tag) (symbol_id tag))
                  else [])"
      by (cases b) auto
  qed
  have zf: "\<exists>s'. handle_zf_tag cfg tag s = Inr s' \<and>
             fft_cur_frame_for_symbol s' = fft_cur_frame_for_symbol s \<and>
             zf_last_frame s' = (if bz then frame_id tag else zf_last_frame s) \<and>
             sched_queue s' = sched_queue s @
               (if bz
                then concat (map (\<lambda>i. if fft_cur_frame_for_symbol s ! i = frame_id tag
                                       then the_enqs (ScheduleSubcarriers cfg kDemul (frame_id tag) (GetULSymbol cfg i))
                                       else []) [0..<NumULSyms cfg]) @
                     concat (map (\<lambda>i. if encode_cur_frame_for_symbol s ! i \<noteq> SIZE_MAX \<and>
                                          encode_cur_frame_for_symbol s ! i \<ge> frame_id tag
                                       then the_enqs (ScheduleSubcarriers cfg kPrecode (frame_id tag) (GetDLSymbol cfg i))
                                       else []) [0..<NumDLSyms cfg])
                else [])"
  proof (cases bz)
    case True
    with cz show ?thesis
      using handle_zf_tag_last [of cfg s tag cz] assms by simp
  next
    case False
    with cz handle_zf_tag_not_last [of cfg s tag cz] show ?thesis by simp
  qed
  from ul zf c cz show ?thesis by simp
qed

theorem C8_demul_trigger_witness:
  "(\<exists>s'. HandleEventFft cfg_min (mk_tag 0 1 3)
            ((fresh_state cfg_min) \<lparr> uplink_fft_counters := almost_done 2 4, zf_last_frame := 0 \<rparr>) = Inr s' \<and>
          fft_cur_frame_for_symbol s' = [0, SIZE_MAX] \<and>
          sched_queue s' = the_enqs (ScheduleSubcarriers cfg_min kDemul 0 1))
   \<and> (\<exists>s'. HandleEventFft cfg_min (mk_tag 0 1 3)
            ((fresh_state cfg_min) \<lparr> uplink_fft_counters := almost_done 2 4 \<rparr>) = Inr s' \<and>
          fft_cur_frame_for_symbol s' = [0, SIZE_MAX] \<and>
          sched_queue s' = [])
   \<and> (\<exists>s'. handle_zf_tag cfg_min (mk_tag 0 0 7)
            ((fresh_state cfg_min) \<lparr> zf_counters := almost_done 1 8,
                                     fft_cur_frame_for_symbol := [0, SIZE_MAX] \<rparr>) = Inr s' \<and>
          zf_last_frame s' = 0 \<and>
          sched_queue s' = the_enqs (ScheduleSubcarriers cfg_min kDemul 0 1))
   \<and> the_enqs (ScheduleSubcarriers cfg_min kDemul 0 1) =
       [(0, mk_event kDemul [mk_tag 0 1 0]), (0, mk_event kDemul [mk_tag 0 1 4])]"
proof -
  let ?s1 = "(fresh_state cfg_min) \<lparr> uplink_fft_counters := almost_done 2 4, zf_last_frame := 0 \<rparr>"
  let ?s2 = "(fresh_state cfg_min) \<lparr> uplink_fft_counters := almost_done 2 4 \<rparr>"
  let ?s3 = "(fresh_state cfg_min) \<lparr> zf_counters := almost_done 1 8,
                                     fft_cur_frame_for_symbol := [0, SIZE_MAX] \<rparr>"
  have a: "snd (CompleteTask (kFrameWnd cfg_min) (almost_done 2 4) 0 1)"
    by (simp add: CompleteTask_def IsLastTask_def almost_done_def Let_def cfg_min_simps)
  have z: "snd (CompleteTaskFrame (kFrameWnd cfg_min) (almost_done 1 8) 0)"
    by (simp add: CompleteTaskFrame_def CompleteTask_def IsLastTask_def almost_done_def Let_def cfg_min_simps)
  have l: "length (fft_cur_frame_for_symbol ?s1) = NumULSyms cfg_min"
    "length (encode_cur_frame_for_symbol ?s1) = NumDLSyms cfg_min"
    "length (fft_cur_frame_for_symbol ?s2) = NumULSyms cfg_min"
    "length (encode_cur_frame_for_symbol ?s2) = NumDLSyms cfg_min"
    "length (fft_cur_frame_for_symbol ?s3) = NumULSyms cfg_min"
    "length (encode_cur_frame_for_symbol ?s3) = NumDLSyms cfg_min"
    by (simp_all add: fresh_state_def cfg_min_simps)
  have f: "fft_cur_frame_for_symbol (fresh_state cfg_min) = [SIZE_MAX, SIZE_MAX]"
    "encode_cur_frame_for_symbol (fresh_state cfg_min) = [SIZE_MAX, SIZE_MAX]"
    "sched_queue (fresh_state cfg_min) = []"
    "zf_last_frame (fresh_state cfg_min) = SIZE_MAX"
    by (simp_all add: fresh_state_def cfg_min_simps numeral_2_eq_2)
  have one: "\<exists>s'. HandleEventFft cfg_min (mk_tag 0 1 3) ?s1 = Inr s' \<and>
          fft_cur_frame_for_symbol s' = [0, SIZE_MAX] \<and>
          sched_queue s' = the_enqs (ScheduleSubcarriers cfg_min kDemul 0 1)"
    using C8_demul_trigger [OF l(1) l(2), of "mk_tag 0 1 3", THEN conjunct1] a f
    by (auto simp add: mk_tag_def cfg_min_simps)
  have two: "\<exists>s'. HandleEventFft cfg_min (mk_tag 0 1 3) ?s2 = Inr s' \<and>
          fft_cur_frame_for_symbol s' = [0, SIZE_MAX] \<and> sched_queue s' = []"
    using C8_demul_trigger [OF l(3) l(4), of "mk_tag 0 1 3", THEN conjunct1] a f
    by (auto simp add: mk_tag_def cfg_min_simps SIZE_MAX_def)
  have three: "\<exists>s'. handle_zf_tag cfg_min (mk_tag 0 0 7) ?s3 = Inr s' \<and>
          zf_last_frame s' = 0 \<and>
          sched_queue s' = the_enqs (ScheduleSubcarriers cfg_min kDemul 0 1)"
    using C8_demul_trigger [OF l(5) l(6), of "mk_tag 0 0 7", THEN conjunct2] z f
    by (auto simp add: mk_tag_def cfg_min_simps upt_rec SIZE_MAX_def)
  have four: "the_enqs (ScheduleSubcarriers cfg_min kDemul 0 1) =
       [(0, mk_event kDemul [mk_tag 0 1 0]), (0, mk_event kDemul [mk_tag 0 1 4])]"
    by (simp add: ScheduleSubcarriers_blocks cfg_min_simps upt_rec)
  from one two three four show ?thesis by blast
qed

text \<open>
  C5.  The trigger of downlink encoding.  Without MAC it is the first RX packet of the
  frame slot (\<open>num_pkts\<close> of the slot is 0) in \<open>UpdateRxCounters\<close>; with MAC it is
  the last \<open>kPacketFromMac\<close> completion of the frame.  At the trigger, if the deferral
  queue is not empty or the frame is at least \<open>cur_proc_frame_id + kScheduleQueues\<close>,
  the frame is appended to \<open>encode_deferral\<close> and nothing is enqueued in a stage queue;
  otherwise the stage queue and the encode rendezvous table are those
  \<open>ScheduleDownlinkProcessing\<close> leaves for the frame (and its failure is the handler's).
  An RX packet or MAC completion that is no trigger leaves the deferral queue and the
  stage queues unchanged.
\<close>

theorem C5_downlink_trigger:
  "(\<not> kEnableMac cfg \<and> num_pkts (rx_counters s) (frame mod kFrameWnd cfg) = 0 \<longrightarrow>
      (if encode_deferral s \<noteq> [] \<or> frame \<ge> cur_proc_frame_id s + kScheduleQueues cfg
       then \<exists>s'. UpdateRxCounters cfg s frame symbol = Inr s' \<and>
              encode_deferral s' = encode_deferral s @ [frame] \<and>
              sched_queue s' = sched_queue s \<and>
              encode_cur_frame_for_symbol s' = encode_cur_frame_for_symbol s
       else (case ScheduleDownlinkProcessing cfg s frame of
               Inl e \<Rightarrow> UpdateRxCounters cfg s frame symbol = Inl e
             | Inr d \<Rightarrow>
                 \<exists>s'. UpdateRxCounters cfg s frame symbol = Inr s' \<and>
                   encode_deferral s' = encode_deferral s \<and>
                   sched_queue s' = sched_queue d \<and>
                   encode_cur_frame_for_symbol s' = encode_cur_frame_for_symbol d)))
   \<and> (kEnableMac cfg \<or> num_pkts (rx_counters s) (frame mod kFrameWnd cfg) \<noteq> 0 \<longrightarrow>
        (\<exists>s'. UpdateRxCounters cfg s frame symbol = Inr s' \<and>
           encode_deferral s' = encode_deferral s \<and>
           sched_queue s' = sched_queue s \<and>
           encode_cur_frame_for_symbol s' = encode_cur_frame_for_symbol s))
   \<and> (tags ev = tag # rest \<and>
       snd (CompleteTask (kFrameWnd cfg) (mac_to_phy_counters s) (frame_id tag) 0) \<longrightarrow>
      (if encode_deferral s \<noteq> [] \<or> frame_id tag \<ge> cur_proc_frame_id s + kScheduleQueues cfg
       then \<exists>s'. handle_packet_from_mac cfg s ev = Inr s' \<and>
              encode_deferral s' = encode_deferral s @ [frame_id tag] \<and>
              sched_queue s' = sched_queue s \<and>
              encode_cur_frame_for_symbol s' = encode_cur_frame_for_symbol s
       else (case ScheduleDownlinkProcessing cfg s (frame_id tag) of
               Inl e \<Rightarrow> handle_packet_from_mac cfg s ev = Inl e
             | Inr d \<Rightarrow>
                 \<exists>s'. handle_packet_from_mac cfg s ev = Inr s' \<and>
                   encode_deferral s' = encode_deferral s \<and>
                   sched_queue s' = sched_queue d \<and>
                   encode_cur_frame_for_symbol s' = encode_cur_frame_for_symbol d)))
   \<and> (tags ev = tag # rest \<and>
       \<not> snd (CompleteTask (kFrameWnd cfg) (mac_to_phy_counters s) (frame_id tag) 0) \<longrightarrow>
        (\<exists>s'. handle_packet_from_mac cfg s ev = Inr s' \<and>
           encode_deferral s' = encode_deferral s \<and>
           sched_queue s' = sched_queue s \<and>
           encode_cur_frame_for_symbol s' = encode_cur_frame_for_symbol s))"
proof -
  have d: "\<And>d. ScheduleDownlinkProcessing cfg s frame = Inr d \<Longrightarrow> encode_deferral d = encode_deferral s"
    by (drule ScheduleDownlinkProcessing_Inr) simp
  have d': "\<And>d. ScheduleDownlinkProcessing cfg s (frame_id tag) = Inr d \<Longrightarrow> encode_deferral d = encode_deferral s"
    by (drule ScheduleDownlinkProcessing_Inr) simp
  have rx1: "\<not> kEnableMac cfg \<and> num_pkts (rx_counters s) (frame mod kFrameWnd cfg) = 0 \<longrightarrow>
      (if encode_deferral s \<noteq> [] \<or> frame \<ge> cur_proc_frame_id s + kScheduleQueues cfg
       then \<exists>s'. UpdateRxCounters cfg s frame symbol = Inr s' \<and>
              encode_deferral s' = encode_deferral s @ [frame] \<and>
              sched_queue s' = sched_queue s \<and>
              encode_cur_frame_for_symbol s' = encode_cur_frame_for_symbol s
       else (case ScheduleDownlinkProcessing cfg s frame of
               Inl e \<Rightarrow> UpdateRxCounters cfg s frame symbol = Inl e
             | Inr d \<Rightarrow>
                 \<exists>s'. UpdateRxCounters cfg s frame symbol = Inr s' \<and>
                   encode_deferral s' = encode_deferral s \<and>
                   sched_queue s' = sched_queue d \<and>
                   encode_cur_frame_for_symbol s' = encode_cur_frame_for_symbol d))"
    using d
    by (cases "ScheduleDownlinkProcessing cfg s frame")
       (auto simp add: UpdateRxCounters_def Let_def ScheduleDownlinkProcessing_rx_counters)
  have rx2: "kEnableMac cfg \<or> num_pkts (rx_counters s) (frame mod kFrameWnd cfg) \<noteq> 0 \<longrightarrow>
        (\<exists>s'. UpdateRxCounters cfg s frame symbol = Inr s' \<and>
           encode_deferral s' = encode_deferral s \<and>
           sched_queue s' = sched_queue s \<and>
           encode_cur_frame_for_symbol s' = encode_cur_frame_for_symbol s)"
    by (auto simp add: UpdateRxCounters_def Let_def)
  obtain c b where c: "CompleteTask (kFrameWnd cfg) (mac_to_phy_counters s) (frame_id tag) 0 = (c, b)"
    by (cases "CompleteTask (kFrameWnd cfg) (mac_to_phy_counters s) (frame_id tag) 0")
  have mac1: "tags ev = tag # rest \<and> b \<longrightarrow>
      (if encode_deferral s \<noteq> [] \<or> frame_id tag \<ge> cur_proc_frame_id s + kScheduleQueues cfg
       then \<exists>s'. handle_packet_from_mac cfg s ev = Inr s' \<and>
              encode_deferral s' = encode_deferral s @ [frame_id tag] \<and>
              sched_queue s' = sched_queue s \<and>
              encode_cur_frame_for_symbol s' = encode_cur_frame_for_symbol s
       else (case ScheduleDownlinkProcessing cfg s (frame_id tag) of
               Inl e \<Rightarrow> handle_packet_from_mac cfg s ev = Inl e
             | Inr d \<Rightarrow>
                 \<exists>s'. handle_packet_from_mac cfg s ev = Inr s' \<and>
                   encode_deferral s' = encode_deferral s \<and>
                   sched_queue s' = sched_queue d \<and>
                   encode_cur_frame_for_symbol s' = encode_cur_frame_for_symbol d))"
    using d' c
    by (cases "ScheduleDownlinkProcessing cfg s (frame_id tag)")
       (auto simp add: handle_packet_from_mac_def Let_def ScheduleDownlinkProcessing_mac_counters)
  have mac2: "tags ev = tag # rest \<and> \<not> b \<longrightarrow>
        (\<exists>s'. handle_packet_from_mac cfg s ev = Inr s' \<and>
           encode_deferral s' = encode_deferral s \<and>
           sched_queue s' = sched_queue s \<and>
           encode_cur_frame_for_symbol s' = encode_cur_frame_for_symbol s)"
    using c by (auto simp add: handle_packet_from_mac_def Let_def)
  from rx1 rx2 mac1 mac2 c show ?thesis by simp
qed

theorem C5_downlink_trigger_witness:
  "(\<exists>s'. UpdateRxCounters cfg_min (fresh_state cfg_min) 2 0 = Inr s' \<and>
          encode_deferral s' = [2] \<and> sched_queue s' = [])
   \<and> (\<exists>s'. UpdateRxCounters cfg_min (fresh_state cfg_min) 0 0 = Inr s' \<and>
          encode_deferral s' = [] \<and> sched_queue s' = downlink_events cfg_min False 0)
   \<and> (\<exists>s'. handle_packet_from_mac cfg_min
            ((fresh_state cfg_min) \<lparr> mac_to_phy_counters := almost_done 1 2 \<rparr>)
            (mk_event kPacketFromMac [mk_tag 2 0 1]) = Inr s' \<and>
          encode_deferral s' = [2] \<and> sched_queue s' = [])
   \<and> downlink_events cfg_min False 0 =
       [(0, mk_event kEncode [mk_tag 0 3 0]), (0, mk_event kEncode [mk_tag 0 3 1]),
        (0, mk_event kEncode [mk_tag 0 4 0]), (0, mk_event kEncode [mk_tag 0 4 1])]"
proof -
  let ?s = "fresh_state cfg_min"
  let ?m = "(fresh_state cfg_min) \<lparr> mac_to_phy_counters := almost_done 1 2 \<rparr>"
  let ?ev = "mk_event kPacketFromMac [mk_tag 2 0 1]"
  have f: "num_pkts (rx_counters ?s) (2 mod kFrameWnd cfg_min) = 0"
    "num_pkts (rx_counters ?s) (0 mod kFrameWnd cfg_min) = 0"
    "encode_deferral ?s = []" "cur_proc_frame_id ?s = 0" "sched_queue ?s = []"
    "zf_last_frame ?s = SIZE_MAX" "length (encode_cur_frame_for_symbol ?s) = 2"
    "encode_deferral ?m = []" "cur_proc_frame_id ?m = 0" "sched_queue ?m = []"
    by (simp_all add: fresh_state_def cfg_min_simps)
  have one: "\<exists>s'. UpdateRxCounters cfg_min ?s 2 0 = Inr s' \<and>
          encode_deferral s' = [2] \<and> sched_queue s' = []"
    using C5_downlink_trigger [where cfg = cfg_min and s = ?s and frame = 2 and symbol = 0,
        THEN conjunct1] f
    by (auto simp add: cfg_min_simps)
  have sdp: "ScheduleDownlinkProcessing cfg_min ?s 0 =
           Inr (enqueue (downlink_events cfg_min False 0)
                 (?s \<lparr> encode_cur_frame_for_symbol :=
                        fold (\<lambda>i v. v[i := 0]) [0..<ClientDlPilotSymbols cfg_min]
                          (encode_cur_frame_for_symbol ?s) \<rparr>))"
    using ScheduleDownlinkProcessing_ok [of cfg_min ?s 0] f
    by (simp add: cfg_min_simps SIZE_MAX_def)
  have two: "\<exists>s'. UpdateRxCounters cfg_min ?s 0 0 = Inr s' \<and>
          encode_deferral s' = [] \<and> sched_queue s' = downlink_events cfg_min False 0"
    using C5_downlink_trigger [where cfg = cfg_min and s = ?s and frame = 0 and symbol = 0,
        THEN conjunct1] f sdp
    by (auto simp add: cfg_min_simps)
  have t: "tags ?ev = mk_tag 2 0 1 # []" by (simp add: mk_event_def)
  have l: "snd (CompleteTask (kFrameWnd cfg_min) (mac_to_phy_counters ?m) (frame_id (mk_tag 2 0 1)) 0)"
    by (simp add: CompleteTask_def IsLastTask_def almost_done_def Let_def cfg_min_simps mk_tag_def)
  have three: "\<exists>s'. handle_packet_from_mac cfg_min ?m ?ev = Inr s' \<and>
          encode_deferral s' = [2] \<and> sched_queue s' = []"
    using C5_downlink_trigger [where cfg = cfg_min and s = ?m and ev = ?ev
          and tag = "mk_tag 2 0 1" and rest = "[]", THEN conjunct2, THEN conjunct2, THEN conjunct1]
      t l f
    by (auto simp add: cfg_min_simps mk_tag_def)
  have four: "downlink_events cfg_min False 0 =
       [(0, mk_event kEncode [mk_tag 0 3 0]), (0, mk_event kEncode [mk_tag 0 3 1]),
        (0, mk_event kEncode [mk_tag 0 4 0]), (0, mk_event kEncode [mk_tag 0 4 1])]"
    by (simp add: downlink_events_def ScheduleCodeblocks_def block_loop_def cfg_min_simps
        Let_def upt_rec)
  from one two three four show ?thesis by blast
qed

lemma cfg_pilot_simps:
  "BsAntNum cfg_pilot = 4" "UeAntNum cfg_pilot = 2" "FftBlockSize cfg_pilot = 2"
  "ZfBatchSize cfg_pilot = 1" "ZfBlockSize cfg_pilot = 1" "ZfEventsPerSymbol cfg_pilot = 1"
  "DemulEventsPerSymbol cfg_pilot = 2" "DemulBlockSize cfg_pilot = 4" "EncodeBlockSize cfg_pilot = 1"
  "NumBlocksInSymbol cfg_pilot = 1" "SocketThreadNum cfg_pilot = 1" "NumChannels cfg_pilot = 1"
  "ClientDlPilotSymbols cfg_pilot = 1" "\<not> BigstationMode cfg_pilot" "\<not> IsRecCalEnabled cfg_pilot"
  "FramesToTest cfg_pilot = 3" "\<not> kEnableMac cfg_pilot" "kFrameWnd cfg_pilot = 4"
  "kScheduleQueues cfg_pilot = 2" "asserts_enabled cfg_pilot"
  "NumPilotSyms cfg_pilot = 1" "NumULSyms cfg_pilot = 2" "NumDLSyms cfg_pilot = 2"
  "GetSymbolType cfg_pilot 0 = kPilot"
  "GetDLSymbol cfg_pilot 0 = 3" "GetDLSymbol cfg_pilot 1 = 4" "GetDLSymbol cfg_pilot (Suc 0) = 4"
  "GetDLSymbolIdx cfg_pilot 3 = 0" "GetDLSymbolIdx cfg_pilot 4 = 1"
  by (simp_all add: cfg_pilot_def cfg_min_def NumPilotSyms_def NumULSyms_def NumDLSyms_def
      symbols_of_def GetSymbolType_def GetDLSymbol_def GetDLSymbolIdx_def
      GetSymbol_def SIZE_MAX_def upt_rec nth_Cons')

lemma AgoraNew_cfg_pilot: "AgoraNew cfg_pilot = Inr (fresh_state cfg_pilot)"
  by (simp add: AgoraNew_def CheckIncrementScheduleFrame_def Let_def cfg_pilot_simps
      kProcessingComplete_def kUplinkComplete_def kDownlinkComplete_def kNone_def)
     (simp add: fresh_state_def kNone_def)

lemma cfg_pilot_first_rx:
  "\<exists>s1. handle_event cfg_pilot (fresh_state cfg_pilot) (mk_event kPacketRX [mk_tag 0 0 0]) = Inr (s1, False) \<and>
     sched_queue s1 = [(0, mk_event kEncode [mk_tag 0 4 0]), (0, mk_event kEncode [mk_tag 0 4 1])] \<and>
     encode_cur_frame_for_symbol s1 = [0, SIZE_MAX] \<and>
     fft_cur_frame_for_symbol s1 = [SIZE_MAX, SIZE_MAX] \<and>
     zf_counters s1 = InitFrame 1 \<and>
     cur_sche_frame_id s1 = 0 \<and>
     fft_queue_arr s1 0 = [mk_tag 0 0 0]"
proof -
  let ?s = "fresh_state cfg_pilot"
  have f: "zf_last_frame ?s = SIZE_MAX" "encode_cur_frame_for_symbol ?s = [SIZE_MAX, SIZE_MAX]"
    "fft_cur_frame_for_symbol ?s = [SIZE_MAX, SIZE_MAX]" "sched_queue ?s = []"
    "encode_deferral ?s = []" "cur_proc_frame_id ?s = 0" "cur_sche_frame_id ?s = 0"
    "zf_counters ?s = InitFrame 1" "fft_queue_arr ?s = (\<lambda>slot. [])"
    "num_pkts (rx_counters ?s) = (\<lambda>slot. 0)"
    by (simp_all add: fresh_state_def cfg_pilot_simps numeral_2_eq_2)
  have sdp: "ScheduleDownlinkProcessing cfg_pilot ?s 0 =
           Inr (enqueue (downlink_events cfg_pilot False 0)
                 (?s \<lparr> encode_cur_frame_for_symbol := [0, SIZE_MAX] \<rparr>))"
    using ScheduleDownlinkProcessing_ok [of cfg_pilot ?s 0] f
    by (simp add: cfg_pilot_simps SIZE_MAX_def)
  have ev: "downlink_events cfg_pilot False 0 =
       [(0, mk_event kEncode [mk_tag 0 4 0]), (0, mk_event kEncode [mk_tag 0 4 1])]"
    by (simp add: downlink_events_def ScheduleCodeblocks_def block_loop_def cfg_pilot_simps
        Let_def upt_rec)
  show ?thesis
    using f
    by (simp add: handle_event_def handle_switch_def handle_packet_rx_def no_finish_def
        UpdateRxCounters_def Let_def mk_event_def [of kPacketRX] mk_tag_def [of 0 0 0]
        IsPilot_def cfg_pilot_simps ScheduleDownlinkProcessing_rx_counters sdp ev
        schedule_fft_def enqueue_def)
qed

lemma cfg_pilot_zf_done:
  assumes "sched_queue s1 = q"
    and "encode_cur_frame_for_symbol s1 = [0, SIZE_MAX]"
    and "fft_cur_frame_for_symbol s1 = [SIZE_MAX, SIZE_MAX]"
    and "zf_counters s1 = InitFrame 1"
    and "cur_sche_frame_id s1 = 0"
    and "fft_queue_arr s1 0 = [mk_tag 0 0 0]"
  shows "\<exists>s2. handle_event cfg_pilot s1 (mk_event kZF [mk_tag 0 0 0]) = Inr (s2, False) \<and>
     sched_queue s2 = q @ [(0, mk_event kPrecode [mk_tag 0 3 0]), (0, mk_event kPrecode [mk_tag 0 3 4])]"
proof -
  have c: "CompleteTaskFrame (kFrameWnd cfg_pilot) (zf_counters s1) (frame_id (mk_tag 0 0 0)) =
      (fst (CompleteTaskFrame (kFrameWnd cfg_pilot) (zf_counters s1) (frame_id (mk_tag 0 0 0))), True)"
    using assms(4)
    by (simp add: CompleteTaskFrame_def CompleteTask_def IsLastTask_def InitFrame_def Init_def
        Let_def mk_tag_def)
  have l: "length (fft_cur_frame_for_symbol s1) = NumULSyms cfg_pilot"
    "length (encode_cur_frame_for_symbol s1) = NumDLSyms cfg_pilot"
    using assms by (simp_all add: cfg_pilot_simps)
  have t: "frame_id (mk_tag 0 0 0) = 0"
    by (simp add: mk_tag_def)
  show ?thesis
    using assms
    by (simp add: handle_event_def handle_switch_def no_finish_def mk_event_def [of kZF]
        handle_zf_tag_last [OF c l] schedule_fft_def cfg_pilot_simps
        ScheduleSubcarriers_blocks upt_rec SIZE_MAX_def Let_def enqueue_def t)
qed

text \<open>
  C1.  As stated the claim fails for the client downlink pilot symbols: they are never
  encoded, and the master precodes them with no Encode completion at all.  In the
  minimal configuration with one client pilot symbol, after the first RX packet of
  frame 0 and the ZF completion of frame 0 (no Encode completion has been handled), the
  stage queue holds the Precode events of the pilot symbol 3 of frame 0.
\<close>

theorem C1_pilot_precoded_without_encode:
  "final_queue cfg_pilot [mk_event kPacketRX [mk_tag 0 0 0], mk_event kZF [mk_tag 0 0 0]] =
     [(0, mk_event kEncode [mk_tag 0 4 0]), (0, mk_event kEncode [mk_tag 0 4 1]),
      (0, mk_event kPrecode [mk_tag 0 3 0]), (0, mk_event kPrecode [mk_tag 0 3 4])]"
proof -
  from cfg_pilot_first_rx obtain s1 where
    s1: "handle_event cfg_pilot (fresh_state cfg_pilot) (mk_event kPacketRX [mk_tag 0 0 0]) = Inr (s1, False)"
    and q1: "sched_queue s1 = [(0, mk_event kEncode [mk_tag 0 4 0]), (0, mk_event kEncode [mk_tag 0 4 1])]"
    and r1: "encode_cur_frame_for_symbol s1 = [0, SIZE_MAX]"
      "fft_cur_frame_for_symbol s1 = [SIZE_MAX, SIZE_MAX]"
      "zf_counters s1 = InitFrame 1" "cur_sche_frame_id s1 = 0"
      "fft_queue_arr s1 0 = [mk_tag 0 0 0]"
    by blast
  from cfg_pilot_zf_done [OF q1 r1] obtain s2 where
    s2: "handle_event cfg_pilot s1 (mk_event kZF [mk_tag 0 0 0]) = Inr (s2, False)"
    and q2: "sched_queue s2 = [(0, mk_event kEncode [mk_tag 0 4 0]), (0, mk_event kEncode [mk_tag 0 4 1])] @
       [(0, mk_event kPrecode [mk_tag 0 3 0]), (0, mk_event kPrecode [mk_tag 0 3 4])]"
    by blast
  show ?thesis
    by (simp add: final_queue_def AgoraNew_cfg_pilot s1 s2 q2)
qed

text \<open>
  C1 (amended).  Precode work for a downlink data symbol of frame \<open>F\<close> is enqueued only
  when \<open>zf_last_frame\<close> is \<open>F\<close> and the last Encode task of that (frame, symbol) has
  completed, which the master records by writing \<open>F\<close> into the entry of the symbol in
  \<open>encode_cur_frame_for_symbol\<close>: the Encode handler writes the entry exactly at the
  last Encode task of the symbol and enqueues the Precode work there if \<open>zf_last_frame\<close>
  is \<open>F\<close> already; the ZF handler, at the last ZF task of \<open>F\<close>, sets \<open>zf_last_frame\<close>
  to \<open>F\<close> and enqueues the Precode work of every downlink symbol whose entry is not
  \<open>SIZE_MAX\<close> and at least \<open>F\<close>, which for the data symbols is every symbol whose entry
  is \<open>F\<close> as long as no Encode completion of a later frame has been handled (no entry
  of a data symbol exceeds \<open>F\<close>).  The client pilot symbols are not encoded:
  \<open>ScheduleDownlinkProcessing\<close> enqueues their Precode work at once when \<open>zf_last_frame\<close>
  is the frame, and otherwise writes the frame into their entries, which it never does
  for a data symbol, so that the ZF handler enqueues their Precode work; after them it
  enqueues the Encode work of the data symbols.
\<close>

theorem C1_precode_dispatch:
  assumes "length (fft_cur_frame_for_symbol s) = NumULSyms cfg"
    and "length (encode_cur_frame_for_symbol s) = NumDLSyms cfg"
  shows "(\<forall>s'. ScheduleDownlinkProcessing cfg s frame = Inr s' \<longrightarrow>
            s' = s \<lparr> encode_cur_frame_for_symbol :=
                       (if zf_last_frame s = frame then encode_cur_frame_for_symbol s
                        else fold (\<lambda>i v. v[i := frame]) [0..<ClientDlPilotSymbols cfg]
                               (encode_cur_frame_for_symbol s)),
                     sched_queue := sched_queue s @
                       (if zf_last_frame s = frame
                        then concat (map (\<lambda>i. the_enqs (ScheduleSubcarriers cfg kPrecode frame (GetDLSymbol cfg i)))
                                       [0..<ClientDlPilotSymbols cfg])
                        else []) @
                       concat (map (\<lambda>i. the_enqs (ScheduleCodeblocks cfg kEncode frame (GetDLSymbol cfg i)))
                                 [ClientDlPilotSymbols cfg..<NumDLSyms cfg]) \<rparr> \<and>
            (\<forall>i. ClientDlPilotSymbols cfg \<le> i \<longrightarrow>
                 encode_cur_frame_for_symbol s' ! i = encode_cur_frame_for_symbol s ! i) \<and>
            (zf_last_frame s \<noteq> frame \<longrightarrow>
               (\<forall>i. i < ClientDlPilotSymbols cfg \<and> i < NumDLSyms cfg \<longrightarrow>
                    encode_cur_frame_for_symbol s' ! i = frame)))
       \<and> (EncodeBlockSize cfg \<noteq> 0 \<and> ClientDlPilotSymbols cfg \<le> NumDLSyms cfg \<longrightarrow>
            (\<exists>s'. ScheduleDownlinkProcessing cfg s frame = Inr s'))
       \<and> (GetDLSymbolIdx cfg (symbol_id tag) < NumDLSyms cfg \<longrightarrow>
            (\<exists>s'. handle_encode_tag cfg tag s = Inr s' \<and>
               zf_last_frame s' = zf_last_frame s \<and>
               encode_cur_frame_for_symbol s' =
                 (if snd (CompleteTask (kFrameWnd cfg) (encode_counters s) (frame_id tag) (symbol_id tag))
                  then (encode_cur_frame_for_symbol s)[GetDLSymbolIdx cfg (symbol_id tag) := frame_id tag]
                  else encode_cur_frame_for_symbol s) \<and>
               sched_queue s' = sched_queue s @
                 (if snd (CompleteTask (kFrameWnd cfg) (encode_counters s) (frame_id tag) (symbol_id tag)) \<and>
                     zf_last_frame s = frame_id tag
                  then the_enqs (ScheduleSubcarriers cfg kPrecode (frame_id tag) (symbol_id tag))
                  else [])))
       \<and> (\<exists>s'. handle_zf_tag cfg tag s = Inr s' \<and>
             zf_last_frame s' =
               (if snd (CompleteTaskFrame (kFrameWnd cfg) (zf_counters s) (frame_id tag))
                then frame_id tag else zf_last_frame s) \<and>
             encode_cur_frame_for_symbol s' = encode_cur_frame_for_symbol s \<and>
             sched_queue s' = sched_queue s @
               (if snd (CompleteTaskFrame (kFrameWnd cfg) (zf_counters s) (frame_id tag))
                then concat (map (\<lambda>i. if fft_cur_frame_for_symbol s ! i = frame_id tag
                                       then the_enqs (ScheduleSubcarriers cfg kDemul (frame_id tag) (GetULSymbol cfg i))
                                       else []) [0..<NumULSyms cfg]) @
                     concat (map (\<lambda>i. if encode_cur_frame_for_symbol s ! i \<noteq> SIZE_MAX \<and>
                                          encode_cur_frame_for_symbol s ! i \<ge> frame_id tag
                                       then the_enqs (ScheduleSubcarriers cfg kPrecode (frame_id tag) (GetDLSymbol cfg i))
                                       else []) [0..<NumDLSyms cfg])
                else []) \<and>
             ((\<forall>i. ClientDlPilotSymbols cfg \<le> i \<and> i < NumDLSyms cfg \<longrightarrow>
                   encode_cur_frame_for_symbol s ! i = SIZE_MAX \<or>
                   encode_cur_frame_for_symbol s ! i \<le> frame_id tag) \<longrightarrow>
              sched_queue s' = sched_queue s @
               (if snd (CompleteTaskFrame (kFrameWnd cfg) (zf_counters s) (frame_id tag))
                then concat (map (\<lambda>i. if fft_cur_frame_for_symbol s ! i = frame_id tag
                                       then the_enqs (ScheduleSubcarriers cfg kDemul (frame_id tag) (GetULSymbol cfg i))
                                       else []) [0..<NumULSyms cfg]) @
                     concat (map (\<lambda>i. if (if i < ClientDlPilotSymbols cfg
                                           then encode_cur_frame_for_symbol s ! i \<noteq> SIZE_MAX \<and>
                                                encode_cur_frame_for_symbol s ! i \<ge> frame_id tag
                                           else encode_cur_frame_for_symbol s ! i = frame_id tag \<and>
                                                frame_id tag \<noteq> SIZE_MAX)
                                       then the_enqs (ScheduleSubcarriers cfg kPrecode (frame_id tag) (GetDLSymbol cfg i))
                                       else []) [0..<NumDLSyms cfg])
                else [])))
       \<and> the_enqs (ScheduleSubcarriers cfg kPrecode frame symbol) =
           map (\<lambda>k. (frame mod 2, mk_event kPrecode [mk_tag frame symbol (k * DemulBlockSize cfg)]))
             [0..<DemulEventsPerSymbol cfg]"
proof -
  have sdp: "\<forall>s'. ScheduleDownlinkProcessing cfg s frame = Inr s' \<longrightarrow>
            s' = s \<lparr> encode_cur_frame_for_symbol :=
                       (if zf_last_frame s = frame then encode_cur_frame_for_symbol s
                        else fold (\<lambda>i v. v[i := frame]) [0..<ClientDlPilotSymbols cfg]
                               (encode_cur_frame_for_symbol s)),
                     sched_queue := sched_queue s @
                       (if zf_last_frame s = frame
                        then concat (map (\<lambda>i. the_enqs (ScheduleSubcarriers cfg kPrecode frame (GetDLSymbol cfg i)))
                                       [0..<ClientDlPilotSymbols cfg])
                        else []) @
                       concat (map (\<lambda>i. the_enqs (ScheduleCodeblocks cfg kEncode frame (GetDLSymbol cfg i)))
                                 [ClientDlPilotSymbols cfg..<NumDLSyms cfg]) \<rparr> \<and>
            (\<forall>i. ClientDlPilotSymbols cfg \<le> i \<longrightarrow>
                 encode_cur_frame_for_symbol s' ! i = encode_cur_frame_for_symbol s ! i) \<and>
            (zf_last_frame s \<noteq> frame \<longrightarrow>
               (\<forall>i. i < ClientDlPilotSymbols cfg \<and> i < NumDLSyms cfg \<longrightarrow>
                    encode_cur_frame_for_symbol s' ! i = frame))"
  proof (intro allI impI)
    fix s'
    assume "ScheduleDownlinkProcessing cfg s frame = Inr s'"
    note e = ScheduleDownlinkProcessing_Inr [OF this]
    have st: "s' = s \<lparr> encode_cur_frame_for_symbol :=
                       (if zf_last_frame s = frame then encode_cur_frame_for_symbol s
                        else fold (\<lambda>i v. v[i := frame]) [0..<ClientDlPilotSymbols cfg]
                               (encode_cur_frame_for_symbol s)),
                     sched_queue := sched_queue s @
                       (if zf_last_frame s = frame
                        then concat (map (\<lambda>i. the_enqs (ScheduleSubcarriers cfg kPrecode frame (GetDLSymbol cfg i)))
                                       [0..<ClientDlPilotSymbols cfg])
                        else []) @
                       concat (map (\<lambda>i. the_enqs (ScheduleCodeblocks cfg kEncode frame (GetDLSymbol cfg i)))
                                 [ClientDlPilotSymbols cfg..<NumDLSyms cfg]) \<rparr>"
      by (subst e) (simp add: enqueue_def downlink_events_def)
    have ec: "encode_cur_frame_for_symbol s' =
                       (if zf_last_frame s = frame then encode_cur_frame_for_symbol s
                        else fold (\<lambda>i v. v[i := frame]) [0..<ClientDlPilotSymbols cfg]
                               (encode_cur_frame_for_symbol s))"
      by (subst e) simp
    have d: "\<forall>i. ClientDlPilotSymbols cfg \<le> i \<longrightarrow>
                 encode_cur_frame_for_symbol s' ! i = encode_cur_frame_for_symbol s ! i"
      unfolding ec by (simp add: fold_update_nth)
    have p: "zf_last_frame s \<noteq> frame \<longrightarrow>
               (\<forall>i. i < ClientDlPilotSymbols cfg \<and> i < NumDLSyms cfg \<longrightarrow>
                    encode_cur_frame_for_symbol s' ! i = frame)"
      unfolding ec using assms(2) by (simp add: fold_update_nth)
    from st d p show "s' = s \<lparr> encode_cur_frame_for_symbol :=
                       (if zf_last_frame s = frame then encode_cur_frame_for_symbol s
                        else fold (\<lambda>i v. v[i := frame]) [0..<ClientDlPilotSymbols cfg]
                               (encode_cur_frame_for_symbol s)),
                     sched_queue := sched_queue s @
                       (if zf_last_frame s = frame
                        then concat (map (\<lambda>i. the_enqs (ScheduleSubcarriers cfg kPrecode frame (GetDLSymbol cfg i)))
                                       [0..<ClientDlPilotSymbols cfg])
                        else []) @
                       concat (map (\<lambda>i. the_enqs (ScheduleCodeblocks cfg kEncode frame (GetDLSymbol cfg i)))
                                 [ClientDlPilotSymbols cfg..<NumDLSyms cfg]) \<rparr> \<and>
            (\<forall>i. ClientDlPilotSymbols cfg \<le> i \<longrightarrow>
                 encode_cur_frame_for_symbol s' ! i = encode_cur_frame_for_symbol s ! i) \<and>
            (zf_last_frame s \<noteq> frame \<longrightarrow>
               (\<forall>i. i < ClientDlPilotSymbols cfg \<and> i < NumDLSyms cfg \<longrightarrow>
                    encode_cur_frame_for_symbol s' ! i = frame))"
      by blast
  qed
  have tot: "EncodeBlockSize cfg \<noteq> 0 \<and> ClientDlPilotSymbols cfg \<le> NumDLSyms cfg \<longrightarrow>
            (\<exists>s'. ScheduleDownlinkProcessing cfg s frame = Inr s')"
    using ScheduleDownlinkProcessing_ok [of cfg s frame] assms(2) by auto
  obtain c b where c: "CompleteTask (kFrameWnd cfg) (encode_counters s) (frame_id tag) (symbol_id tag) = (c, b)"
    by (cases "CompleteTask (kFrameWnd cfg) (encode_counters s) (frame_id tag) (symbol_id tag)")
  have enc: "GetDLSymbolIdx cfg (symbol_id tag) < NumDLSyms cfg \<longrightarrow>
            (\<exists>s'. handle_encode_tag cfg tag s = Inr s' \<and>
               zf_last_frame s' = zf_last_frame s \<and>
               encode_cur_frame_for_symbol s' =
                 (if snd (CompleteTask (kFrameWnd cfg) (encode_counters s) (frame_id tag) (symbol_id tag))
                  then (encode_cur_frame_for_symbol s)[GetDLSymbolIdx cfg (symbol_id tag) := frame_id tag]
                  else encode_cur_frame_for_symbol s) \<and>
               sched_queue s' = sched_queue s @
                 (if snd (CompleteTask (kFrameWnd cfg) (encode_counters s) (frame_id tag) (symbol_id tag)) \<and>
                     zf_last_frame s = frame_id tag
                  then the_enqs (ScheduleSubcarriers cfg kPrecode (frame_id tag) (symbol_id tag))
                  else []))"
    using handle_encode_tag_cases [OF c] assms(2) c by auto
  obtain cz bz where cz: "CompleteTaskFrame (kFrameWnd cfg) (zf_counters s) (frame_id tag) = (cz, bz)"
    by (cases "CompleteTaskFrame (kFrameWnd cfg) (zf_counters s) (frame_id tag)")
  have zf0: "\<exists>s'. handle_zf_tag cfg tag s = Inr s' \<and>
             zf_last_frame s' = (if bz then frame_id tag else zf_last_frame s) \<and>
             encode_cur_frame_for_symbol s' = encode_cur_frame_for_symbol s \<and>
             sched_queue s' = sched_queue s @
               (if bz
                then concat (map (\<lambda>i. if fft_cur_frame_for_symbol s ! i = frame_id tag
                                       then the_enqs (ScheduleSubcarriers cfg kDemul (frame_id tag) (GetULSymbol cfg i))
                                       else []) [0..<NumULSyms cfg]) @
                     concat (map (\<lambda>i. if encode_cur_frame_for_symbol s ! i \<noteq> SIZE_MAX \<and>
                                          encode_cur_frame_for_symbol s ! i \<ge> frame_id tag
                                       then the_enqs (ScheduleSubcarriers cfg kPrecode (frame_id tag) (GetDLSymbol cfg i))
                                       else []) [0..<NumDLSyms cfg])
                else [])"
  proof (cases bz)
    case True
    with cz show ?thesis
      using handle_zf_tag_last [of cfg s tag cz] assms by simp
  next
    case False
    with cz handle_zf_tag_not_last [of cfg s tag cz] show ?thesis by simp
  qed
  have io: "(\<forall>i. ClientDlPilotSymbols cfg \<le> i \<and> i < NumDLSyms cfg \<longrightarrow>
                   encode_cur_frame_for_symbol s ! i = SIZE_MAX \<or>
                   encode_cur_frame_for_symbol s ! i \<le> frame_id tag) \<Longrightarrow>
         map (\<lambda>i. if encode_cur_frame_for_symbol s ! i \<noteq> SIZE_MAX \<and>
                                          encode_cur_frame_for_symbol s ! i \<ge> frame_id tag
                                       then the_enqs (ScheduleSubcarriers cfg kPrecode (frame_id tag) (GetDLSymbol cfg i))
                                       else []) [0..<NumDLSyms cfg] =
         map (\<lambda>i. if (if i < ClientDlPilotSymbols cfg
                                           then encode_cur_frame_for_symbol s ! i \<noteq> SIZE_MAX \<and>
                                                encode_cur_frame_for_symbol s ! i \<ge> frame_id tag
                                           else encode_cur_frame_for_symbol s ! i = frame_id tag \<and>
                                                frame_id tag \<noteq> SIZE_MAX)
                                       then the_enqs (ScheduleSubcarriers cfg kPrecode (frame_id tag) (GetDLSymbol cfg i))
                                       else []) [0..<NumDLSyms cfg]"
    by (rule map_cong) (auto simp add: not_less dest: le_antisym)
  from zf0 obtain sz where
    sz: "handle_zf_tag cfg tag s = Inr sz"
      "zf_last_frame sz = (if bz then frame_id tag else zf_last_frame s)"
      "encode_cur_frame_for_symbol sz = encode_cur_frame_for_symbol s"
      "sched_queue sz = sched_queue s @
               (if bz
                then concat (map (\<lambda>i. if fft_cur_frame_for_symbol s ! i = frame_id tag
                                       then the_enqs (ScheduleSubcarriers cfg kDemul (frame_id tag) (GetULSymbol cfg i))
                                       else []) [0..<NumULSyms cfg]) @
                     concat (map (\<lambda>i. if encode_cur_frame_for_symbol s ! i \<noteq> SIZE_MAX \<and>
                                          encode_cur_frame_for_symbol s ! i \<ge> frame_id tag
                                       then the_enqs (ScheduleSubcarriers cfg kPrecode (frame_id tag) (GetDLSymbol cfg i))
                                       else []) [0..<NumDLSyms cfg])
                else [])"
    by blast
  have zf: "\<exists>s'. handle_zf_tag cfg tag s = Inr s' \<and>
             zf_last_frame s' =
               (if snd (CompleteTaskFrame (kFrameWnd cfg) (zf_counters s) (frame_id tag))
                then frame_id tag else zf_last_frame s) \<and>
             encode_cur_frame_for_symbol s' = encode_cur_frame_for_symbol s \<and>
             sched_queue s' = sched_queue s @
               (if snd (CompleteTaskFrame (kFrameWnd cfg) (zf_counters s) (frame_id tag))
                then concat (map (\<lambda>i. if fft_cur_frame_for_symbol s ! i = frame_id tag
                                       then the_enqs (ScheduleSubcarriers cfg kDemul (frame_id tag) (GetULSymbol cfg i))
                                       else []) [0..<NumULSyms cfg]) @
                     concat (map (\<lambda>i. if encode_cur_frame_for_symbol s ! i \<noteq> SIZE_MAX \<and>
                                          encode_cur_frame_for_symbol s ! i \<ge> frame_id tag
                                       then the_enqs (ScheduleSubcarriers cfg kPrecode (frame_id tag) (GetDLSymbol cfg i))
                                       else []) [0..<NumDLSyms cfg])
                else []) \<and>
             ((\<forall>i. ClientDlPilotSymbols cfg \<le> i \<and> i < NumDLSyms cfg \<longrightarrow>
                   encode_cur_frame_for_symbol s ! i = SIZE_MAX \<or>
                   encode_cur_frame_for_symbol s ! i \<le> frame_id tag) \<longrightarrow>
              sched_queue s' = sched_queue s @
               (if snd (CompleteTaskFrame (kFrameWnd cfg) (zf_counters s) (frame_id tag))
                then concat (map (\<lambda>i. if fft_cur_frame_for_symbol s ! i = frame_id tag
                                       then the_enqs (ScheduleSubcarriers cfg kDemul (frame_id tag) (GetULSymbol cfg i))
                                       else []) [0..<NumULSyms cfg]) @
                     concat (map (\<lambda>i. if (if i < ClientDlPilotSymbols cfg
                                           then encode_cur_frame_for_symbol s ! i \<noteq> SIZE_MAX \<and>
                                                encode_cur_frame_for_symbol s ! i \<ge> frame_id tag
                                           else encode_cur_frame_for_symbol s ! i = frame_id tag \<and>
                                                frame_id tag \<noteq> SIZE_MAX)
                                       then the_enqs (ScheduleSubcarriers cfg kPrecode (frame_id tag) (GetDLSymbol cfg i))
                                       else []) [0..<NumDLSyms cfg])
                else []))"
    apply (rule exI [of _ sz])
    apply (simp only: sz cz snd_conv)
    apply (intro conjI impI refl)
    apply (simp only: io)
    done
  have pre: "the_enqs (ScheduleSubcarriers cfg kPrecode frame symbol) =
           map (\<lambda>k. (frame mod 2, mk_event kPrecode [mk_tag frame symbol (k * DemulBlockSize cfg)]))
             [0..<DemulEventsPerSymbol cfg]"
    by (simp add: ScheduleSubcarriers_blocks)
  from sdp tot enc zf pre show ?thesis by (intro conjI)
qed

theorem C1_precode_dispatch_witness:
  "(\<exists>s'. ScheduleDownlinkProcessing cfg_pilot ((fresh_state cfg_pilot) \<lparr> zf_last_frame := 0 \<rparr>) 0 = Inr s' \<and>
          encode_cur_frame_for_symbol s' = [SIZE_MAX, SIZE_MAX] \<and>
          sched_queue s' =
            [(0, mk_event kPrecode [mk_tag 0 3 0]), (0, mk_event kPrecode [mk_tag 0 3 4]),
             (0, mk_event kEncode [mk_tag 0 4 0]), (0, mk_event kEncode [mk_tag 0 4 1])])
   \<and> (\<exists>s'. ScheduleDownlinkProcessing cfg_pilot (fresh_state cfg_pilot) 0 = Inr s' \<and>
          encode_cur_frame_for_symbol s' = [0, SIZE_MAX] \<and>
          sched_queue s' =
            [(0, mk_event kEncode [mk_tag 0 4 0]), (0, mk_event kEncode [mk_tag 0 4 1])])
   \<and> (\<exists>s'. handle_encode_tag cfg_pilot (mk_tag 0 4 1)
            ((fresh_state cfg_pilot) \<lparr> zf_last_frame := 0, encode_counters := almost_done 1 2 \<rparr>) = Inr s' \<and>
          encode_cur_frame_for_symbol s' = [SIZE_MAX, 0] \<and>
          sched_queue s' =
            [(0, mk_event kPrecode [mk_tag 0 4 0]), (0, mk_event kPrecode [mk_tag 0 4 4])])
   \<and> (\<exists>s'. handle_encode_tag cfg_pilot (mk_tag 0 4 1)
            ((fresh_state cfg_pilot) \<lparr> encode_counters := almost_done 1 2 \<rparr>) = Inr s' \<and>
          encode_cur_frame_for_symbol s' = [SIZE_MAX, 0] \<and>
          sched_queue s' = [])
   \<and> (\<exists>s'. handle_zf_tag cfg_pilot (mk_tag 0 0 0)
            ((fresh_state cfg_pilot) \<lparr> encode_cur_frame_for_symbol := [0, 0] \<rparr>) = Inr s' \<and>
          zf_last_frame s' = 0 \<and>
          sched_queue s' =
            [(0, mk_event kPrecode [mk_tag 0 3 0]), (0, mk_event kPrecode [mk_tag 0 3 4]),
             (0, mk_event kPrecode [mk_tag 0 4 0]), (0, mk_event kPrecode [mk_tag 0 4 4])])
   \<and> (\<exists>s'. handle_zf_tag cfg_pilot (mk_tag 0 0 0)
            ((fresh_state cfg_pilot) \<lparr> encode_cur_frame_for_symbol := [0, SIZE_MAX] \<rparr>) = Inr s' \<and>
          zf_last_frame s' = 0 \<and>
          sched_queue s' =
            [(0, mk_event kPrecode [mk_tag 0 3 0]), (0, mk_event kPrecode [mk_tag 0 3 4])])"
proof -
  let ?s0 = "fresh_state cfg_pilot"
  let ?s1 = "(fresh_state cfg_pilot) \<lparr> zf_last_frame := 0 \<rparr>"
  let ?s2 = "(fresh_state cfg_pilot) \<lparr> zf_last_frame := 0, encode_counters := almost_done 1 2 \<rparr>"
  let ?s3 = "(fresh_state cfg_pilot) \<lparr> encode_counters := almost_done 1 2 \<rparr>"
  let ?s4 = "(fresh_state cfg_pilot) \<lparr> encode_cur_frame_for_symbol := [0, 0] \<rparr>"
  let ?s5 = "(fresh_state cfg_pilot) \<lparr> encode_cur_frame_for_symbol := [0, SIZE_MAX] \<rparr>"
  have f: "fft_cur_frame_for_symbol ?s0 = [SIZE_MAX, SIZE_MAX]"
    "encode_cur_frame_for_symbol ?s0 = [SIZE_MAX, SIZE_MAX]"
    "sched_queue ?s0 = []"
    "zf_last_frame ?s0 = SIZE_MAX"
    "zf_counters ?s0 = InitFrame 1"
    by (simp_all add: fresh_state_def cfg_pilot_simps numeral_2_eq_2)
  have l0: "length (fft_cur_frame_for_symbol ?s0) = NumULSyms cfg_pilot"
    "length (encode_cur_frame_for_symbol ?s0) = NumDLSyms cfg_pilot"
    and l1: "length (fft_cur_frame_for_symbol ?s1) = NumULSyms cfg_pilot"
    "length (encode_cur_frame_for_symbol ?s1) = NumDLSyms cfg_pilot"
    and l2: "length (fft_cur_frame_for_symbol ?s2) = NumULSyms cfg_pilot"
    "length (encode_cur_frame_for_symbol ?s2) = NumDLSyms cfg_pilot"
    and l3: "length (fft_cur_frame_for_symbol ?s3) = NumULSyms cfg_pilot"
    "length (encode_cur_frame_for_symbol ?s3) = NumDLSyms cfg_pilot"
    and l4: "length (fft_cur_frame_for_symbol ?s4) = NumULSyms cfg_pilot"
    "length (encode_cur_frame_for_symbol ?s4) = NumDLSyms cfg_pilot"
    and l5: "length (fft_cur_frame_for_symbol ?s5) = NumULSyms cfg_pilot"
    "length (encode_cur_frame_for_symbol ?s5) = NumDLSyms cfg_pilot"
    using f by (simp_all add: cfg_pilot_simps)
  have pre: "\<And>symbol. the_enqs (ScheduleSubcarriers cfg_pilot kPrecode 0 symbol) =
      [(0, mk_event kPrecode [mk_tag 0 symbol 0]), (0, mk_event kPrecode [mk_tag 0 symbol 4])]"
    using C1_precode_dispatch [OF l0, where frame = 0, THEN conjunct2, THEN conjunct2,
        THEN conjunct2, THEN conjunct2]
    by (simp add: cfg_pilot_simps upt_rec)
  have enc: "the_enqs (ScheduleCodeblocks cfg_pilot kEncode 0 4) =
      [(0, mk_event kEncode [mk_tag 0 4 0]), (0, mk_event kEncode [mk_tag 0 4 1])]"
    by (simp add: ScheduleCodeblocks_def block_loop_def cfg_pilot_simps Let_def upt_rec)
  have u: "[0..<Suc 0] = [0]" "[Suc 0..<2] = [Suc 0]" "[0..<2] = [0, Suc 0]"
    by (simp_all add: upt_rec)
  from C1_precode_dispatch [OF l1, where frame = 0, THEN conjunct2, THEN conjunct1]
  obtain t1 where t1: "ScheduleDownlinkProcessing cfg_pilot ?s1 0 = Inr t1"
    by (auto simp add: cfg_pilot_simps)
  from C1_precode_dispatch [OF l1, where frame = 0, THEN conjunct1, THEN spec, THEN mp, OF t1,
      THEN conjunct1]
  have "encode_cur_frame_for_symbol t1 = [SIZE_MAX, SIZE_MAX] \<and>
          sched_queue t1 =
            [(0, mk_event kPrecode [mk_tag 0 3 0]), (0, mk_event kPrecode [mk_tag 0 3 4]),
             (0, mk_event kEncode [mk_tag 0 4 0]), (0, mk_event kEncode [mk_tag 0 4 1])]"
    by (simp add: f cfg_pilot_simps u pre enc)
  with t1 have one: "\<exists>s'. ScheduleDownlinkProcessing cfg_pilot ?s1 0 = Inr s' \<and>
          encode_cur_frame_for_symbol s' = [SIZE_MAX, SIZE_MAX] \<and>
          sched_queue s' =
            [(0, mk_event kPrecode [mk_tag 0 3 0]), (0, mk_event kPrecode [mk_tag 0 3 4]),
             (0, mk_event kEncode [mk_tag 0 4 0]), (0, mk_event kEncode [mk_tag 0 4 1])]"
    by blast
  from C1_precode_dispatch [OF l0, where frame = 0, THEN conjunct2, THEN conjunct1]
  obtain t0 where t0: "ScheduleDownlinkProcessing cfg_pilot ?s0 0 = Inr t0"
    by (auto simp add: cfg_pilot_simps)
  from C1_precode_dispatch [OF l0, where frame = 0, THEN conjunct1, THEN spec, THEN mp, OF t0,
      THEN conjunct1]
  have "encode_cur_frame_for_symbol t0 = [0, SIZE_MAX] \<and>
          sched_queue t0 =
            [(0, mk_event kEncode [mk_tag 0 4 0]), (0, mk_event kEncode [mk_tag 0 4 1])]"
    by (simp add: f cfg_pilot_simps u pre enc SIZE_MAX_def)
  with t0 have two: "\<exists>s'. ScheduleDownlinkProcessing cfg_pilot ?s0 0 = Inr s' \<and>
          encode_cur_frame_for_symbol s' = [0, SIZE_MAX] \<and>
          sched_queue s' =
            [(0, mk_event kEncode [mk_tag 0 4 0]), (0, mk_event kEncode [mk_tag 0 4 1])]"
    by blast
  have a: "snd (CompleteTask (kFrameWnd cfg_pilot) (almost_done 1 2) 0 4)"
    by (simp add: CompleteTask_def IsLastTask_def almost_done_def Let_def cfg_pilot_simps)
  have three: "\<exists>s'. handle_encode_tag cfg_pilot (mk_tag 0 4 1) ?s2 = Inr s' \<and>
          encode_cur_frame_for_symbol s' = [SIZE_MAX, 0] \<and>
          sched_queue s' =
            [(0, mk_event kPrecode [mk_tag 0 4 0]), (0, mk_event kPrecode [mk_tag 0 4 4])]"
    using C1_precode_dispatch [OF l2, where tag = "mk_tag 0 4 1",
        THEN conjunct2, THEN conjunct2, THEN conjunct1] a f pre
    by (auto simp add: mk_tag_def cfg_pilot_simps)
  have four: "\<exists>s'. handle_encode_tag cfg_pilot (mk_tag 0 4 1) ?s3 = Inr s' \<and>
          encode_cur_frame_for_symbol s' = [SIZE_MAX, 0] \<and> sched_queue s' = []"
    using C1_precode_dispatch [OF l3, where tag = "mk_tag 0 4 1",
        THEN conjunct2, THEN conjunct2, THEN conjunct1] a f
    by (auto simp add: mk_tag_def cfg_pilot_simps SIZE_MAX_def)
  have z: "snd (CompleteTaskFrame (kFrameWnd cfg_pilot) (InitFrame 1) (frame_id (mk_tag 0 0 0)))"
    by (simp add: CompleteTaskFrame_def CompleteTask_def IsLastTask_def InitFrame_def Init_def
        Let_def mk_tag_def)
  have t: "frame_id (mk_tag 0 0 0) = 0"
    by (simp add: mk_tag_def)
  from C1_precode_dispatch [OF l4, where tag = "mk_tag 0 0 0",
        THEN conjunct2, THEN conjunct2, THEN conjunct2, THEN conjunct1]
  obtain t4 where t4: "handle_zf_tag cfg_pilot (mk_tag 0 0 0) ?s4 = Inr t4"
    and z4: "zf_last_frame t4 =
               (if snd (CompleteTaskFrame (kFrameWnd cfg_pilot) (zf_counters ?s4) (frame_id (mk_tag 0 0 0)))
                then frame_id (mk_tag 0 0 0) else zf_last_frame ?s4)"
    and q4: "(\<forall>i. ClientDlPilotSymbols cfg_pilot \<le> i \<and> i < NumDLSyms cfg_pilot \<longrightarrow>
                   encode_cur_frame_for_symbol ?s4 ! i = SIZE_MAX \<or>
                   encode_cur_frame_for_symbol ?s4 ! i \<le> frame_id (mk_tag 0 0 0)) \<longrightarrow>
              sched_queue t4 = sched_queue ?s4 @
               (if snd (CompleteTaskFrame (kFrameWnd cfg_pilot) (zf_counters ?s4) (frame_id (mk_tag 0 0 0)))
                then concat (map (\<lambda>i. if fft_cur_frame_for_symbol ?s4 ! i = frame_id (mk_tag 0 0 0)
                                       then the_enqs (ScheduleSubcarriers cfg_pilot kDemul (frame_id (mk_tag 0 0 0)) (GetULSymbol cfg_pilot i))
                                       else []) [0..<NumULSyms cfg_pilot]) @
                     concat (map (\<lambda>i. if (if i < ClientDlPilotSymbols cfg_pilot
                                           then encode_cur_frame_for_symbol ?s4 ! i \<noteq> SIZE_MAX \<and>
                                                encode_cur_frame_for_symbol ?s4 ! i \<ge> frame_id (mk_tag 0 0 0)
                                           else encode_cur_frame_for_symbol ?s4 ! i = frame_id (mk_tag 0 0 0) \<and>
                                                frame_id (mk_tag 0 0 0) \<noteq> SIZE_MAX)
                                       then the_enqs (ScheduleSubcarriers cfg_pilot kPrecode (frame_id (mk_tag 0 0 0)) (GetDLSymbol cfg_pilot i))
                                       else []) [0..<NumDLSyms cfg_pilot])
                else [])"
    by blast
  have h4: "\<forall>i. ClientDlPilotSymbols cfg_pilot \<le> i \<and> i < NumDLSyms cfg_pilot \<longrightarrow>
                   encode_cur_frame_for_symbol ?s4 ! i = SIZE_MAX \<or>
                   encode_cur_frame_for_symbol ?s4 ! i \<le> frame_id (mk_tag 0 0 0)"
    by (auto simp add: cfg_pilot_simps t less_Suc_eq numeral_2_eq_2)
  from z4 q4 [THEN mp, OF h4] z
  have "zf_last_frame t4 = 0 \<and>
          sched_queue t4 =
            [(0, mk_event kPrecode [mk_tag 0 3 0]), (0, mk_event kPrecode [mk_tag 0 3 4]),
             (0, mk_event kPrecode [mk_tag 0 4 0]), (0, mk_event kPrecode [mk_tag 0 4 4])]"
    by (simp add: f t cfg_pilot_simps u pre SIZE_MAX_def)
  with t4 have five: "\<exists>s'. handle_zf_tag cfg_pilot (mk_tag 0 0 0) ?s4 = Inr s' \<and>
          zf_last_frame s' = 0 \<and>
          sched_queue s' =
            [(0, mk_event kPrecode [mk_tag 0 3 0]), (0, mk_event kPrecode [mk_tag 0 3 4]),
             (0, mk_event kPrecode [mk_tag 0 4 0]), (0, mk_event kPrecode [mk_tag 0 4 4])]"
    by blast
  from C1_precode_dispatch [OF l5, where tag = "mk_tag 0 0 0",
        THEN conjunct2, THEN conjunct2, THEN conjunct2, THEN conjunct1]
  obtain t5 where t5: "handle_zf_tag cfg_pilot (mk_tag 0 0 0) ?s5 = Inr t5"
    and z5: "zf_last_frame t5 =
               (if snd (CompleteTaskFrame (kFrameWnd cfg_pilot) (zf_counters ?s5) (frame_id (mk_tag 0 0 0)))
                then frame_id (mk_tag 0 0 0) else zf_last_frame ?s5)"
    and q5: "sched_queue t5 = sched_queue ?s5 @
               (if snd (CompleteTaskFrame (kFrameWnd cfg_pilot) (zf_counters ?s5) (frame_id (mk_tag 0 0 0)))
                then concat (map (\<lambda>i. if fft_cur_frame_for_symbol ?s5 ! i = frame_id (mk_tag 0 0 0)
                                       then the_enqs (ScheduleSubcarriers cfg_pilot kDemul (frame_id (mk_tag 0 0 0)) (GetULSymbol cfg_pilot i))
                                       else []) [0..<NumULSyms cfg_pilot]) @
                     concat (map (\<lambda>i. if encode_cur_frame_for_symbol ?s5 ! i \<noteq> SIZE_MAX \<and>
                                          encode_cur_frame_for_symbol ?s5 ! i \<ge> frame_id (mk_tag 0 0 0)
                                       then the_enqs (ScheduleSubcarriers cfg_pilot kPrecode (frame_id (mk_tag 0 0 0)) (GetDLSymbol cfg_pilot i))
                                       else []) [0..<NumDLSyms cfg_pilot])
                else [])"
    by blast
  from z5 q5 z
  have "zf_last_frame t5 = 0 \<and>
          sched_queue t5 =
            [(0, mk_event kPrecode [mk_tag 0 3 0]), (0, mk_event kPrecode [mk_tag 0 3 4])]"
    by (simp add: f t cfg_pilot_simps u pre SIZE_MAX_def)
  with t5 have six: "\<exists>s'. handle_zf_tag cfg_pilot (mk_tag 0 0 0) ?s5 = Inr s' \<and>
          zf_last_frame s' = 0 \<and>
          sched_queue s' =
            [(0, mk_event kPrecode [mk_tag 0 3 0]), (0, mk_event kPrecode [mk_tag 0 3 4])]"
    by blast
  from one two three four five six show ?thesis by blast
qed

lemma cfg_min_frame0_done:
  "ifft_counters (frame0_done cfg_min) = symbols_done (Init 2 4) 0"
  "tx_counters (frame0_done cfg_min) = symbols_done (Init 2 4) 0"
  "decode_counters (frame0_done cfg_min) = symbols_done (Init 2 2) 0"
  "tomac_counters (frame0_done cfg_min) = Init 2 2"
  "cur_proc_frame_id (frame0_done cfg_min) = 0"
  "encode_deferral (frame0_done cfg_min) = []"
  "sched_queue (frame0_done cfg_min) = []"
  by (simp_all add: frame0_done_def fresh_state_def cfg_min_simps)

lemma IsLastSymbol_symbols_done:
  "0 < W \<Longrightarrow> IsLastSymbol W (symbols_done c 0) 0"
  by (simp add: IsLastSymbol_def symbols_done_def)

text \<open>
  C2.  As stated the claim fails: \<open>CheckFrameComplete\<close> returns the flag \<open>finished\<close>,
  which is set only for the frame \<open>FramesToTest - 1\<close>.  With three frames to test and the
  IFFT, TX and Decode counters of frame 0 at their last symbol, the call for frame 0
  returns false.
\<close>

theorem C2_complete_frame_returns_false:
  "IsLastSymbol (kFrameWnd cfg_min) (ifft_counters (frame0_done cfg_min)) 0 \<and>
   IsLastSymbol (kFrameWnd cfg_min) (tx_counters (frame0_done cfg_min)) 0 \<and>
   IsLastSymbol (kFrameWnd cfg_min) (decode_counters (frame0_done cfg_min)) 0 \<and>
   kEnableMac cfg_min = False \<and>
   map_sum id snd (CheckFrameComplete cfg_min (frame0_done cfg_min) 0) = Inr False"
  by (simp add: CheckFrameComplete_def Let_def cfg_min_frame0_done cfg_min_simps
      IsLastSymbol_symbols_done)

text \<open>
  C2 (amended).  \<open>CheckFrameComplete\<close> returns true exactly when the completion
  condition of frame \<open>F\<close> holds (IFFT at its last symbol, TX at its last symbol, and
  Decode, or with the MAC enabled MAC-TX, at its last symbol) and \<open>F\<close> is
  \<open>FramesToTest - 1\<close> (in \<open>size_t\<close> arithmetic).  Without the condition the call returns
  false and changes nothing.  With it the call fails the assertion when \<open>F\<close> is not
  \<open>cur_proc_frame_id\<close>, and every normal return has retired the frame: the Decode,
  MAC-TX, IFFT and TX counters of \<open>F\<close> are reset, the downlink bit buffers of its slot
  are marked free, \<open>cur_proc_frame_id\<close> is advanced by one, and a prefix of at most
  \<open>kScheduleQueues\<close> deferred frames, each inside the new window, has been popped and
  its downlink processing dispatched in order; the scan stops before a frame outside
  the window.  With an empty deferral queue the call returns normally.
\<close>

theorem C2_frame_complete:
  "(\<not> (IsLastSymbol (kFrameWnd cfg) (ifft_counters s) F \<and>
        IsLastSymbol (kFrameWnd cfg) (tx_counters s) F \<and>
        (if kEnableMac cfg then IsLastSymbol (kFrameWnd cfg) (tomac_counters s) F
         else IsLastSymbol (kFrameWnd cfg) (decode_counters s) F)) \<longrightarrow>
      CheckFrameComplete cfg s F = Inr (s, False))
   \<and> (IsLastSymbol (kFrameWnd cfg) (ifft_counters s) F \<and>
      IsLastSymbol (kFrameWnd cfg) (tx_counters s) F \<and>
      (if kEnableMac cfg then IsLastSymbol (kFrameWnd cfg) (tomac_counters s) F
       else IsLastSymbol (kFrameWnd cfg) (decode_counters s) F) \<longrightarrow>
      (asserts_enabled cfg \<and> F \<noteq> cur_proc_frame_id s \<longrightarrow>
         CheckFrameComplete cfg s F = Inl AssertFailed) \<and>
      (\<forall>s' fin. CheckFrameComplete cfg s F = Inr (s', fin) \<longrightarrow>
         fin = (F = (FramesToTest cfg + 2 ^ 64 - 1) mod 2 ^ 64) \<and>
         (\<exists>fs. encode_deferral s = fs @ encode_deferral s' \<and>
               length fs \<le> kScheduleQueues cfg \<and>
               (\<forall>f\<in>set fs. cur_proc_frame_id s + 1 \<le> f \<and>
                           f < cur_proc_frame_id s + 1 + kScheduleQueues cfg) \<and>
               (length fs < kScheduleQueues cfg \<and> encode_deferral s \<noteq> [] \<longrightarrow>
                  encode_deferral s' \<noteq> [] \<and>
                  \<not> hd (encode_deferral s') < cur_proc_frame_id s + 1 + kScheduleQueues cfg) \<and>
               s' = s \<lparr> cur_proc_frame_id := cur_proc_frame_id s + 1,
                        encode_cur_frame_for_symbol :=
                          fold (\<lambda>f v. if zf_last_frame s = f then v
                                      else fold (\<lambda>i v. v[i := f]) [0..<ClientDlPilotSymbols cfg] v)
                            fs (encode_cur_frame_for_symbol s),
                        encode_deferral := drop (length fs) (encode_deferral s),
                        decode_counters := Reset (kFrameWnd cfg) (decode_counters s) F,
                        tomac_counters := Reset (kFrameWnd cfg) (tomac_counters s) F,
                        ifft_counters := Reset (kFrameWnd cfg) (ifft_counters s) F,
                        tx_counters := Reset (kFrameWnd cfg) (tx_counters s) F,
                        dl_bits_buffer_status :=
                          (if 0 < NumDLSyms cfg
                           then (\<lambda>ue_id slot.
                                   if ue_id < UeAntNum cfg \<and> slot = F mod kFrameWnd cfg then 0
                                   else dl_bits_buffer_status s ue_id slot)
                           else dl_bits_buffer_status s),
                        sched_queue :=
                          sched_queue s @
                          concat (map (\<lambda>f. downlink_events cfg (zf_last_frame s = f) f) fs) \<rparr>)) \<and>
      (encode_deferral s = [] \<and> (asserts_enabled cfg \<longrightarrow> F = cur_proc_frame_id s) \<longrightarrow>
         (\<exists>s'. CheckFrameComplete cfg s F =
                 Inr (s', F = (FramesToTest cfg + 2 ^ 64 - 1) mod 2 ^ 64))))"
proof (cases "IsLastSymbol (kFrameWnd cfg) (ifft_counters s) F \<and>
      IsLastSymbol (kFrameWnd cfg) (tx_counters s) F \<and>
      (if kEnableMac cfg then IsLastSymbol (kFrameWnd cfg) (tomac_counters s) F
       else IsLastSymbol (kFrameWnd cfg) (decode_counters s) F)")
  case False
  then have "CheckFrameComplete cfg s F = Inr (s, False)"
    by (rule CheckFrameComplete_not_complete)
  with False show ?thesis by blast
next
  case True
  note r = CheckFrameComplete_complete [OF True]
  have x: "asserts_enabled cfg \<and> F \<noteq> cur_proc_frame_id s \<longrightarrow>
         CheckFrameComplete cfg s F = Inl AssertFailed"
    using r by simp
  have a: "\<forall>s' fin. CheckFrameComplete cfg s F = Inr (s', fin) \<longrightarrow>
         fin = (F = (FramesToTest cfg + 2 ^ 64 - 1) mod 2 ^ 64) \<and>
         (\<exists>fs. encode_deferral s = fs @ encode_deferral s' \<and>
               length fs \<le> kScheduleQueues cfg \<and>
               (\<forall>f\<in>set fs. cur_proc_frame_id s + 1 \<le> f \<and>
                           f < cur_proc_frame_id s + 1 + kScheduleQueues cfg) \<and>
               (length fs < kScheduleQueues cfg \<and> encode_deferral s \<noteq> [] \<longrightarrow>
                  encode_deferral s' \<noteq> [] \<and>
                  \<not> hd (encode_deferral s') < cur_proc_frame_id s + 1 + kScheduleQueues cfg) \<and>
               s' = s \<lparr> cur_proc_frame_id := cur_proc_frame_id s + 1,
                        encode_cur_frame_for_symbol :=
                          fold (\<lambda>f v. if zf_last_frame s = f then v
                                      else fold (\<lambda>i v. v[i := f]) [0..<ClientDlPilotSymbols cfg] v)
                            fs (encode_cur_frame_for_symbol s),
                        encode_deferral := drop (length fs) (encode_deferral s),
                        decode_counters := Reset (kFrameWnd cfg) (decode_counters s) F,
                        tomac_counters := Reset (kFrameWnd cfg) (tomac_counters s) F,
                        ifft_counters := Reset (kFrameWnd cfg) (ifft_counters s) F,
                        tx_counters := Reset (kFrameWnd cfg) (tx_counters s) F,
                        dl_bits_buffer_status :=
                          (if 0 < NumDLSyms cfg
                           then (\<lambda>ue_id slot.
                                   if ue_id < UeAntNum cfg \<and> slot = F mod kFrameWnd cfg then 0
                                   else dl_bits_buffer_status s ue_id slot)
                           else dl_bits_buffer_status s),
                        sched_queue :=
                          sched_queue s @
                          concat (map (\<lambda>f. downlink_events cfg (zf_last_frame s = f) f) fs) \<rparr>)"
  proof (intro allI impI)
    fix s' fin
    assume "CheckFrameComplete cfg s F = Inr (s', fin)"
    with r have d: "fin = (F = (FramesToTest cfg + 2 ^ 64 - 1) mod 2 ^ 64)"
      and c: "s' = retired cfg s F \<and> encode_deferral s = [] \<or>
           encode_deferral s \<noteq> [] \<and>
           drain_deferral cfg (kScheduleQueues cfg) (retired cfg s F) = Inr s'"
      by (auto split: if_splits sum.splits)
    from c have "\<exists>fs. encode_deferral s = fs @ encode_deferral s' \<and>
               length fs \<le> kScheduleQueues cfg \<and>
               (\<forall>f\<in>set fs. cur_proc_frame_id s + 1 \<le> f \<and>
                           f < cur_proc_frame_id s + 1 + kScheduleQueues cfg) \<and>
               (length fs < kScheduleQueues cfg \<and> encode_deferral s \<noteq> [] \<longrightarrow>
                  encode_deferral s' \<noteq> [] \<and>
                  \<not> hd (encode_deferral s') < cur_proc_frame_id s + 1 + kScheduleQueues cfg) \<and>
               s' = (retired cfg s F) \<lparr> encode_cur_frame_for_symbol :=
                          fold (\<lambda>f v. if zf_last_frame s = f then v
                                      else fold (\<lambda>i v. v[i := f]) [0..<ClientDlPilotSymbols cfg] v)
                            fs (encode_cur_frame_for_symbol s),
                        encode_deferral := drop (length fs) (encode_deferral s),
                        sched_queue :=
                          sched_queue s @
                          concat (map (\<lambda>f. downlink_events cfg (zf_last_frame s = f) f) fs) \<rparr>"
    proof
      assume e: "s' = retired cfg s F \<and> encode_deferral s = []"
      then have "encode_deferral s = [] @ encode_deferral s' \<and>
               length ([] :: nat list) \<le> kScheduleQueues cfg \<and>
               (\<forall>f\<in>set []. cur_proc_frame_id s + 1 \<le> f \<and>
                           f < cur_proc_frame_id s + 1 + kScheduleQueues cfg) \<and>
               (length ([] :: nat list) < kScheduleQueues cfg \<and> encode_deferral s \<noteq> [] \<longrightarrow>
                  encode_deferral s' \<noteq> [] \<and>
                  \<not> hd (encode_deferral s') < cur_proc_frame_id s + 1 + kScheduleQueues cfg) \<and>
               s' = (retired cfg s F) \<lparr> encode_cur_frame_for_symbol :=
                          fold (\<lambda>f v. if zf_last_frame s = f then v
                                      else fold (\<lambda>i v. v[i := f]) [0..<ClientDlPilotSymbols cfg] v)
                            [] (encode_cur_frame_for_symbol s),
                        encode_deferral := drop (length ([] :: nat list)) (encode_deferral s),
                        sched_queue :=
                          sched_queue s @
                          concat (map (\<lambda>f. downlink_events cfg (zf_last_frame s = f) f) []) \<rparr>"
        by (simp add: retired_def)
      then show ?thesis by blast
    next
      assume e: "encode_deferral s \<noteq> [] \<and>
           drain_deferral cfg (kScheduleQueues cfg) (retired cfg s F) = Inr s'"
      from drain_deferral_state [OF e [THEN conjunct2]] obtain fs where
        fs: "encode_deferral (retired cfg s F) = fs @ encode_deferral s'"
          "length fs \<le> kScheduleQueues cfg"
          "\<forall>f\<in>set fs. cur_proc_frame_id (retired cfg s F) \<le> f \<and>
              f < cur_proc_frame_id (retired cfg s F) + kScheduleQueues cfg"
          "length fs < kScheduleQueues cfg \<longrightarrow>
             encode_deferral s' \<noteq> [] \<and>
             \<not> hd (encode_deferral s') < cur_proc_frame_id (retired cfg s F) + kScheduleQueues cfg"
          "s' = (retired cfg s F)
             \<lparr> encode_cur_frame_for_symbol :=
                 fold (\<lambda>f v. if zf_last_frame (retired cfg s F) = f then v
                             else fold (\<lambda>i v. v[i := f]) [0..<ClientDlPilotSymbols cfg] v)
                   fs (encode_cur_frame_for_symbol (retired cfg s F)),
               encode_deferral := drop (length fs) (encode_deferral (retired cfg s F)),
               sched_queue :=
                 sched_queue (retired cfg s F) @
                 concat (map (\<lambda>f. downlink_events cfg (zf_last_frame (retired cfg s F) = f) f) fs) \<rparr>"
        by blast
      have "encode_deferral s = fs @ encode_deferral s' \<and>
               length fs \<le> kScheduleQueues cfg \<and>
               (\<forall>f\<in>set fs. cur_proc_frame_id s + 1 \<le> f \<and>
                           f < cur_proc_frame_id s + 1 + kScheduleQueues cfg) \<and>
               (length fs < kScheduleQueues cfg \<and> encode_deferral s \<noteq> [] \<longrightarrow>
                  encode_deferral s' \<noteq> [] \<and>
                  \<not> hd (encode_deferral s') < cur_proc_frame_id s + 1 + kScheduleQueues cfg) \<and>
               s' = (retired cfg s F) \<lparr> encode_cur_frame_for_symbol :=
                          fold (\<lambda>f v. if zf_last_frame s = f then v
                                      else fold (\<lambda>i v. v[i := f]) [0..<ClientDlPilotSymbols cfg] v)
                            fs (encode_cur_frame_for_symbol s),
                        encode_deferral := drop (length fs) (encode_deferral s),
                        sched_queue :=
                          sched_queue s @
                          concat (map (\<lambda>f. downlink_events cfg (zf_last_frame s = f) f) fs) \<rparr>"
        using fs by (simp del: One_nat_def)
      then show ?thesis by blast
    qed
    then obtain fs where
      fs: "encode_deferral s = fs @ encode_deferral s'"
        "length fs \<le> kScheduleQueues cfg"
        "\<forall>f\<in>set fs. cur_proc_frame_id s + 1 \<le> f \<and>
                           f < cur_proc_frame_id s + 1 + kScheduleQueues cfg"
        "length fs < kScheduleQueues cfg \<and> encode_deferral s \<noteq> [] \<longrightarrow>
                  encode_deferral s' \<noteq> [] \<and>
                  \<not> hd (encode_deferral s') < cur_proc_frame_id s + 1 + kScheduleQueues cfg"
      and st: "s' = (retired cfg s F) \<lparr> encode_cur_frame_for_symbol :=
                          fold (\<lambda>f v. if zf_last_frame s = f then v
                                      else fold (\<lambda>i v. v[i := f]) [0..<ClientDlPilotSymbols cfg] v)
                            fs (encode_cur_frame_for_symbol s),
                        encode_deferral := drop (length fs) (encode_deferral s),
                        sched_queue :=
                          sched_queue s @
                          concat (map (\<lambda>f. downlink_events cfg (zf_last_frame s = f) f) fs) \<rparr>"
      by blast
    have eq: "\<And>e dq q. (retired cfg s F) \<lparr> encode_cur_frame_for_symbol := e,
                        encode_deferral := dq, sched_queue := q \<rparr> =
               s \<lparr> cur_proc_frame_id := cur_proc_frame_id s + 1,
                        encode_cur_frame_for_symbol := e,
                        encode_deferral := dq,
                        decode_counters := Reset (kFrameWnd cfg) (decode_counters s) F,
                        tomac_counters := Reset (kFrameWnd cfg) (tomac_counters s) F,
                        ifft_counters := Reset (kFrameWnd cfg) (ifft_counters s) F,
                        tx_counters := Reset (kFrameWnd cfg) (tx_counters s) F,
                        dl_bits_buffer_status :=
                          (if 0 < NumDLSyms cfg
                           then (\<lambda>ue_id slot.
                                   if ue_id < UeAntNum cfg \<and> slot = F mod kFrameWnd cfg then 0
                                   else dl_bits_buffer_status s ue_id slot)
                           else dl_bits_buffer_status s),
                        sched_queue := q \<rparr>"
      by (simp add: retired_def del: One_nat_def)
    note st' = st [unfolded eq]
    from fs st' have "\<exists>fs. encode_deferral s = fs @ encode_deferral s' \<and>
               length fs \<le> kScheduleQueues cfg \<and>
               (\<forall>f\<in>set fs. cur_proc_frame_id s + 1 \<le> f \<and>
                           f < cur_proc_frame_id s + 1 + kScheduleQueues cfg) \<and>
               (length fs < kScheduleQueues cfg \<and> encode_deferral s \<noteq> [] \<longrightarrow>
                  encode_deferral s' \<noteq> [] \<and>
                  \<not> hd (encode_deferral s') < cur_proc_frame_id s + 1 + kScheduleQueues cfg) \<and>
               s' = s \<lparr> cur_proc_frame_id := cur_proc_frame_id s + 1,
                        encode_cur_frame_for_symbol :=
                          fold (\<lambda>f v. if zf_last_frame s = f then v
                                      else fold (\<lambda>i v. v[i := f]) [0..<ClientDlPilotSymbols cfg] v)
                            fs (encode_cur_frame_for_symbol s),
                        encode_deferral := drop (length fs) (encode_deferral s),
                        decode_counters := Reset (kFrameWnd cfg) (decode_counters s) F,
                        tomac_counters := Reset (kFrameWnd cfg) (tomac_counters s) F,
                        ifft_counters := Reset (kFrameWnd cfg) (ifft_counters s) F,
                        tx_counters := Reset (kFrameWnd cfg) (tx_counters s) F,
                        dl_bits_buffer_status :=
                          (if 0 < NumDLSyms cfg
                           then (\<lambda>ue_id slot.
                                   if ue_id < UeAntNum cfg \<and> slot = F mod kFrameWnd cfg then 0
                                   else dl_bits_buffer_status s ue_id slot)
                           else dl_bits_buffer_status s),
                        sched_queue :=
                          sched_queue s @
                          concat (map (\<lambda>f. downlink_events cfg (zf_last_frame s = f) f) fs) \<rparr>"
      by blast
    with d show "fin = (F = (FramesToTest cfg + 2 ^ 64 - 1) mod 2 ^ 64) \<and>
         (\<exists>fs. encode_deferral s = fs @ encode_deferral s' \<and>
               length fs \<le> kScheduleQueues cfg \<and>
               (\<forall>f\<in>set fs. cur_proc_frame_id s + 1 \<le> f \<and>
                           f < cur_proc_frame_id s + 1 + kScheduleQueues cfg) \<and>
               (length fs < kScheduleQueues cfg \<and> encode_deferral s \<noteq> [] \<longrightarrow>
                  encode_deferral s' \<noteq> [] \<and>
                  \<not> hd (encode_deferral s') < cur_proc_frame_id s + 1 + kScheduleQueues cfg) \<and>
               s' = s \<lparr> cur_proc_frame_id := cur_proc_frame_id s + 1,
                        encode_cur_frame_for_symbol :=
                          fold (\<lambda>f v. if zf_last_frame s = f then v
                                      else fold (\<lambda>i v. v[i := f]) [0..<ClientDlPilotSymbols cfg] v)
                            fs (encode_cur_frame_for_symbol s),
                        encode_deferral := drop (length fs) (encode_deferral s),
                        decode_counters := Reset (kFrameWnd cfg) (decode_counters s) F,
                        tomac_counters := Reset (kFrameWnd cfg) (tomac_counters s) F,
                        ifft_counters := Reset (kFrameWnd cfg) (ifft_counters s) F,
                        tx_counters := Reset (kFrameWnd cfg) (tx_counters s) F,
                        dl_bits_buffer_status :=
                          (if 0 < NumDLSyms cfg
                           then (\<lambda>ue_id slot.
                                   if ue_id < UeAntNum cfg \<and> slot = F mod kFrameWnd cfg then 0
                                   else dl_bits_buffer_status s ue_id slot)
                           else dl_bits_buffer_status s),
                        sched_queue :=
                          sched_queue s @
                          concat (map (\<lambda>f. downlink_events cfg (zf_last_frame s = f) f) fs) \<rparr>)"
      by blast
  qed
  have b: "encode_deferral s = [] \<and> (asserts_enabled cfg \<longrightarrow> F = cur_proc_frame_id s) \<longrightarrow>
         (\<exists>s'. CheckFrameComplete cfg s F =
                 Inr (s', F = (FramesToTest cfg + 2 ^ 64 - 1) mod 2 ^ 64))"
    using r by auto
  from True x a b show ?thesis by blast
qed

theorem C2_frame_complete_witness:
  "(\<exists>s'. CheckFrameComplete cfg_min (frame0_done cfg_min) 0 = Inr (s', False) \<and>
          cur_proc_frame_id s' = 1 \<and> symbol_count (ifft_counters s') 0 = 0 \<and>
          symbol_count (tx_counters s') 0 = 0 \<and> symbol_count (decode_counters s') 0 = 0)
   \<and> (\<exists>s'. CheckFrameComplete (cfg_min \<lparr> FramesToTest := 1 \<rparr>) (frame0_done cfg_min) 0 =
            Inr (s', True))
   \<and> CheckFrameComplete cfg_min (fresh_state cfg_min) 0 = Inr (fresh_state cfg_min, False)
   \<and> CheckFrameComplete cfg_min ((frame0_done cfg_min) \<lparr> cur_proc_frame_id := 1 \<rparr>) 0 =
        Inl AssertFailed
   \<and> (\<exists>s'. CheckFrameComplete cfg_min ((frame0_done cfg_min) \<lparr> encode_deferral := [2, 3] \<rparr>) 0 =
            Inr (s', False) \<and>
          cur_proc_frame_id s' = 1 \<and> encode_deferral s' = [3] \<and>
          sched_queue s' = downlink_events cfg_min False 2)"
proof -
  let ?one = "cfg_min \<lparr> FramesToTest := 1 \<rparr>"
  let ?s = "frame0_done cfg_min"
  let ?a = "(frame0_done cfg_min) \<lparr> cur_proc_frame_id := 1 \<rparr>"
  let ?d = "(frame0_done cfg_min) \<lparr> encode_deferral := [2, 3] \<rparr>"
  have c: "IsLastSymbol (kFrameWnd cfg_min) (ifft_counters ?s) 0 \<and>
      IsLastSymbol (kFrameWnd cfg_min) (tx_counters ?s) 0 \<and>
      (if kEnableMac cfg_min then IsLastSymbol (kFrameWnd cfg_min) (tomac_counters ?s) 0
       else IsLastSymbol (kFrameWnd cfg_min) (decode_counters ?s) 0)"
    by (simp add: cfg_min_frame0_done cfg_min_simps IsLastSymbol_symbols_done)
  have c1: "IsLastSymbol (kFrameWnd ?one) (ifft_counters ?s) 0 \<and>
      IsLastSymbol (kFrameWnd ?one) (tx_counters ?s) 0 \<and>
      (if kEnableMac ?one then IsLastSymbol (kFrameWnd ?one) (tomac_counters ?s) 0
       else IsLastSymbol (kFrameWnd ?one) (decode_counters ?s) 0)"
    by (simp add: cfg_min_frame0_done cfg_min_simps IsLastSymbol_symbols_done)
  have ca: "IsLastSymbol (kFrameWnd cfg_min) (ifft_counters ?a) 0 \<and>
      IsLastSymbol (kFrameWnd cfg_min) (tx_counters ?a) 0 \<and>
      (if kEnableMac cfg_min then IsLastSymbol (kFrameWnd cfg_min) (tomac_counters ?a) 0
       else IsLastSymbol (kFrameWnd cfg_min) (decode_counters ?a) 0)"
    by (simp add: cfg_min_frame0_done cfg_min_simps IsLastSymbol_symbols_done)
  have cd: "IsLastSymbol (kFrameWnd cfg_min) (ifft_counters ?d) 0 \<and>
      IsLastSymbol (kFrameWnd cfg_min) (tx_counters ?d) 0 \<and>
      (if kEnableMac cfg_min then IsLastSymbol (kFrameWnd cfg_min) (tomac_counters ?d) 0
       else IsLastSymbol (kFrameWnd cfg_min) (decode_counters ?d) 0)"
    by (simp add: cfg_min_frame0_done cfg_min_simps IsLastSymbol_symbols_done)
  have n: "\<not> (IsLastSymbol (kFrameWnd cfg_min) (ifft_counters (fresh_state cfg_min)) 0 \<and>
        IsLastSymbol (kFrameWnd cfg_min) (tx_counters (fresh_state cfg_min)) 0 \<and>
        (if kEnableMac cfg_min then IsLastSymbol (kFrameWnd cfg_min) (tomac_counters (fresh_state cfg_min)) 0
         else IsLastSymbol (kFrameWnd cfg_min) (decode_counters (fresh_state cfg_min)) 0))"
    by (simp add: fresh_state_def cfg_min_simps IsLastSymbol_def Init_def)
  have e: "encode_deferral ?s = [] \<and>
           (asserts_enabled cfg_min \<longrightarrow> 0 = cur_proc_frame_id ?s)"
    "encode_deferral ?s = [] \<and>
           (asserts_enabled ?one \<longrightarrow> 0 = cur_proc_frame_id ?s)"
    by (simp_all add: cfg_min_frame0_done)
  note t = C2_frame_complete [of cfg_min ?s 0, THEN conjunct2, THEN mp, OF c]
  from t [THEN conjunct2, THEN conjunct2, THEN mp, OF e(1)] obtain s' where
    s': "CheckFrameComplete cfg_min ?s 0 =
           Inr (s', 0 = (FramesToTest cfg_min + 2 ^ 64 - 1) mod 2 ^ 64)"
    by (rule exE)
  from t [THEN conjunct2, THEN conjunct1, THEN spec, THEN spec, THEN mp, OF s'] obtain fs where
    st: "s' = ?s \<lparr> cur_proc_frame_id := cur_proc_frame_id ?s + 1,
                        encode_cur_frame_for_symbol :=
                          fold (\<lambda>f v. if zf_last_frame ?s = f then v
                                      else fold (\<lambda>i v. v[i := f]) [0..<ClientDlPilotSymbols cfg_min] v)
                            fs (encode_cur_frame_for_symbol ?s),
                        encode_deferral := drop (length fs) (encode_deferral ?s),
                        decode_counters := Reset (kFrameWnd cfg_min) (decode_counters ?s) 0,
                        tomac_counters := Reset (kFrameWnd cfg_min) (tomac_counters ?s) 0,
                        ifft_counters := Reset (kFrameWnd cfg_min) (ifft_counters ?s) 0,
                        tx_counters := Reset (kFrameWnd cfg_min) (tx_counters ?s) 0,
                        dl_bits_buffer_status :=
                          (if 0 < NumDLSyms cfg_min
                           then (\<lambda>ue_id slot.
                                   if ue_id < UeAntNum cfg_min \<and> slot = 0 mod kFrameWnd cfg_min then 0
                                   else dl_bits_buffer_status ?s ue_id slot)
                           else dl_bits_buffer_status ?s),
                        sched_queue :=
                          sched_queue ?s @
                          concat (map (\<lambda>f. downlink_events cfg_min (zf_last_frame ?s = f) f) fs) \<rparr>"
    by blast
  have p: "cur_proc_frame_id s' = 1" "symbol_count (ifft_counters s') 0 = 0"
    "symbol_count (tx_counters s') 0 = 0" "symbol_count (decode_counters s') 0 = 0"
    by (subst st, simp add: cfg_min_frame0_done Reset_def cfg_min_simps)+
  from s' have "CheckFrameComplete cfg_min ?s 0 = Inr (s', False)"
    by (simp add: cfg_min_simps)
  with p have one: "\<exists>s'. CheckFrameComplete cfg_min ?s 0 = Inr (s', False) \<and>
          cur_proc_frame_id s' = 1 \<and> symbol_count (ifft_counters s') 0 = 0 \<and>
          symbol_count (tx_counters s') 0 = 0 \<and> symbol_count (decode_counters s') 0 = 0"
    by blast
  from C2_frame_complete [of ?one ?s 0, THEN conjunct2, THEN mp, OF c1,
      THEN conjunct2, THEN conjunct2, THEN mp, OF e(2)]
  have two: "\<exists>s'. CheckFrameComplete ?one ?s 0 = Inr (s', True)"
    by simp
  have three: "CheckFrameComplete cfg_min (fresh_state cfg_min) 0 = Inr (fresh_state cfg_min, False)"
    by (rule C2_frame_complete [of cfg_min "fresh_state cfg_min" 0, THEN conjunct1, THEN mp, OF n])
  have four: "CheckFrameComplete cfg_min ?a 0 = Inl AssertFailed"
    by (rule C2_frame_complete [of cfg_min ?a 0, THEN conjunct2, THEN mp, OF ca,
          THEN conjunct1, THEN mp])
       (simp add: cfg_min_simps)
  have pd: "cur_proc_frame_id ?d = 0" "encode_deferral ?d = [2, 3]" "sched_queue ?d = []"
    by (simp_all add: cfg_min_frame0_done)
  have ec: "encode_cur_frame_for_symbol (retired cfg_min ?d 0) = [SIZE_MAX, SIZE_MAX]"
    "zf_last_frame (retired cfg_min ?d 0) = SIZE_MAX"
    by (simp_all add: frame0_done_def fresh_state_def cfg_min_simps numeral_2_eq_2)
  have ok: "ScheduleDownlinkProcessing cfg_min (retired cfg_min ?d 0) 2 =
           Inr (enqueue (downlink_events cfg_min (zf_last_frame (retired cfg_min ?d 0) = 2) 2)
                 ((retired cfg_min ?d 0) \<lparr> encode_cur_frame_for_symbol :=
                       (if zf_last_frame (retired cfg_min ?d 0) = 2
                        then encode_cur_frame_for_symbol (retired cfg_min ?d 0)
                        else fold (\<lambda>i v. v[i := 2]) [0..<ClientDlPilotSymbols cfg_min]
                               (encode_cur_frame_for_symbol (retired cfg_min ?d 0))) \<rparr>))"
    by (rule ScheduleDownlinkProcessing_ok) (simp_all add: cfg_min_simps ec)
  have k: "kScheduleQueues cfg_min = Suc (Suc 0)"
    by (simp add: cfg_min_simps)
  have zf: "zf_last_frame (frame0_done cfg_min) = SIZE_MAX"
    by (simp add: frame0_done_def fresh_state_def)
  have "\<exists>s'. drain_deferral cfg_min (Suc (Suc 0)) (retired cfg_min ?d 0) = Inr s' \<and>
          encode_deferral s' = [3] \<and> sched_queue s' = downlink_events cfg_min False 2"
    by (simp add: pd ok cfg_min_simps cfg_min_frame0_done ec zf SIZE_MAX_def)
  then obtain sd where
    dr: "drain_deferral cfg_min (kScheduleQueues cfg_min) (retired cfg_min ?d 0) = Inr sd"
    and sd: "encode_deferral sd = [3]" "sched_queue sd = downlink_events cfg_min False 2"
    unfolding k by blast
  have r: "CheckFrameComplete cfg_min ?d 0 =
      Inr (sd, 0 = (FramesToTest cfg_min + 2 ^ 64 - 1) mod 2 ^ 64)"
    unfolding CheckFrameComplete_complete [OF cd] dr
    by (simp add: cfg_min_frame0_done cfg_min_simps)
  from C2_frame_complete [of cfg_min ?d 0, THEN conjunct2, THEN mp, OF cd,
      THEN conjunct2, THEN conjunct1, THEN spec, THEN spec, THEN mp, OF r]
  obtain gs where
    "sd = ?d \<lparr> cur_proc_frame_id := cur_proc_frame_id ?d + 1,
                        encode_cur_frame_for_symbol :=
                          fold (\<lambda>f v. if zf_last_frame ?d = f then v
                                      else fold (\<lambda>i v. v[i := f]) [0..<ClientDlPilotSymbols cfg_min] v)
                            gs (encode_cur_frame_for_symbol ?d),
                        encode_deferral := drop (length gs) (encode_deferral ?d),
                        decode_counters := Reset (kFrameWnd cfg_min) (decode_counters ?d) 0,
                        tomac_counters := Reset (kFrameWnd cfg_min) (tomac_counters ?d) 0,
                        ifft_counters := Reset (kFrameWnd cfg_min) (ifft_counters ?d) 0,
                        tx_counters := Reset (kFrameWnd cfg_min) (tx_counters ?d) 0,
                        dl_bits_buffer_status :=
                          (if 0 < NumDLSyms cfg_min
                           then (\<lambda>ue_id slot.
                                   if ue_id < UeAntNum cfg_min \<and> slot = 0 mod kFrameWnd cfg_min then 0
                                   else dl_bits_buffer_status ?d ue_id slot)
                           else dl_bits_buffer_status ?d),
                        sched_queue :=
                          sched_queue ?d @
                          concat (map (\<lambda>f. downlink_events cfg_min (zf_last_frame ?d = f) f) gs) \<rparr>"
    by blast
  then have "cur_proc_frame_id sd = 1"
    by (simp add: cfg_min_frame0_done)
  moreover from r have "CheckFrameComplete cfg_min ?d 0 = Inr (sd, False)"
    by (simp add: cfg_min_simps)
  ultimately have five: "\<exists>s'. CheckFrameComplete cfg_min ?d 0 = Inr (s', False) \<and>
          cur_proc_frame_id s' = 1 \<and> encode_deferral s' = [3] \<and>
          sched_queue s' = downlink_events cfg_min False 2"
    using sd by blast
  from one two three four five show ?thesis by blast
qed

text \<open>
  C6.  The drain loop of \<open>CheckFrameComplete\<close> tests the deferral queue for emptiness
  once, before the loop, and then reads its front in each of the \<open>kScheduleQueues\<close>
  rounds.  When frame 0 retires with the single frame 2 deferred and two schedule queues,
  the first round dispatches and pops frame 2 and the second round reads the front of
  the empty queue, which is undefined behaviour; the scan does not halt at the end of
  the queue.
\<close>

theorem C6_drain_reads_empty_queue:
  "CheckFrameComplete cfg_min ((frame0_done cfg_min) \<lparr> encode_deferral := [2] \<rparr>) 0 =
     Inl EmptyQueueFront"
proof -
  let ?s = "(frame0_done cfg_min) \<lparr> encode_deferral := [2] \<rparr>"
  have c: "IsLastSymbol (kFrameWnd cfg_min) (ifft_counters ?s) 0 \<and>
        IsLastSymbol (kFrameWnd cfg_min) (tx_counters ?s) 0 \<and>
        (if kEnableMac cfg_min then IsLastSymbol (kFrameWnd cfg_min) (tomac_counters ?s) 0
         else IsLastSymbol (kFrameWnd cfg_min) (decode_counters ?s) 0)"
    by (simp add: cfg_min_frame0_done cfg_min_simps IsLastSymbol_symbols_done)
  have p: "cur_proc_frame_id ?s = 0" "encode_deferral ?s = [2]"
    by (simp_all add: cfg_min_frame0_done)
  have e: "encode_cur_frame_for_symbol (retired cfg_min ?s 0) = [SIZE_MAX, SIZE_MAX]"
    by (simp add: frame0_done_def fresh_state_def cfg_min_simps numeral_2_eq_2)
  have ok: "ScheduleDownlinkProcessing cfg_min (retired cfg_min ?s 0) 2 =
           Inr (enqueue (downlink_events cfg_min (zf_last_frame (retired cfg_min ?s 0) = 2) 2)
                 ((retired cfg_min ?s 0) \<lparr> encode_cur_frame_for_symbol :=
                       (if zf_last_frame (retired cfg_min ?s 0) = 2
                        then encode_cur_frame_for_symbol (retired cfg_min ?s 0)
                        else fold (\<lambda>i v. v[i := 2]) [0..<ClientDlPilotSymbols cfg_min]
                               (encode_cur_frame_for_symbol (retired cfg_min ?s 0))) \<rparr>))"
    by (rule ScheduleDownlinkProcessing_ok) (simp_all add: cfg_min_simps e)
  have d: "drain_deferral cfg_min (Suc (Suc 0)) (retired cfg_min ?s 0) = Inl EmptyQueueFront"
    by (simp add: p ok cfg_min_simps cfg_min_frame0_done)
  have k: "kScheduleQueues cfg_min = Suc (Suc 0)"
    by (simp add: cfg_min_simps)
  have d': "drain_deferral cfg_min (kScheduleQueues cfg_min) (retired cfg_min ?s 0) =
              Inl EmptyQueueFront"
    unfolding k by (rule d)
  show ?thesis
    unfolding CheckFrameComplete_complete [OF c] d'
    by (simp add: cfg_min_frame0_done cfg_min_simps)
qed

end
